theory Spec2Isabelle
  imports Complex_Main
begin

section \<open>Data model\<close>

text \<open>
  The repository holds two revisions of the same server: \<^verbatim>\<open>src/server.js\<close> and
  \<^verbatim>\<open>src/unnamed/part_000\<close>. Functions that are the same text in both are embedded once.
  Functions that differ are embedded twice, with the suffix \<open>_srv\<close> for the text of
  \<^verbatim>\<open>src/server.js\<close> and \<open>_p0\<close> for the text of \<^verbatim>\<open>src/unnamed/part_000\<close>.
\<close>

text \<open>
  \<open>socket.userId\<close> is \<open>undefined\<close> until the connection has authenticated and the numeric
  row id of the user afterwards. Vote targets come from the client and are compared with
  \<open>===\<close> only, so they live in the same type.
\<close>

datatype identity = Undefined | UserId nat

text \<open>JavaScript truthiness of an identity: \<open>undefined\<close> and \<open>0\<close> are falsy.\<close>

fun truthy :: "identity \<Rightarrow> bool" where
  "truthy Undefined = False"
| "truthy (UserId n) = (n \<noteq> 0)"

record player =
  player_id :: identity
  username :: string
  socketId :: string
  isAdmin :: bool

datatype gameState = Waiting | Playing | Voting | Ended

record settings =
  maxPlayers :: int
  roundTime :: int
  theme :: string
  difficulty :: string

text \<open>
  \<open>skipVotes\<close> is a JavaScript \<open>Set\<close> and \<open>votes\<close> a JavaScript \<open>Map\<close>: both iterate in
  insertion order and hold each key once. They are lists without repeated keys, maintained
  by \<open>Set_add\<close> and \<open>Map_set\<close>. \<open>None\<close> stands for \<open>null\<close> and \<open>undefined\<close>.
\<close>

record round =
  word :: "string option"
  imposter :: "player option"
  timeRemaining :: int
  skipVotes :: "identity list"
  votes :: "(identity \<times> identity) list"
  startTime :: "int option"

record historyEntry =
  h_word :: "string option"
  h_imposter :: "player option"
  h_votedOut :: "player option"
  h_imposterWon :: bool
  h_players :: "player list"
  h_timestamp :: int

record room =
  room_id :: string
  room_name :: string
  adminId :: identity
  players :: "player list"
  gameState :: gameState
  settings :: settings
  currentRound :: round
  gameHistory :: "historyEntry list"

text \<open>The object returned by \<open>endGame\<close>.\<close>

record outcome =
  o_word :: "string option"
  o_imposter :: "player option"
  o_votedOut :: "player option"
  o_imposterWon :: bool

text \<open>
  One call of the stats collaborator: the deltas that \<open>updatePlayerStats\<close> adds to the
  row of one user (\<open>games_played\<close> is always increased by one).
\<close>

record statsDelta =
  d_user :: identity
  d_won :: bool
  d_imposter :: bool
  d_caught :: bool

datatype error = TypeError

text \<open>How a method call ends: it returns a value or throws.\<close>

datatype 'a completion = Normal 'a | Thrown error

subsection \<open>Set and Map\<close>

definition Set_add :: "'a \<Rightarrow> 'a list \<Rightarrow> 'a list" where
  "Set_add x xs = (if x \<in> set xs then xs else xs @ [x])"

fun Map_get :: "('k \<times> 'v) list \<Rightarrow> 'k \<Rightarrow> 'v option" where
  "Map_get [] k = None"
| "Map_get ((k', v) # m) k = (if k' = k then Some v else Map_get m k)"

fun Map_set :: "'k \<Rightarrow> 'v \<Rightarrow> ('k \<times> 'v) list \<Rightarrow> ('k \<times> 'v) list" where
  "Map_set k v [] = [(k, v)]"
| "Map_set k v ((k', v') # m) = (if k' = k then (k, v) # m else (k', v') # Map_set k v m)"

text \<open>\<open>xs[i]\<close> for an integer index: \<open>undefined\<close> outside the array.\<close>

definition index :: "'a list \<Rightarrow> int \<Rightarrow> 'a option" where
  "index xs i = (if 0 \<le> i \<and> i < int (length xs) then Some (xs ! nat i) else None)"

subsection \<open>Word libraries\<close>

record library =
  lib_name :: string
  lib_description :: string
  lib_words :: "(string \<times> string list) list"

text \<open>
  The strings are sequences of UTF-16 code units; the letters outside ASCII used by the
  catalogue are below 256 and written by their code.
\<close>

definition wordLibraries :: "(string \<times> library) list" where
  "wordLibraries =
   [(''animals'', \<lparr>lib_name = ''Tiere'',
      lib_description = ''Verschiedene Tierarten aus aller Welt'',
      lib_words =
       [(''easy'', [''Hund'', ''Katze'', ''Pferd'', ''Kuh'', ''Schwein'', ''Huhn'', ''Ente'',
                   ''Schaf'', ''Ziege'', ''Hase'']),
        (''medium'', [''Elefant'', ''Giraffe'', ''Zebra'', ''L'' @ [CHR 0xF6] @ ''we'', ''Tiger'',
                     ''Panda'', ''Koala'', ''Pinguin'', ''Delfin'', ''Wal'']),
        (''hard'', [''Axolotl'', ''Quetzal'', ''Okapi'', ''Gharial'', ''Aye-Aye'', ''Pangolin'',
                   ''Tapir'', ''Binturong'', ''Fossa'', ''Numbat''])]\<rparr>),
    (''food'', \<lparr>lib_name = ''Essen & Trinken'',
      lib_description = ''Leckere Speisen und Getr'' @ [CHR 0xE4] @ ''nke'',
      lib_words =
       [(''easy'', [''Apfel'', ''Brot'', ''K'' @ [CHR 0xE4] @ ''se'', ''Milch'', ''Wasser'', ''Reis'',
                   ''Nudeln'', ''Ei'', ''Butter'', ''Zucker'']),
        (''medium'', [''Lasagne'', ''Sushi'', ''Cappuccino'', ''Croissant'', ''Paella'', ''Quinoa'',
                     ''Hummus'', ''Gazpacho'', ''Risotto'', ''Tiramisu'']),
        (''hard'', [''Bouillabaisse'', ''Ceviche'', ''Maultasche'', ''Borschtsch'', ''Kimchi'',
                   ''Pho'', ''Mole'', ''Tagine'', ''Pierogi'', ''Baklava''])]\<rparr>),
    (''objects'', \<lparr>lib_name = ''Gegenst'' @ [CHR 0xE4] @ ''nde'',
      lib_description = ''Allt'' @ [CHR 0xE4] @ ''gliche und besondere Gegenst'' @ [CHR 0xE4] @ ''nde'',
      lib_words =
       [(''easy'', [''Stuhl'', ''Tisch'', ''Buch'', ''Telefon'', ''Auto'', ''Haus'', ''Fenster'',
                   ''T'' @ [CHR 0xFC] @ ''r'', ''Lampe'', ''Uhr'']),
        (''medium'', [''Computer'', ''Mikrowelle'', ''Staubsauger'', ''Waschmaschine'', ''Fernseher'',
                     ''K'' @ [CHR 0xFC] @ ''hlschrank'', ''Sofa'', ''Schrank'', ''Spiegel'', ''Bild'']),
        (''hard'', [''Kaleidoskop'', ''Astrolabium'', ''Sextant'', ''Chronometer'', ''Barometer'',
                   ''Hygrometer'', ''Seismograph'', ''Spektrometer'', ''Theodolite'',
                   ''Planimeter''])]\<rparr>),
    (''activities'', \<lparr>lib_name = ''Aktivit'' @ [CHR 0xE4] @ ''ten'',
      lib_description = ''Hobbys, Sport und Freizeitaktivit'' @ [CHR 0xE4] @ ''ten'',
      lib_words =
       [(''easy'', [''Laufen'', ''Schwimmen'', ''Lesen'', ''Singen'', ''Tanzen'', ''Malen'', ''Kochen'',
                   ''Schlafen'', ''Essen'', ''Spielen'']),
        (''medium'', [''Bergsteigen'', ''Surfen'', ''Fotografieren'', ''G'' @ [CHR 0xE4] @ ''rtnern'',
                     ''Angeln'', ''Wandern'', ''Radfahren'', ''Skifahren'', ''Segeln'', ''Reiten'']),
        (''hard'', [''Falknerei'', ''Kalligrafie'', ''Origami'', ''Bonsai'', ''Geocaching'', ''Parkour'',
                   ''Aikido'', ''Bogenschie'' @ [CHR 0xDF] @ ''en'', ''Slacklining'',
                   ''Kite-Surfen''])]\<rparr>)]"

text \<open>
  Property names that every object inherits from \<open>Object.prototype\<close>. Reading one of them
  from an object literal gives a function (or, for \<open>__proto__\<close>, the prototype object), not
  \<open>undefined\<close>.
\<close>

definition objectPrototypeKeys :: "string list" where
  "objectPrototypeKeys =
   [''constructor'', ''__defineGetter__'', ''__defineSetter__'', ''hasOwnProperty'',
    ''__lookupGetter__'', ''__lookupSetter__'', ''isPrototypeOf'', ''propertyIsEnumerable'',
    ''toString'', ''valueOf'', ''__proto__'', ''toLocaleString'']"

text \<open>
  The two lines of \<open>startGame\<close> that select the word,
  \<^verbatim>\<open>const words = wordLibraries[theme].words[difficulty];\<close> and
  \<^verbatim>\<open>words[Math.floor(Math.random() * words.length)]\<close>, where \<open>r\<close> is the value returned by
  \<open>Math.random()\<close>.
  \<^item> A theme that is not a key of the catalogue gives \<open>undefined\<close> (or an inherited function
    without a \<open>words\<close> property), and the next property read throws a \<open>TypeError\<close>.
  \<^item> A difficulty that is not a key of the theme's lists gives \<open>undefined\<close>, and
    \<open>words.length\<close> throws a \<open>TypeError\<close>; an inherited property gives a function or object
    whose indexed element is \<open>undefined\<close>.
\<close>

definition selectWord :: "real \<Rightarrow> string \<Rightarrow> string \<Rightarrow> (string option) completion" where
  "selectWord r th di =
    (case Map_get wordLibraries th of
       None \<Rightarrow> Thrown TypeError
     | Some lib \<Rightarrow>
        (case Map_get (lib_words lib) di of
           None \<Rightarrow> if di \<in> set objectPrototypeKeys then Normal None else Thrown TypeError
         | Some ws \<Rightarrow> Normal (index ws \<lfloor>r * real (length ws)\<rfloor>)))"

section \<open>class GameRoom\<close>

definition emptyRound :: round where
  "emptyRound = \<lparr>word = None, imposter = None, timeRemaining = 0, skipVotes = [], votes = [],
                 startTime = None\<rparr>"

text \<open>
  The constructor. In \<^verbatim>\<open>src/server.js\<close> the round object has no \<open>startTime\<close> property; a
  read of it would give \<open>undefined\<close>, which is \<open>None\<close> here as well.
\<close>

definition GameRoom :: "string \<Rightarrow> string \<Rightarrow> identity \<Rightarrow> room" where
  "GameRoom rid nm aid =
    \<lparr>room_id = rid, room_name = nm, adminId = aid, players = [], gameState = Waiting,
     settings = \<lparr>maxPlayers = 10, roundTime = 300, theme = ''animals'', difficulty = ''medium''\<rparr>,
     currentRound = emptyRound, gameHistory = []\<rparr>"

text \<open>
  \<open>addPlayer\<close> assigns \<open>player.isAdmin = true\<close> on the object it was given and then pushes
  that object; \<open>adminId\<close> is assigned in the same branch.
\<close>

definition addPlayer_srv :: "player \<Rightarrow> room \<Rightarrow> bool \<times> room" where
  "addPlayer_srv p rm =
    (if int (length (players rm)) \<ge> maxPlayers (settings rm) then (False, rm)
     else if length (players rm) = 0
       then (True, rm\<lparr>adminId := player_id p, players := players rm @ [p\<lparr>isAdmin := True\<rparr>]\<rparr>)
       else (True, rm\<lparr>players := players rm @ [p]\<rparr>))"

definition addPlayer_p0 :: "player \<Rightarrow> room \<Rightarrow> bool \<times> room" where
  "addPlayer_p0 p rm =
    (if int (length (players rm)) \<ge> maxPlayers (settings rm) then (False, rm)
     else if find (\<lambda>q. player_id q = player_id p) (players rm) \<noteq> None then (False, rm)
     else if length (players rm) = 0
       then (True, rm\<lparr>adminId := player_id p, players := players rm @ [p\<lparr>isAdmin := True\<rparr>]\<rparr>)
       else (True, rm\<lparr>players := players rm @ [p]\<rparr>))"

definition removePlayer :: "identity \<Rightarrow> room \<Rightarrow> bool \<times> room" where
  "removePlayer playerId rm =
    (let ps = filter (\<lambda>p. player_id p \<noteq> playerId) (players rm);
         rm1 = rm\<lparr>players := ps\<rparr>;
         rm2 = (if adminId rm1 = playerId \<and> length ps > 0
                then rm1\<lparr>players := ps[0 := (ps ! 0)\<lparr>isAdmin := True\<rparr>],
                         adminId := player_id (ps ! 0)\<rparr>
                else rm1)
     in (length (players rm2) = 0, rm2))"

text \<open>
  \<open>startGame\<close>. \<open>r1\<close> and \<open>r2\<close> are the two values returned by \<open>Math.random()\<close>, \<open>now\<close> the
  value of \<open>Date.now()\<close>. The state is assigned before the word is looked up, so a throw
  leaves \<open>gameState\<close> and \<open>imposter\<close> changed.
\<close>

definition startGame_srv :: "real \<Rightarrow> real \<Rightarrow> room \<Rightarrow> bool completion \<times> room" where
  "startGame_srv r1 r2 rm =
    (if length (players rm) < 3 then (Normal False, rm)
     else if gameState rm \<noteq> Waiting then (Normal False, rm)
     else
       let rm1 = rm\<lparr>gameState := Playing\<rparr>;
           imposterIndex = \<lfloor>r1 * real (length (players rm1))\<rfloor>;
           rm2 = rm1\<lparr>currentRound :=
                   (currentRound rm1)\<lparr>imposter := index (players rm1) imposterIndex\<rparr>\<rparr>
       in case selectWord r2 (theme (settings rm2)) (difficulty (settings rm2)) of
            Thrown e \<Rightarrow> (Thrown e, rm2)
          | Normal w \<Rightarrow>
              (Normal True,
               rm2\<lparr>currentRound :=
                     (currentRound rm2)\<lparr>word := w, timeRemaining := roundTime (settings rm2),
                                        skipVotes := [], votes := []\<rparr>\<rparr>))"

definition startGame_p0 :: "real \<Rightarrow> real \<Rightarrow> int \<Rightarrow> room \<Rightarrow> bool completion \<times> room" where
  "startGame_p0 r1 r2 now rm =
    (if length (players rm) < 3 then (Normal False, rm)
     else if gameState rm \<noteq> Waiting then (Normal False, rm)
     else
       let rm1 = rm\<lparr>gameState := Playing\<rparr>;
           imposterIndex = \<lfloor>r1 * real (length (players rm1))\<rfloor>;
           rm2 = rm1\<lparr>currentRound :=
                   (currentRound rm1)\<lparr>imposter := index (players rm1) imposterIndex\<rparr>\<rparr>
       in case selectWord r2 (theme (settings rm2)) (difficulty (settings rm2)) of
            Thrown e \<Rightarrow> (Thrown e, rm2)
          | Normal w \<Rightarrow>
              (Normal True,
               rm2\<lparr>currentRound :=
                     (currentRound rm2)\<lparr>word := w, timeRemaining := roundTime (settings rm2),
                                        skipVotes := [], votes := [],
                                        startTime := Some now\<rparr>\<rparr>))"

definition endRound :: "room \<Rightarrow> room" where
  "endRound rm = rm\<lparr>gameState := Voting, currentRound := (currentRound rm)\<lparr>timeRemaining := 60\<rparr>\<rparr>"

text \<open>
  \<open>addSkipVote\<close>. \<^verbatim>\<open>src/server.js\<close> has no \<open>return\<close> statement: the call yields \<open>undefined\<close>,
  so the model returns the room only.
\<close>

definition addSkipVote_srv :: "identity \<Rightarrow> room \<Rightarrow> room" where
  "addSkipVote_srv playerId rm =
    (let rm1 = rm\<lparr>currentRound :=
                  (currentRound rm)\<lparr>skipVotes := Set_add playerId (skipVotes (currentRound rm))\<rparr>\<rparr>;
         needed = \<lceil>real (length (players rm1)) / 2\<rceil>
     in if int (length (skipVotes (currentRound rm1))) \<ge> needed then endRound rm1 else rm1)"

definition addSkipVote_p0 :: "identity \<Rightarrow> room \<Rightarrow> bool \<times> room" where
  "addSkipVote_p0 playerId rm =
    (let rm1 = rm\<lparr>currentRound :=
                  (currentRound rm)\<lparr>skipVotes := Set_add playerId (skipVotes (currentRound rm))\<rparr>\<rparr>;
         needed = \<lceil>real (length (players rm1)) / 2\<rceil>
     in if int (length (skipVotes (currentRound rm1))) \<ge> needed then (True, endRound rm1)
        else (False, rm1))"

subsection \<open>endGame\<close>

text \<open>
  The first loop of \<open>endGame\<close>: \<open>votes.forEach\<close> visits the targets in the insertion order of
  the voters. \<open>countVote\<close> is its callback; \<open>voteCount.get(targetId) || 0\<close> is the stored count
  or zero.
\<close>

definition countVote :: "(identity \<times> nat) list \<Rightarrow> identity \<Rightarrow> (identity \<times> nat) list" where
  "countVote voteCount targetId =
    Map_set targetId
      ((case Map_get voteCount targetId of None \<Rightarrow> 0 | Some c \<Rightarrow> c) + 1) voteCount"

definition countVotes :: "(identity \<times> identity) list \<Rightarrow> (identity \<times> nat) list" where
  "countVotes vs = foldl countVote [] (map snd vs)"

text \<open>
  The second loop, \<open>voteCount.forEach\<close>. \<open>moreVotes\<close> is its callback, on the pair
  \<open>(mostVoted, maxVotes)\<close> that starts as \<open>(null, 0)\<close>; \<open>players.find\<close> gives \<open>undefined\<close> when
  the target is not a player of the room.
\<close>

fun moreVotes :: "player list \<Rightarrow> player option \<times> nat \<Rightarrow> identity \<times> nat \<Rightarrow> player option \<times> nat" where
  "moreVotes ps (mostVoted, maxVotes) (playerId, vts) =
    (if vts > maxVotes then (find (\<lambda>p. player_id p = playerId) ps, vts)
     else (mostVoted, maxVotes))"

definition findMostVoted ::
  "player list \<Rightarrow> (identity \<times> nat) list \<Rightarrow> player option \<times> nat" where
  "findMostVoted ps voteCount = foldl (moreVotes ps) (None, 0) voteCount"

text \<open>
  \<^verbatim>\<open>!mostVoted || mostVoted.id !== this.currentRound.imposter.id\<close>: the right operand is
  evaluated only when somebody was voted out, and reading \<open>.id\<close> of \<open>null\<close> throws.
\<close>

definition imposterWon :: "player option \<Rightarrow> player option \<Rightarrow> bool completion" where
  "imposterWon mostVoted imp =
    (case mostVoted of
       None \<Rightarrow> Normal True
     | Some mv \<Rightarrow>
        (case imp of
           None \<Rightarrow> Thrown TypeError
         | Some i \<Rightarrow> Normal (player_id mv \<noteq> player_id i)))"

text \<open>
  \<open>updatePlayerStats\<close>: one database read per player, whose callback adds the deltas to the
  user's row (or inserts the row with them). \<open>statsOf\<close> is the callback of
  \<open>players.forEach\<close> for a round whose imposter is \<open>imp\<close>; the result of \<open>updatePlayerStats\<close>
  lists the deltas in the order of the players. The callback reads
  \<open>this.currentRound.imposter.id\<close> first, so with no imposter it throws at the first player,
  before any database call.
\<close>

definition statsOf :: "player \<Rightarrow> bool \<Rightarrow> player option \<Rightarrow> player \<Rightarrow> statsDelta" where
  "statsOf imp iw votedOut p =
    (let isImposter = (player_id p = player_id imp);
         won = (if isImposter then iw else \<not> iw)
     in \<lparr>d_user = player_id p, d_won = won, d_imposter = isImposter,
         d_caught = (isImposter \<and>
           (case votedOut of None \<Rightarrow> False | Some v \<Rightarrow> player_id v = player_id p))\<rparr>)"

definition updatePlayerStats ::
  "bool \<Rightarrow> player option \<Rightarrow> room \<Rightarrow> (statsDelta list) completion" where
  "updatePlayerStats iw votedOut rm =
    (case players rm of
       [] \<Rightarrow> Normal []
     | _ # _ \<Rightarrow>
        (case imposter (currentRound rm) of
           None \<Rightarrow> Thrown TypeError
         | Some imp \<Rightarrow> Normal (map (statsOf imp iw votedOut) (players rm))))"

text \<open>
  What a method does outside the room object: calls of the stats collaborator, and (in
  \<^verbatim>\<open>src/server.js\<close>) the \<open>setTimeout\<close> that will call \<open>resetGame\<close>.
\<close>

datatype effect = StatsUpdate statsDelta | ScheduleReset

definition endGame_p0 :: "int \<Rightarrow> room \<Rightarrow> outcome completion \<times> room \<times> effect list" where
  "endGame_p0 now rm =
    (let rm1 = rm\<lparr>gameState := Ended\<rparr>;
         voteCount = countVotes (votes (currentRound rm1));
         mostVoted = fst (findMostVoted (players rm1) voteCount)
     in case imposterWon mostVoted (imposter (currentRound rm1)) of
          Thrown e \<Rightarrow> (Thrown e, rm1, [])
        | Normal iw \<Rightarrow>
            let rm2 = rm1\<lparr>gameHistory := gameHistory rm1 @
                        [\<lparr>h_word = word (currentRound rm1),
                          h_imposter = imposter (currentRound rm1),
                          h_votedOut = mostVoted, h_imposterWon = iw,
                          h_players = players rm1, h_timestamp = now\<rparr>]\<rparr>
            in case updatePlayerStats iw mostVoted rm2 of
                 Thrown e \<Rightarrow> (Thrown e, rm2, [])
               | Normal ds \<Rightarrow>
                   (Normal \<lparr>o_word = word (currentRound rm2),
                            o_imposter = imposter (currentRound rm2),
                            o_votedOut = mostVoted, o_imposterWon = iw\<rparr>,
                    rm2, map StatsUpdate ds))"

definition endGame_srv :: "int \<Rightarrow> room \<Rightarrow> outcome completion \<times> room \<times> effect list" where
  "endGame_srv now rm =
    (let rm1 = rm\<lparr>gameState := Ended\<rparr>;
         voteCount = countVotes (votes (currentRound rm1));
         mostVoted = fst (findMostVoted (players rm1) voteCount)
     in case imposterWon mostVoted (imposter (currentRound rm1)) of
          Thrown e \<Rightarrow> (Thrown e, rm1, [])
        | Normal iw \<Rightarrow>
            let rm2 = rm1\<lparr>gameHistory := gameHistory rm1 @
                        [\<lparr>h_word = word (currentRound rm1),
                          h_imposter = imposter (currentRound rm1),
                          h_votedOut = mostVoted, h_imposterWon = iw,
                          h_players = players rm1, h_timestamp = now\<rparr>]\<rparr>
            in case updatePlayerStats iw mostVoted rm2 of
                 Thrown e \<Rightarrow> (Thrown e, rm2, [])
               | Normal ds \<Rightarrow>
                   (Normal \<lparr>o_word = word (currentRound rm2),
                            o_imposter = imposter (currentRound rm2),
                            o_votedOut = mostVoted, o_imposterWon = iw\<rparr>,
                    rm2, map StatsUpdate ds @ [ScheduleReset]))"

text \<open>
  \<open>addVote\<close>. In \<^verbatim>\<open>src/unnamed/part_000\<close> it returns the object of \<open>endGame\<close> or \<open>null\<close>; in
  \<^verbatim>\<open>src/server.js\<close> it has no \<open>return\<close> statement and yields \<open>undefined\<close>.
\<close>

definition addVote_p0 ::
  "identity \<Rightarrow> identity \<Rightarrow> int \<Rightarrow> room \<Rightarrow> (outcome option) completion \<times> room \<times> effect list" where
  "addVote_p0 voterId targetId now rm =
    (let rm1 = rm\<lparr>currentRound :=
                  (currentRound rm)\<lparr>votes := Map_set voterId targetId (votes (currentRound rm))\<rparr>\<rparr>
     in if length (votes (currentRound rm1)) = length (players rm1)
        then (case endGame_p0 now rm1 of
                (Normal oc, rm2, es) \<Rightarrow> (Normal (Some oc), rm2, es)
              | (Thrown e, rm2, es) \<Rightarrow> (Thrown e, rm2, es))
        else (Normal None, rm1, []))"

definition addVote_srv ::
  "identity \<Rightarrow> identity \<Rightarrow> int \<Rightarrow> room \<Rightarrow> unit completion \<times> room \<times> effect list" where
  "addVote_srv voterId targetId now rm =
    (let rm1 = rm\<lparr>currentRound :=
                  (currentRound rm)\<lparr>votes := Map_set voterId targetId (votes (currentRound rm))\<rparr>\<rparr>
     in if length (votes (currentRound rm1)) = length (players rm1)
        then (case endGame_srv now rm1 of
                (Normal oc, rm2, es) \<Rightarrow> (Normal (), rm2, es)
              | (Thrown e, rm2, es) \<Rightarrow> (Thrown e, rm2, es))
        else (Normal (), rm1, []))"

definition resetGame :: "room \<Rightarrow> room" where
  "resetGame rm = rm\<lparr>gameState := Waiting, currentRound := emptyRound\<rparr>"

section \<open>Socket handlers\<close>

text \<open>
  The handlers are the callbacks registered with \<open>socket.on\<close>. Each is modelled for one
  room identifier: the commands are the ones whose \<open>roomId\<close> is the identifier of the room
  under study. \<open>conn\<close> holds what the handler reads from the socket.
\<close>

record conn =
  c_userId :: identity
  c_username :: string
  c_socketId :: string

text \<open>
  The payload of \<open>updateSettings\<close>, restricted to the four properties the room reads;
  \<open>None\<close> means the property is absent from the payload.
\<close>

record settingsPatch =
  p_maxPlayers :: "int option"
  p_roundTime :: "int option"
  p_theme :: "string option"
  p_difficulty :: "string option"

text \<open>\<^verbatim>\<open>{ ...room.settings, ...settings }\<close>\<close>

definition mergeSettings :: "settings \<Rightarrow> settingsPatch \<Rightarrow> settings" where
  "mergeSettings st p =
    \<lparr>maxPlayers = (case p_maxPlayers p of None \<Rightarrow> maxPlayers st | Some v \<Rightarrow> v),
     roundTime = (case p_roundTime p of None \<Rightarrow> roundTime st | Some v \<Rightarrow> v),
     theme = (case p_theme p of None \<Rightarrow> theme st | Some v \<Rightarrow> v),
     difficulty = (case p_difficulty p of None \<Rightarrow> difficulty st | Some v \<Rightarrow> v)\<rparr>"

text \<open>
  Emitted events. The payloads of \<open>roomUpdate\<close> (the public view of the room) and of
  \<open>chatMessage\<close> are left out. \<open>ToSocket\<close> is \<open>socket.emit\<close> on the socket with that
  identifier, \<open>ToRoom\<close> is \<open>io.to(roomId).emit\<close>, and \<open>ToUser\<close> is the emit on the first
  connected socket of that user, if there is one.
\<close>

datatype message =
    ErrorMsg string
  | RoomCreated string
  | RoomJoined string
  | RoomUpdate
  | ChatMessage
  | GameStarted "string option" bool int
  | VotingPhase "player list"
  | GameEnded outcome

datatype emitted = ToSocket string message | ToRoom message | ToUser identity message

text \<open>
  The room together with what the process holds about it outside the room object:
  \<^item> \<open>registered\<close>: the room is a value of the map \<open>rooms\<close>;
  \<^item> \<open>intervals\<close>: the live \<open>setInterval\<close> timers created by the \<open>startGame\<close> handler, each
    with its handle and the \<open>socket.userId\<close> its callback closes over;
  \<^item> \<open>roomTimer\<close>: the handle stored in \<open>roomTimers\<close> (\<^verbatim>\<open>src/unnamed/part_000\<close> only);
  \<^item> \<open>resets\<close>: the number of pending \<open>setTimeout\<close> callbacks that call \<open>resetGame\<close>;
  \<^item> \<open>statsLog\<close>: the calls of the stats collaborator so far.
\<close>

record sys =
  room :: room
  registered :: bool
  intervals :: "(nat \<times> identity) list"
  nextHandle :: nat
  roomTimer :: "nat option"
  resets :: nat
  statsLog :: "statsDelta list"

definition clearInterval :: "nat \<Rightarrow> sys \<Rightarrow> sys" where
  "clearInterval h s = s\<lparr>intervals := filter (\<lambda>t. fst t \<noteq> h) (intervals s)\<rparr>"

text \<open>
  \<^verbatim>\<open>if (roomTimers.has(roomId)) { clearInterval(roomTimers.get(roomId)); roomTimers.delete(roomId); }\<close>
\<close>

definition clearRoomTimer :: "sys \<Rightarrow> sys" where
  "clearRoomTimer s =
    (case roomTimer s of
       None \<Rightarrow> s
     | Some h \<Rightarrow> (clearInterval h s)\<lparr>roomTimer := None\<rparr>)"

fun applyEffect :: "sys \<Rightarrow> effect \<Rightarrow> sys" where
  "applyEffect s (StatsUpdate d) = s\<lparr>statsLog := statsLog s @ [d]\<rparr>"
| "applyEffect s ScheduleReset = s\<lparr>resets := resets s + 1\<rparr>"

definition applyEffects :: "effect list \<Rightarrow> sys \<Rightarrow> sys" where
  "applyEffects es s = foldl applyEffect s es"

definition newPlayer :: "conn \<Rightarrow> bool \<Rightarrow> player" where
  "newPlayer c a =
    \<lparr>player_id = c_userId c, username = c_username c, socketId = c_socketId c, isAdmin = a\<rparr>"

definition newSys :: "room \<Rightarrow> sys" where
  "newSys rm = \<lparr>room = rm, registered = True, intervals = [], nextHandle = 0, roomTimer = None,
                resets = 0, statsLog = []\<rparr>"

subsection \<open>createRoom, joinRoom, leaveRoom, disconnect\<close>

text \<open>\<open>rid\<close> is the identifier generated from \<open>Math.random()\<close>, \<open>nm\<close> the payload.\<close>

definition createRoom_srv :: "conn \<Rightarrow> string \<Rightarrow> string \<Rightarrow> emitted list \<times> sys option" where
  "createRoom_srv c rid nm =
    (if \<not> truthy (c_userId c)
     then ([ToSocket (c_socketId c) (ErrorMsg ''Nicht authentifiziert'')], None)
     else
       let rm = GameRoom rid nm (c_userId c);
           rm1 = snd (addPlayer_srv (newPlayer c True) rm)
       in ([ToSocket (c_socketId c) (RoomCreated rid), ToSocket (c_socketId c) RoomUpdate],
           Some (newSys rm1)))"

definition createRoom_p0 :: "conn \<Rightarrow> string \<Rightarrow> string \<Rightarrow> emitted list \<times> sys option" where
  "createRoom_p0 c rid nm =
    (if \<not> truthy (c_userId c)
     then ([ToSocket (c_socketId c) (ErrorMsg ''Nicht authentifiziert'')], None)
     else
       let rm = GameRoom rid nm (c_userId c);
           rm1 = snd (addPlayer_p0 (newPlayer c True) rm)
       in ([ToSocket (c_socketId c) (RoomCreated rid), ToSocket (c_socketId c) RoomUpdate],
           Some (newSys rm1)))"

definition joinRoom_srv :: "conn \<Rightarrow> sys \<Rightarrow> emitted list \<times> sys" where
  "joinRoom_srv c s =
    (if \<not> truthy (c_userId c)
     then ([ToSocket (c_socketId c) (ErrorMsg ''Nicht authentifiziert'')], s)
     else if \<not> registered s
     then ([ToSocket (c_socketId c) (ErrorMsg ''Raum nicht gefunden'')], s)
     else if gameState (room s) \<noteq> Waiting
     then ([ToSocket (c_socketId c) (ErrorMsg (''Spiel l'' @ [CHR 0xE4] @ ''uft bereits''))], s)
     else
       (case addPlayer_srv (newPlayer c False) (room s) of
          (False, rm1) \<Rightarrow>
            ([ToSocket (c_socketId c) (ErrorMsg ''Raum ist voll'')], s\<lparr>room := rm1\<rparr>)
        | (True, rm1) \<Rightarrow>
            ([ToSocket (c_socketId c) (RoomJoined (room_id rm1)), ToRoom RoomUpdate,
              ToRoom ChatMessage], s\<lparr>room := rm1\<rparr>)))"

definition joinRoom_p0 :: "conn \<Rightarrow> sys \<Rightarrow> emitted list \<times> sys" where
  "joinRoom_p0 c s =
    (if \<not> truthy (c_userId c)
     then ([ToSocket (c_socketId c) (ErrorMsg ''Nicht authentifiziert'')], s)
     else if \<not> registered s
     then ([ToSocket (c_socketId c) (ErrorMsg ''Raum nicht gefunden'')], s)
     else if gameState (room s) \<noteq> Waiting
     then ([ToSocket (c_socketId c) (ErrorMsg (''Spiel l'' @ [CHR 0xE4] @ ''uft bereits''))], s)
     else
       (case addPlayer_p0 (newPlayer c False) (room s) of
          (False, rm1) \<Rightarrow>
            ([ToSocket (c_socketId c)
                (ErrorMsg ''Raum ist voll oder du bist bereits im Raum'')], s\<lparr>room := rm1\<rparr>)
        | (True, rm1) \<Rightarrow>
            ([ToSocket (c_socketId c) (RoomJoined (room_id rm1)), ToRoom RoomUpdate,
              ToRoom ChatMessage], s\<lparr>room := rm1\<rparr>)))"

definition leaveRoom_srv :: "conn \<Rightarrow> sys \<Rightarrow> emitted list \<times> sys" where
  "leaveRoom_srv c s =
    (if \<not> registered s then ([], s)
     else
       (case removePlayer (c_userId c) (room s) of
          (True, rm1) \<Rightarrow> ([], s\<lparr>room := rm1, registered := False\<rparr>)
        | (False, rm1) \<Rightarrow> ([ToRoom RoomUpdate, ToRoom ChatMessage], s\<lparr>room := rm1\<rparr>)))"

definition leaveRoom_p0 :: "conn \<Rightarrow> sys \<Rightarrow> emitted list \<times> sys" where
  "leaveRoom_p0 c s =
    (if \<not> registered s then ([], s)
     else
       let s1 = clearRoomTimer s
       in (case removePlayer (c_userId c) (room s1) of
             (True, rm1) \<Rightarrow> ([], s1\<lparr>room := rm1, registered := False\<rparr>)
           | (False, rm1) \<Rightarrow> ([ToRoom RoomUpdate, ToRoom ChatMessage], s1\<lparr>room := rm1\<rparr>)))"

text \<open>
  \<open>disconnect\<close> of a socket whose \<open>roomId\<close> is the room under study. In
  \<^verbatim>\<open>src/unnamed/part_000\<close> the chat notice is sent only when the socket has a user name,
  which holds for every socket that has created or joined a room.
\<close>

definition disconnect_srv :: "conn \<Rightarrow> sys \<Rightarrow> emitted list \<times> sys" where
  "disconnect_srv c s =
    (if \<not> registered s then ([], s)
     else
       (case removePlayer (c_userId c) (room s) of
          (True, rm1) \<Rightarrow> ([], s\<lparr>room := rm1, registered := False\<rparr>)
        | (False, rm1) \<Rightarrow> ([ToRoom RoomUpdate, ToRoom ChatMessage], s\<lparr>room := rm1\<rparr>)))"

definition disconnect_p0 :: "conn \<Rightarrow> sys \<Rightarrow> emitted list \<times> sys" where
  "disconnect_p0 c s =
    (if \<not> registered s then ([], s)
     else
       let s1 = clearRoomTimer s
       in (case removePlayer (c_userId c) (room s1) of
             (True, rm1) \<Rightarrow> ([], s1\<lparr>room := rm1, registered := False\<rparr>)
           | (False, rm1) \<Rightarrow> ([ToRoom RoomUpdate, ToRoom ChatMessage], s1\<lparr>room := rm1\<rparr>)))"

subsection \<open>updateSettings\<close>

text \<open>The same text in both revisions.\<close>

definition updateSettings :: "conn \<Rightarrow> settingsPatch \<Rightarrow> sys \<Rightarrow> emitted list \<times> sys" where
  "updateSettings c p s =
    (if \<not> registered s \<or> adminId (room s) \<noteq> c_userId c
     then ([ToSocket (c_socketId c) (ErrorMsg ''Keine Berechtigung'')], s)
     else ([ToRoom RoomUpdate],
           s\<lparr>room := (room s)\<lparr>settings := mergeSettings (settings (room s)) p\<rparr>\<rparr>))"

subsection \<open>startGame and the round timer\<close>

text \<open>
  The handler of \<open>startGame\<close>. An exception thrown by \<open>room.startGame()\<close>, or by
  \<open>room.currentRound.imposter.id\<close> in the loop that sends \<open>gameStarted\<close>, leaves the
  handler: nothing more is emitted and no timer is created. (After \<open>room.startGame()\<close> has
  returned \<open>true\<close> the room has at least three players, so the loop body runs.)
\<close>

definition gameStartedFor :: "room \<Rightarrow> player \<Rightarrow> player \<Rightarrow> emitted" where
  "gameStartedFor rm imp p =
    ToUser (player_id p)
      (GameStarted (if player_id p = player_id imp then None else word (currentRound rm))
                   (player_id p = player_id imp) (roundTime (settings rm)))"

definition startGameHandler_srv ::
  "conn \<Rightarrow> real \<Rightarrow> real \<Rightarrow> sys \<Rightarrow> emitted list \<times> sys" where
  "startGameHandler_srv c r1 r2 s =
    (if \<not> registered s \<or> adminId (room s) \<noteq> c_userId c
     then ([ToSocket (c_socketId c) (ErrorMsg ''Keine Berechtigung'')], s)
     else
       (case startGame_srv r1 r2 (room s) of
          (Thrown e, rm1) \<Rightarrow> ([], s\<lparr>room := rm1\<rparr>)
        | (Normal False, rm1) \<Rightarrow>
            ([ToSocket (c_socketId c) (ErrorMsg ''Spiel kann nicht gestartet werden'')],
             s\<lparr>room := rm1\<rparr>)
        | (Normal True, rm1) \<Rightarrow>
            (case imposter (currentRound rm1) of
               None \<Rightarrow> ([], s\<lparr>room := rm1\<rparr>)
             | Some imp \<Rightarrow>
                 (map (gameStartedFor rm1 imp) (players rm1) @ [ToRoom RoomUpdate],
                  s\<lparr>room := rm1, intervals := intervals s @ [(nextHandle s, c_userId c)],
                    nextHandle := nextHandle s + 1\<rparr>))))"

definition startGameHandler_p0 ::
  "conn \<Rightarrow> real \<Rightarrow> real \<Rightarrow> int \<Rightarrow> sys \<Rightarrow> emitted list \<times> sys" where
  "startGameHandler_p0 c r1 r2 now s =
    (if \<not> registered s \<or> adminId (room s) \<noteq> c_userId c
     then ([ToSocket (c_socketId c) (ErrorMsg ''Keine Berechtigung'')], s)
     else
       (case startGame_p0 r1 r2 now (room s) of
          (Thrown e, rm1) \<Rightarrow> ([], s\<lparr>room := rm1\<rparr>)
        | (Normal False, rm1) \<Rightarrow>
            ([ToSocket (c_socketId c)
                (ErrorMsg (''Spiel kann nicht gestartet werden (mindestens 3 Spieler ben''
                           @ [CHR 0xF6] @ ''tigt)''))],
             s\<lparr>room := rm1\<rparr>)
        | (Normal True, rm1) \<Rightarrow>
            (case imposter (currentRound rm1) of
               None \<Rightarrow> ([], s\<lparr>room := rm1\<rparr>)
             | Some imp \<Rightarrow>
                 (map (gameStartedFor rm1 imp) (players rm1) @ [ToRoom RoomUpdate],
                  s\<lparr>room := rm1, intervals := intervals s @ [(nextHandle s, c_userId c)],
                    nextHandle := nextHandle s + 1, roomTimer := Some (nextHandle s)\<rparr>))))"

text \<open>
  One firing of the \<open>setInterval\<close> callback with handle \<open>h\<close>. A handle that is not live
  does not fire. The callback works on the room object it closes over, whether or not the
  room is still registered.
\<close>

definition tick_srv :: "nat \<Rightarrow> sys \<Rightarrow> emitted list \<times> sys" where
  "tick_srv h s =
    (case Map_get (intervals s) h of
       None \<Rightarrow> ([], s)
     | Some starter \<Rightarrow>
         let rm1 = (room s)\<lparr>currentRound :=
                      (currentRound (room s))\<lparr>timeRemaining :=
                         timeRemaining (currentRound (room s)) - 1\<rparr>\<rparr>
         in if timeRemaining (currentRound rm1) \<le> 0
            then ([ToRoom (VotingPhase (filter (\<lambda>p. player_id p \<noteq> starter) (players rm1)))],
                  (clearInterval h s)\<lparr>room := endRound rm1\<rparr>)
            else ([], s\<lparr>room := rm1\<rparr>))"

definition tick_p0 :: "nat \<Rightarrow> sys \<Rightarrow> emitted list \<times> sys" where
  "tick_p0 h s =
    (case Map_get (intervals s) h of
       None \<Rightarrow> ([], s)
     | Some starter \<Rightarrow>
         let rm1 = (room s)\<lparr>currentRound :=
                      (currentRound (room s))\<lparr>timeRemaining :=
                         timeRemaining (currentRound (room s)) - 1\<rparr>\<rparr>
         in if timeRemaining (currentRound rm1) \<le> 0
            then ([ToRoom (VotingPhase (players rm1)), ToRoom RoomUpdate],
                  (clearInterval h s)\<lparr>roomTimer := None, room := endRound rm1\<rparr>)
            else ([], s\<lparr>room := rm1\<rparr>))"

subsection \<open>skipVote\<close>

definition skipVote_srv :: "conn \<Rightarrow> sys \<Rightarrow> emitted list \<times> sys" where
  "skipVote_srv c s =
    (if \<not> registered s \<or> gameState (room s) \<noteq> Playing then ([], s)
     else
       let rm1 = addSkipVote_srv (c_userId c) (room s)
       in (ToRoom RoomUpdate #
             (if gameState rm1 = Voting then [ToRoom (VotingPhase (players rm1))] else []),
           s\<lparr>room := rm1\<rparr>))"

definition skipVote_p0 :: "conn \<Rightarrow> sys \<Rightarrow> emitted list \<times> sys" where
  "skipVote_p0 c s =
    (if \<not> registered s \<or> gameState (room s) \<noteq> Playing then ([], s)
     else
       (case addSkipVote_p0 (c_userId c) (room s) of
          (True, rm1) \<Rightarrow>
            ([ToRoom (VotingPhase (players rm1)), ToRoom RoomUpdate],
             clearRoomTimer (s\<lparr>room := rm1\<rparr>))
        | (False, rm1) \<Rightarrow> ([ToRoom RoomUpdate], s\<lparr>room := rm1\<rparr>)))"

subsection \<open>vote\<close>

text \<open>
  In \<^verbatim>\<open>src/server.js\<close> the handler calls \<open>room.addVote\<close> and then, when the room has
  ended, \<open>room.endGame()\<close> itself to obtain the results. In \<^verbatim>\<open>src/unnamed/part_000\<close> it
  uses the value returned by \<open>room.addVote\<close> and schedules the reset itself. The timeout
  that the handler of \<^verbatim>\<open>src/server.js\<close> schedules only emits \<open>roomUpdate\<close> and changes no
  state; it is left out.
\<close>

definition vote_srv :: "conn \<Rightarrow> identity \<Rightarrow> int \<Rightarrow> sys \<Rightarrow> emitted list \<times> sys" where
  "vote_srv c playerId now s =
    (if \<not> registered s \<or> gameState (room s) \<noteq> Voting then ([], s)
     else
       (case addVote_srv (c_userId c) playerId now (room s) of
          (Thrown e, rm1, es) \<Rightarrow> ([], applyEffects es (s\<lparr>room := rm1\<rparr>))
        | (Normal u, rm1, es) \<Rightarrow>
            let s1 = applyEffects es (s\<lparr>room := rm1\<rparr>)
            in if gameState rm1 = Ended
               then (case endGame_srv now rm1 of
                       (Thrown e, rm2, es2) \<Rightarrow> ([], applyEffects es2 (s1\<lparr>room := rm2\<rparr>))
                     | (Normal results, rm2, es2) \<Rightarrow>
                         ([ToRoom (GameEnded results)], applyEffects es2 (s1\<lparr>room := rm2\<rparr>)))
               else ([], s1)))"

definition vote_p0 :: "conn \<Rightarrow> identity \<Rightarrow> int \<Rightarrow> sys \<Rightarrow> emitted list \<times> sys" where
  "vote_p0 c playerId now s =
    (if \<not> registered s \<or> gameState (room s) \<noteq> Voting then ([], s)
     else
       (case addVote_p0 (c_userId c) playerId now (room s) of
          (Thrown e, rm1, es) \<Rightarrow> ([], applyEffects es (s\<lparr>room := rm1\<rparr>))
        | (Normal None, rm1, es) \<Rightarrow> ([], applyEffects es (s\<lparr>room := rm1\<rparr>))
        | (Normal (Some results), rm1, es) \<Rightarrow>
            let s1 = applyEffects es (s\<lparr>room := rm1\<rparr>)
            in ([ToRoom (GameEnded results)], s1\<lparr>resets := resets s1 + 1\<rparr>)))"

text \<open>
  One pending \<open>setTimeout\<close> callback fires and calls \<open>resetGame\<close> on the room object it
  closes over. With none pending nothing happens.
\<close>

definition resetTimeout :: "sys \<Rightarrow> sys" where
  "resetTimeout s =
    (if resets s = 0 then s else s\<lparr>room := resetGame (room s), resets := resets s - 1\<rparr>)"

subsection \<open>Runs\<close>

datatype command =
    JoinRoom conn
  | LeaveRoom conn
  | Disconnect conn
  | UpdateSettings conn settingsPatch
  | StartGame conn real real int
  | SkipVote conn
  | Vote conn identity int
  | Tick nat
  | ResetTimeout

fun step_srv :: "command \<Rightarrow> sys \<Rightarrow> sys" where
  "step_srv (JoinRoom c) s = snd (joinRoom_srv c s)"
| "step_srv (LeaveRoom c) s = snd (leaveRoom_srv c s)"
| "step_srv (Disconnect c) s = snd (disconnect_srv c s)"
| "step_srv (UpdateSettings c p) s = snd (updateSettings c p s)"
| "step_srv (StartGame c r1 r2 now) s = snd (startGameHandler_srv c r1 r2 s)"
| "step_srv (SkipVote c) s = snd (skipVote_srv c s)"
| "step_srv (Vote c t now) s = snd (vote_srv c t now s)"
| "step_srv (Tick h) s = snd (tick_srv h s)"
| "step_srv ResetTimeout s = resetTimeout s"

fun step_p0 :: "command \<Rightarrow> sys \<Rightarrow> sys" where
  "step_p0 (JoinRoom c) s = snd (joinRoom_p0 c s)"
| "step_p0 (LeaveRoom c) s = snd (leaveRoom_p0 c s)"
| "step_p0 (Disconnect c) s = snd (disconnect_p0 c s)"
| "step_p0 (UpdateSettings c p) s = snd (updateSettings c p s)"
| "step_p0 (StartGame c r1 r2 now) s = snd (startGameHandler_p0 c r1 r2 now s)"
| "step_p0 (SkipVote c) s = snd (skipVote_p0 c s)"
| "step_p0 (Vote c t now) s = snd (vote_p0 c t now s)"
| "step_p0 (Tick h) s = snd (tick_p0 h s)"
| "step_p0 ResetTimeout s = resetTimeout s"

text \<open>
  \<open>Math.random()\<close> returns a number that is at least 0 and less than 1; the commands of a
  run carry such numbers.
\<close>

fun admissible :: "command \<Rightarrow> bool" where
  "admissible (StartGame c r1 r2 now) = (0 \<le> r1 \<and> r1 < 1 \<and> 0 \<le> r2 \<and> r2 < 1)"
| "admissible cmd = True"

text \<open>
  The states a room can be in: created by \<open>createRoom\<close>, then any sequence of commands,
  timer firings and timeouts. A run may hold the \<open>disconnect\<close> of any connection; the
  handler acts on the room only for a socket bound to it, and then does what \<open>leaveRoom\<close>
  does, which every connection may send, so the runs here cover the real ones.
\<close>

inductive reachable_srv :: "sys \<Rightarrow> bool" where
  created_srv: "createRoom_srv c rid nm = (es, Some s) \<Longrightarrow> reachable_srv s"
| stepped_srv: "reachable_srv s \<Longrightarrow> admissible cmd \<Longrightarrow> reachable_srv (step_srv cmd s)"

inductive reachable_p0 :: "sys \<Rightarrow> bool" where
  created_p0: "createRoom_p0 c rid nm = (es, Some s) \<Longrightarrow> reachable_p0 s"
| stepped_p0: "reachable_p0 s \<Longrightarrow> admissible cmd \<Longrightarrow> reachable_p0 (step_p0 cmd s)"

section \<open>Example rooms\<close>

text \<open>
  Three authenticated connections, and the room that the first of them creates and the
  other two join. Up to here both revisions compute the same states.
\<close>

definition alice :: conn where
  "alice = \<lparr>c_userId = UserId 1, c_username = ''alice'', c_socketId = ''s1''\<rparr>"

definition bob :: conn where
  "bob = \<lparr>c_userId = UserId 2, c_username = ''bob'', c_socketId = ''s2''\<rparr>"

definition carol :: conn where
  "carol = \<lparr>c_userId = UserId 3, c_username = ''carol'', c_socketId = ''s3''\<rparr>"

definition created1 :: sys where
  "created1 =
    newSys (snd (addPlayer_p0 (newPlayer alice True) (GameRoom ''ROOM01'' ''Demo'' (UserId 1))))"

definition lobby2 :: sys where
  "lobby2 = step_p0 (JoinRoom bob) created1"

definition lobby3 :: sys where
  "lobby3 = step_p0 (JoinRoom carol) lobby2"

definition themePatch :: "string \<Rightarrow> settingsPatch" where
  "themePatch th =
    \<lparr>p_maxPlayers = None, p_roundTime = None, p_theme = Some th, p_difficulty = None\<rparr>"

text \<open>The admin sets a theme that the catalogue does not have.\<close>

definition spaceLobby :: sys where
  "spaceLobby = step_p0 (UpdateSettings alice (themePatch ''space'')) lobby3"

text \<open>
  One round in \<^verbatim>\<open>src/unnamed/part_000\<close>: the admin starts the game (the random numbers
  select the second player as imposter), two players vote to skip, then the three players
  vote: the first and the third for the second, the second for the first.
\<close>

definition playing3 :: sys where
  "playing3 = step_p0 (StartGame alice (1/2) (1/3) 1000) lobby3"

definition skipped1 :: sys where
  "skipped1 = step_p0 (SkipVote alice) playing3"

definition voting3 :: sys where
  "voting3 = step_p0 (SkipVote bob) skipped1"

definition voted1 :: sys where
  "voted1 = step_p0 (Vote alice (UserId 2) 2000) voting3"

definition voted2 :: sys where
  "voted2 = step_p0 (Vote carol (UserId 2) 2001) voted1"

definition ended3 :: sys where
  "ended3 = step_p0 (Vote bob (UserId 1) 2002) voted2"

text \<open>The room as \<open>endGame\<close> finds it inside the last \<open>addVote\<close>: all three votes stored.\<close>

definition ballots :: room where
  "ballots = (room voted2)\<lparr>currentRound := (currentRound (room voted2))
      \<lparr>votes := Map_set (UserId 2) (UserId 1) (votes (currentRound (room voted2)))\<rparr>\<rparr>"

text \<open>A player who has voted to skip leaves during the round.\<close>

definition skipperLeft :: sys where
  "skipperLeft = step_p0 (LeaveRoom alice) skipped1"

text \<open>The same round in \<^verbatim>\<open>src/server.js\<close>.\<close>

definition playing3_srv :: sys where
  "playing3_srv = step_srv (StartGame alice (1/2) (1/3) 1000) lobby3"

definition skipped1_srv :: sys where
  "skipped1_srv = step_srv (SkipVote alice) playing3_srv"

definition voting3_srv :: sys where
  "voting3_srv = step_srv (SkipVote bob) skipped1_srv"

definition voted1_srv :: sys where
  "voted1_srv = step_srv (Vote alice (UserId 2) 2000) voting3_srv"

definition voted2_srv :: sys where
  "voted2_srv = step_srv (Vote carol (UserId 2) 2001) voted1_srv"

definition ended3_srv :: sys where
  "ended3_srv = step_srv (Vote bob (UserId 1) 2002) voted2_srv"

text \<open>In \<^verbatim>\<open>src/server.js\<close>, a user who is already in the room joins again.\<close>

definition joinedTwice_srv :: sys where
  "joinedTwice_srv = step_srv (JoinRoom bob) lobby2"


text \<open>During the round the admin changes the theme; a player who is not the admin tries.\<close>

definition foodWhilePlaying :: "emitted list \<times> sys" where
  "foodWhilePlaying = updateSettings alice (themePatch ''food'') playing3"

definition foodByBob :: "emitted list \<times> sys" where
  "foodByBob = updateSettings bob (themePatch ''food'') lobby3"

text \<open>
  A room of five players, in both revisions: the game starts and three players vote to
  skip, one after the other.
\<close>

definition dave :: conn where
  "dave = \<lparr>c_userId = UserId 4, c_username = ''dave'', c_socketId = ''s4''\<rparr>"

definition erin :: conn where
  "erin = \<lparr>c_userId = UserId 5, c_username = ''erin'', c_socketId = ''s5''\<rparr>"

definition lobby5 :: sys where
  "lobby5 = step_p0 (JoinRoom erin) (step_p0 (JoinRoom dave) lobby3)"

definition playing5 :: sys where
  "playing5 = step_p0 (StartGame alice (1/2) (1/3) 1000) lobby5"

definition skipped5_2 :: sys where
  "skipped5_2 = step_p0 (SkipVote bob) (step_p0 (SkipVote alice) playing5)"

definition skipped5_3 :: sys where
  "skipped5_3 = step_p0 (SkipVote carol) skipped5_2"

definition playing5_srv :: sys where
  "playing5_srv = step_srv (StartGame alice (1/2) (1/3) 1000) lobby5"

definition skipped5_2_srv :: sys where
  "skipped5_2_srv = step_srv (SkipVote bob) (step_srv (SkipVote alice) playing5_srv)"

definition skipped5_3_srv :: sys where
  "skipped5_3_srv = step_srv (SkipVote carol) skipped5_2_srv"

text \<open>
  The imposter leaves during the voting: the first player has voted for the imposter, the
  imposter leaves the room, and the third player votes for the imposter as well.
\<close>

definition imposterLeft :: sys where
  "imposterLeft = step_p0 (LeaveRoom bob) voted1"

definition imposterLeft_srv :: sys where
  "imposterLeft_srv = step_srv (LeaveRoom bob) voted1_srv"



section \<open>Predicates of the statements\<close>

text \<open>
  \<open>started rm ws rm'\<close>: \<open>rm'\<close> is \<open>rm\<close> after a successful \<open>startGame\<close> that drew its word
  from the list \<open>ws\<close>.
\<close>

definition started :: "room \<Rightarrow> string list \<Rightarrow> room \<Rightarrow> bool" where
  "started rm ws rm' \<longleftrightarrow>
     gameState rm' = Playing \<and>
     (\<exists>imp \<in> set (players rm). imposter (currentRound rm') = Some imp) \<and>
     (\<exists>w \<in> set ws. word (currentRound rm') = Some w) \<and>
     timeRemaining (currentRound rm') = roundTime (settings rm) \<and>
     skipVotes (currentRound rm') = [] \<and> votes (currentRound rm') = [] \<and>
     players rm' = players rm \<and> settings rm' = settings rm \<and> adminId rm' = adminId rm \<and>
     gameHistory rm' = gameHistory rm \<and> room_id rm' = room_id rm \<and> room_name rm' = room_name rm"

text \<open>
  \<open>tallyOf vs tally\<close>: \<open>tally\<close> holds each target of the votes \<open>vs\<close> once, with the number of
  voters whose vote is that target.
\<close>

definition tallyOf :: "(identity \<times> identity) list \<Rightarrow> (identity \<times> nat) list \<Rightarrow> bool" where
  "tallyOf vs tally \<longleftrightarrow>
     distinct (map fst tally) \<and> set (map fst tally) = snd ` set vs \<and>
     (\<forall>e \<in> set tally. snd e = length (filter (\<lambda>v. snd v = fst e) vs))"

text \<open>
  \<open>votedOutBy ps tally mv\<close>: \<open>mv\<close> is the player of \<open>ps\<close> named by the entry of \<open>tally\<close> with the
  greatest count, the first such entry in the order of \<open>tally\<close> when several have that
  count; it is \<open>None\<close> when the tally is empty or when that entry names no player of \<open>ps\<close>.
\<close>

definition votedOutBy :: "player list \<Rightarrow> (identity \<times> nat) list \<Rightarrow> player option \<Rightarrow> bool" where
  "votedOutBy ps tally mv \<longleftrightarrow>
     (tally = [] \<and> mv = None) \<or>
     (\<exists>pre t c post. tally = pre @ (t, c) # post \<and>
        (\<forall>e \<in> set pre. snd e < c) \<and> (\<forall>e \<in> set post. snd e \<le> c) \<and>
        mv = find (\<lambda>p. player_id p = t) ps)"

text \<open>
  \<open>adminInv rm\<close>: the number of players with \<open>isAdmin\<close> is \<open>min(1, playerCount)\<close>, and a
  player with \<open>isAdmin\<close> carries the identity stored in \<open>adminId\<close>.
\<close>

definition adminInv :: "room \<Rightarrow> bool" where
  "adminInv rm \<longleftrightarrow>
     length (filter isAdmin (players rm)) = min 1 (length (players rm)) \<and>
     (\<forall>p \<in> set (players rm). isAdmin p \<longrightarrow> player_id p = adminId rm)"

text \<open>The part of a room that \<open>adminInv\<close> reads, and the handlers that leave it alone.\<close>

definition roster :: "room \<Rightarrow> player list \<times> identity" where
  "roster rm = (players rm, adminId rm)"

definition sameRoster :: "sys \<Rightarrow> sys \<Rightarrow> bool" where
  "sameRoster s s' \<longleftrightarrow> roster (room s') = roster (room s) \<and> registered s' = registered s"

text \<open>\<open>rosterInv\<close>: \<open>adminInv\<close>, and a room of the map \<open>rooms\<close> has a player.\<close>

definition rosterInv :: "sys \<Rightarrow> bool" where
  "rosterInv s \<longleftrightarrow> adminInv (room s) \<and> (registered s \<longrightarrow> players (room s) \<noteq> [])"


text \<open>
  \<open>roundInv s\<close>, for \<^verbatim>\<open>src/unnamed/part_000\<close>: the only live interval timer is the one
  stored in \<open>roomTimers\<close>, and it exists only while the room is \<open>playing\<close>; at most one reset
  is pending, and only while the room is \<open>ended\<close>; outside \<open>waiting\<close> the round has an
  imposter.
\<close>

definition roundInv :: "sys \<Rightarrow> bool" where
  "roundInv s \<longleftrightarrow>
     map fst (intervals s) = (case roomTimer s of None \<Rightarrow> [] | Some h \<Rightarrow> [h]) \<and>
     (roomTimer s \<noteq> None \<longrightarrow> gameState (room s) = Playing) \<and>
     resets s \<le> 1 \<and>
     (resets s = 1 \<longrightarrow> gameState (room s) = Ended) \<and>
     (gameState (room s) \<noteq> Waiting \<longrightarrow> imposter (currentRound (room s)) \<noteq> None)"

text \<open>\<open>idsDistinct s\<close>: no two players of the room have the same identity.\<close>

definition idsDistinct :: "sys \<Rightarrow> bool" where
  "idsDistinct s \<longleftrightarrow> distinct (map player_id (players (room s)))"

text \<open>\<open>votersDistinct s\<close>: \<open>votes\<close> holds each voter once and \<open>skipVotes\<close> each identity once.\<close>

definition votersDistinct :: "sys \<Rightarrow> bool" where
  "votersDistinct s \<longleftrightarrow>
     distinct (map fst (votes (currentRound (room s)))) \<and>
     distinct (skipVotes (currentRound (room s)))"

section \<open>Auxiliary facts\<close>

subsection \<open>Containers and the catalogue\<close>

lemma Map_get_mem: "Map_get m k = Some v \<Longrightarrow> (k, v) \<in> set m"
  by (induction m) (auto split: if_splits)

lemma catalogue_lengths:
  "\<forall>e \<in> set wordLibraries. \<forall>l \<in> set (lib_words (snd e)). length (snd l) = 10"
  by (simp add: wordLibraries_def)

lemma words_nonempty:
  assumes "Map_get wordLibraries th = Some lib" "Map_get (lib_words lib) di = Some ws"
  shows "length ws = 10"
proof -
  have "(th, lib) \<in> set wordLibraries" using assms(1) by (rule Map_get_mem)
  moreover have "(di, ws) \<in> set (lib_words lib)" using assms(2) by (rule Map_get_mem)
  ultimately show ?thesis using catalogue_lengths by fastforce
qed

lemma index_in:
  assumes "0 \<le> r" "r < 1" "xs \<noteq> []"
  shows "\<exists>x \<in> set xs. index xs \<lfloor>r * real (length xs)\<rfloor> = Some x"
proof -
  have n: "0 < real (length xs)" using assms by simp
  have l: "0 \<le> \<lfloor>r * real (length xs)\<rfloor>" using assms by simp
  have "r * real (length xs) < real (length xs)" using assms n by simp
  then have u: "\<lfloor>r * real (length xs)\<rfloor> < int (length xs)" by (simp add: floor_less_iff)
  from l u have "nat \<lfloor>r * real (length xs)\<rfloor> < length xs" by linarith
  then have m: "xs ! nat \<lfloor>r * real (length xs)\<rfloor> \<in> set xs" by (rule nth_mem)
  have "index xs \<lfloor>r * real (length xs)\<rfloor> = Some (xs ! nat \<lfloor>r * real (length xs)\<rfloor>)"
    unfolding index_def using l u by simp
  with m show ?thesis by blast
qed

lemma selectWord_in:
  assumes "0 \<le> r" "r < 1"
    and "Map_get wordLibraries th = Some lib" "Map_get (lib_words lib) di = Some ws"
  shows "\<exists>w \<in> set ws. selectWord r th di = Normal (Some w)"
proof -
  have "ws \<noteq> []" using words_nonempty[OF assms(3,4)] by auto
  from index_in[OF assms(1,2) this] show ?thesis
    by (simp add: selectWord_def assms(3,4))
qed

lemma Set_add_twice: "Set_add x (Set_add x xs) = Set_add x xs"
  by (simp add: Set_add_def)

lemma Set_add_set: "set (Set_add x xs) = insert x (set xs)"
  by (auto simp: Set_add_def)

lemma Set_add_distinct: "distinct xs \<Longrightarrow> distinct (Set_add x xs)"
  by (simp add: Set_add_def)

lemma ceiling_half: "\<lceil>real n / 2\<rceil> = int ((n + 1) div 2)"
proof -
  have "real n / 2 = real_of_int (int n) / real_of_int 2" by simp
  then have "\<lceil>real n / 2\<rceil> = - ((- int n) div 2)"
    unfolding ceiling_def by (metis floor_divide_of_int_eq minus_divide_left of_int_minus)
  also have "\<dots> = int ((n + 1) div 2)" by linarith
  finally show ?thesis .
qed

subsection \<open>The two loops of endGame\<close>

lemma Map_get_Map_set: "Map_get (Map_set k v m) k' = (if k' = k then Some v else Map_get m k')"
  by (induction m) auto

lemma keys_Map_set:
  "map fst (Map_set k v m) = (if k \<in> set (map fst m) then map fst m else map fst m @ [k])"
  by (induction m) (force split: if_splits)+

lemma Map_get_None_iff: "Map_get m k = None \<longleftrightarrow> k \<notin> set (map fst m)"
  by (induction m) (force split: if_splits)+

lemma Map_get_distinct: "distinct (map fst m) \<Longrightarrow> (k, v) \<in> set m \<Longrightarrow> Map_get m k = Some v"
  by (induction m) (auto simp: rev_image_eqI)

lemma countVote_get:
  "Map_get (countVote m k) k' =
     (if k' = k then Some ((case Map_get m k of None \<Rightarrow> 0 | Some c \<Rightarrow> c) + 1) else Map_get m k')"
  unfolding countVote_def by (rule Map_get_Map_set)

lemma countVote_keys:
  "map fst (countVote m k) = (if k \<in> set (map fst m) then map fst m else map fst m @ [k])"
  unfolding countVote_def by (rule keys_Map_set)

lemma foldl_count_get:
  "Map_get (foldl countVote acc ts) t =
   (case Map_get acc t of
      None \<Rightarrow> (if length (filter (\<lambda>x. x = t) ts) = 0 then None
                else Some (length (filter (\<lambda>x. x = t) ts)))
    | Some c \<Rightarrow> Some (c + length (filter (\<lambda>x. x = t) ts)))"
proof (induction ts arbitrary: acc)
  case Nil
  then show ?case by (simp split: option.splits)
next
  case (Cons a ts)
  show ?case
    by (simp add: Cons.IH countVote_get split: option.splits)
qed

lemma foldl_count_keys:
  "distinct (map fst acc) \<Longrightarrow>
   distinct (map fst (foldl countVote acc ts)) \<and>
   set (map fst (foldl countVote acc ts)) = set (map fst acc) \<union> set ts"
proof (induction ts arbitrary: acc)
  case Nil
  then show ?case by simp
next
  case (Cons a ts)
  have d: "distinct (map fst (countVote acc a))" using Cons.prems by (simp add: countVote_keys)
  have s: "set (map fst (countVote acc a)) = insert a (set (map fst acc))"
    by (auto simp: countVote_keys)
  show ?case using Cons.IH[OF d] s by auto
qed

lemma countVotes_get:
  "Map_get (countVotes vs) t =
     (if t \<in> snd ` set vs then Some (length (filter (\<lambda>v. snd v = t) vs)) else None)"
proof -
  have len: "length (filter (\<lambda>x. x = t) (map snd vs)) = length (filter (\<lambda>v. snd v = t) vs)"
    by (simp add: filter_map comp_def)
  have z: "length (filter (\<lambda>v. snd v = t) vs) = 0 \<longleftrightarrow> t \<notin> snd ` set vs"
    by (auto simp: filter_empty_conv)
  show ?thesis
    unfolding countVotes_def foldl_count_get len using z by auto
qed

lemma countVotes_tallyOf: "tallyOf vs (countVotes vs)"
proof -
  have k: "distinct (map fst (countVotes vs))" "set (map fst (countVotes vs)) = snd ` set vs"
    using foldl_count_keys[of "[]" "map snd vs"] by (simp_all add: countVotes_def)
  have "snd e = length (filter (\<lambda>v. snd v = fst e) vs)" if "e \<in> set (countVotes vs)" for e
  proof -
    have "Map_get (countVotes vs) (fst e) = Some (snd e)"
      using Map_get_distinct[OF k(1), of "fst e" "snd e"] that by simp
    then show ?thesis by (simp add: countVotes_get split: if_splits)
  qed
  with k show ?thesis by (simp add: tallyOf_def)
qed

lemma countVotes_positive: "e \<in> set (countVotes vs) \<Longrightarrow> 0 < snd e"
proof -
  assume e: "e \<in> set (countVotes vs)"
  have t: "tallyOf vs (countVotes vs)" by (rule countVotes_tallyOf)
  have "fst e \<in> snd ` set vs" using t e by (auto simp: tallyOf_def)
  then have "filter (\<lambda>v. snd v = fst e) vs \<noteq> []" by (force simp: filter_empty_conv)
  moreover have "snd e = length (filter (\<lambda>v. snd v = fst e) vs)" using t e by (simp add: tallyOf_def)
  ultimately show ?thesis by simp
qed

lemma mostVoted_fold:
  "((\<forall>e \<in> set tally. snd e \<le> x0) \<and> foldl (moreVotes ps) (m0, x0) tally = (m0, x0)) \<or>
   (\<exists>pre t c post. tally = pre @ (t, c) # post \<and> x0 < c \<and>
      (\<forall>e \<in> set pre. snd e < c) \<and> (\<forall>e \<in> set post. snd e \<le> c) \<and>
      foldl (moreVotes ps) (m0, x0) tally = (find (\<lambda>p. player_id p = t) ps, c))"
proof (induction tally arbitrary: m0 x0)
  case Nil
  then show ?case by simp
next
  case (Cons a tally)
  obtain t c where a: "a = (t, c)" by (cases a)
  show ?case
  proof (cases "x0 < c")
    case True
    let ?m = "find (\<lambda>p. player_id p = t) ps"
    have step: "foldl (moreVotes ps) (m0, x0) (a # tally) = foldl (moreVotes ps) (?m, c) tally"
      using True a by simp
    from Cons.IH[of c ?m]
    consider (stay) "\<forall>e \<in> set tally. snd e \<le> c" "foldl (moreVotes ps) (?m, c) tally = (?m, c)"
      | (move) pre t' c' post where "tally = pre @ (t', c') # post" "c < c'"
          "\<forall>e \<in> set pre. snd e < c'" "\<forall>e \<in> set post. snd e \<le> c'"
          "foldl (moreVotes ps) (?m, c) tally = (find (\<lambda>p. player_id p = t') ps, c')"
      by blast
    then show ?thesis
    proof cases
      case stay
      have "a # tally = [] @ (t, c) # tally" using a by simp
      moreover have "\<forall>e \<in> set []. snd e < c" by simp
      ultimately have "\<exists>pre t' c' post. a # tally = pre @ (t', c') # post \<and> x0 < c' \<and>
          (\<forall>e \<in> set pre. snd e < c') \<and> (\<forall>e \<in> set post. snd e \<le> c') \<and>
          foldl (moreVotes ps) (m0, x0) (a # tally) = (find (\<lambda>p. player_id p = t') ps, c')"
        using stay True step by metis
      then show ?thesis by (rule disjI2)
    next
      case move
      have 1: "a # tally = (a # pre) @ (t', c') # post" using move(1) by simp
      have 2: "\<forall>e \<in> set (a # pre). snd e < c'" using move(2,3) a by simp
      have 3: "x0 < c'" using True move(2) by simp
      have "\<exists>pre t' c' post. a # tally = pre @ (t', c') # post \<and> x0 < c' \<and>
          (\<forall>e \<in> set pre. snd e < c') \<and> (\<forall>e \<in> set post. snd e \<le> c') \<and>
          foldl (moreVotes ps) (m0, x0) (a # tally) = (find (\<lambda>p. player_id p = t') ps, c')"
        using 1 2 3 move(4,5) step by metis
      then show ?thesis by (rule disjI2)
    qed
  next
    case False
    have step: "foldl (moreVotes ps) (m0, x0) (a # tally) = foldl (moreVotes ps) (m0, x0) tally"
      using False a by simp
    from Cons.IH[of x0 m0]
    consider (stay) "\<forall>e \<in> set tally. snd e \<le> x0" "foldl (moreVotes ps) (m0, x0) tally = (m0, x0)"
      | (move) pre t' c' post where "tally = pre @ (t', c') # post" "x0 < c'"
          "\<forall>e \<in> set pre. snd e < c'" "\<forall>e \<in> set post. snd e \<le> c'"
          "foldl (moreVotes ps) (m0, x0) tally = (find (\<lambda>p. player_id p = t') ps, c')"
      by blast
    then show ?thesis
    proof cases
      case stay
      have "\<forall>e \<in> set (a # tally). snd e \<le> x0" using stay(1) False a by simp
      then show ?thesis using stay(2) step by simp
    next
      case move
      have 1: "a # tally = (a # pre) @ (t', c') # post" using move(1) by simp
      have 2: "\<forall>e \<in> set (a # pre). snd e < c'" using move(2,3) a False by simp
      have "\<exists>pre t' c' post. a # tally = pre @ (t', c') # post \<and> x0 < c' \<and>
          (\<forall>e \<in> set pre. snd e < c') \<and> (\<forall>e \<in> set post. snd e \<le> c') \<and>
          foldl (moreVotes ps) (m0, x0) (a # tally) = (find (\<lambda>p. player_id p = t') ps, c')"
        using 1 2 move(2,4,5) step by metis
      then show ?thesis by (rule disjI2)
    qed
  qed
qed

lemma findMostVoted_votedOutBy:
  assumes "\<forall>e \<in> set tally. 0 < snd e"
  shows "votedOutBy ps tally (fst (findMostVoted ps tally))"
proof (cases "tally = []")
  case True
  then show ?thesis by (simp add: votedOutBy_def findMostVoted_def)
next
  case False
  then have "\<not> (\<forall>e \<in> set tally. snd e \<le> 0)" using assms by (cases tally) auto
  with mostVoted_fold[of tally 0 ps None]
  obtain pre t c post where "tally = pre @ (t, c) # post"
      "\<forall>e \<in> set pre. snd e < c" "\<forall>e \<in> set post. snd e \<le> c"
      "foldl (moreVotes ps) (None, 0) tally = (find (\<lambda>p. player_id p = t) ps, c)"
    by blast
  then show ?thesis unfolding votedOutBy_def findMostVoted_def by (metis fst_conv)
qed

subsection \<open>The example rooms, evaluated\<close>

lemma created1_eq:
  "created1 =
    \<lparr>room = \<lparr>room_id = ''ROOM01'', room_name = ''Demo'', adminId = UserId 1,
       players = [newPlayer alice True], gameState = Waiting,
       settings = \<lparr>maxPlayers = 10, roundTime = 300, theme = ''animals'',
                   difficulty = ''medium''\<rparr>,
       currentRound = emptyRound, gameHistory = []\<rparr>,
     registered = True, intervals = [], nextHandle = 0, roomTimer = None, resets = 0,
     statsLog = []\<rparr>"
  by (simp add: created1_def newSys_def addPlayer_p0_def GameRoom_def newPlayer_def alice_def)

lemma createRoom_p0_alice:
  "createRoom_p0 alice ''ROOM01'' ''Demo'' =
     ([ToSocket ''s1'' (RoomCreated ''ROOM01''), ToSocket ''s1'' RoomUpdate], Some created1)"
  by (simp add: createRoom_p0_def created1_def alice_def Let_def)

lemma createRoom_srv_alice:
  "createRoom_srv alice ''ROOM01'' ''Demo'' =
     ([ToSocket ''s1'' (RoomCreated ''ROOM01''), ToSocket ''s1'' RoomUpdate], Some created1)"
  by (simp add: createRoom_srv_def created1_def alice_def Let_def addPlayer_srv_def
        addPlayer_p0_def GameRoom_def)

lemma lobby2_eq:
  "lobby2 = created1\<lparr>room := (room created1)
      \<lparr>players := [newPlayer alice True, newPlayer bob False]\<rparr>\<rparr>"
  by (simp add: lobby2_def created1_eq joinRoom_p0_def addPlayer_p0_def newPlayer_def
        alice_def bob_def)

lemma lobby2_srv: "step_srv (JoinRoom bob) created1 = lobby2"
  by (simp add: lobby2_eq created1_eq joinRoom_srv_def addPlayer_srv_def newPlayer_def
        alice_def bob_def)

lemma lobby3_eq:
  "lobby3 = created1\<lparr>room := (room created1)
      \<lparr>players := [newPlayer alice True, newPlayer bob False, newPlayer carol False]\<rparr>\<rparr>"
  by (simp add: lobby3_def lobby2_eq created1_eq joinRoom_p0_def addPlayer_p0_def newPlayer_def
        alice_def bob_def carol_def)

lemma lobby3_srv: "step_srv (JoinRoom carol) lobby2 = lobby3"
  by (simp add: lobby3_eq lobby2_eq created1_eq joinRoom_srv_def addPlayer_srv_def newPlayer_def
        alice_def bob_def carol_def)

lemma spaceLobby_eq:
  "spaceLobby = lobby3\<lparr>room := (room lobby3)
      \<lparr>settings := \<lparr>maxPlayers = 10, roundTime = 300, theme = ''space'',
                     difficulty = ''medium''\<rparr>\<rparr>\<rparr>"
  by (simp add: spaceLobby_def lobby3_eq created1_eq updateSettings_def alice_def themePatch_def
        mergeSettings_def)

lemma selectWord_example:
  "selectWord (1/3) ''animals'' ''medium'' = Normal (Some (''L'' @ [CHR 0xF6] @ ''we''))"
  by (simp add: selectWord_def wordLibraries_def index_def)

lemma playing3_eq:
  "playing3 = lobby3\<lparr>room := (room lobby3)
      \<lparr>gameState := Playing,
       currentRound := \<lparr>word = Some (''L'' @ [CHR 0xF6] @ ''we''),
         imposter = Some (newPlayer bob False), timeRemaining = 300, skipVotes = [], votes = [],
         startTime = Some 1000\<rparr>\<rparr>,
     intervals := [(0, UserId 1)], nextHandle := 1, roomTimer := Some 0\<rparr>"
  by (simp add: playing3_def lobby3_eq created1_eq startGameHandler_p0_def startGame_p0_def
        selectWord_example index_def emptyRound_def alice_def Let_def newPlayer_def)

lemma playing3_srv_eq:
  "playing3_srv = lobby3\<lparr>room := (room lobby3)
      \<lparr>gameState := Playing,
       currentRound := \<lparr>word = Some (''L'' @ [CHR 0xF6] @ ''we''),
         imposter = Some (newPlayer bob False), timeRemaining = 300, skipVotes = [], votes = [],
         startTime = None\<rparr>\<rparr>,
     intervals := [(0, UserId 1)], nextHandle := 1\<rparr>"
  by (simp add: playing3_srv_def lobby3_eq created1_eq startGameHandler_srv_def startGame_srv_def
        selectWord_example index_def emptyRound_def alice_def Let_def newPlayer_def)

lemma skipped1_eq:
  "skipped1 = playing3\<lparr>room := (room playing3)
      \<lparr>currentRound := (currentRound (room playing3))\<lparr>skipVotes := [UserId 1]\<rparr>\<rparr>\<rparr>"
  by (simp add: skipped1_def playing3_eq lobby3_eq created1_eq skipVote_p0_def addSkipVote_p0_def
        Set_add_def alice_def Let_def)

lemma skipped1_srv_eq:
  "skipped1_srv = playing3_srv\<lparr>room := (room playing3_srv)
      \<lparr>currentRound := (currentRound (room playing3_srv))\<lparr>skipVotes := [UserId 1]\<rparr>\<rparr>\<rparr>"
  by (simp add: skipped1_srv_def playing3_srv_eq lobby3_eq created1_eq skipVote_srv_def
        addSkipVote_srv_def Set_add_def alice_def Let_def)

lemma voting3_eq:
  "voting3 = skipped1\<lparr>room := (room skipped1)
      \<lparr>gameState := Voting,
       currentRound := (currentRound (room skipped1))
         \<lparr>skipVotes := [UserId 1, UserId 2], timeRemaining := 60\<rparr>\<rparr>,
     intervals := [], roomTimer := None\<rparr>"
  by (simp add: voting3_def skipped1_eq playing3_eq lobby3_eq created1_eq skipVote_p0_def
        addSkipVote_p0_def Set_add_def bob_def Let_def endRound_def clearRoomTimer_def
        clearInterval_def)

lemma voting3_srv_eq:
  "voting3_srv = skipped1_srv\<lparr>room := (room skipped1_srv)
      \<lparr>gameState := Voting,
       currentRound := (currentRound (room skipped1_srv))
         \<lparr>skipVotes := [UserId 1, UserId 2], timeRemaining := 60\<rparr>\<rparr>\<rparr>"
  by (simp add: voting3_srv_def skipped1_srv_eq playing3_srv_eq lobby3_eq created1_eq
        skipVote_srv_def addSkipVote_srv_def Set_add_def bob_def Let_def endRound_def)

lemma voted1_eq:
  "voted1 = voting3\<lparr>room := (room voting3)
      \<lparr>currentRound := (currentRound (room voting3))\<lparr>votes := [(UserId 1, UserId 2)]\<rparr>\<rparr>\<rparr>"
  by (simp add: voted1_def voting3_eq skipped1_eq playing3_eq lobby3_eq created1_eq vote_p0_def
        addVote_p0_def alice_def Let_def applyEffects_def)

lemma voted1_srv_eq:
  "voted1_srv = voting3_srv\<lparr>room := (room voting3_srv)
      \<lparr>currentRound := (currentRound (room voting3_srv))\<lparr>votes := [(UserId 1, UserId 2)]\<rparr>\<rparr>\<rparr>"
  by (simp add: voted1_srv_def voting3_srv_eq skipped1_srv_eq playing3_srv_eq lobby3_eq created1_eq
        vote_srv_def addVote_srv_def alice_def Let_def applyEffects_def)

lemma voted2_eq:
  "voted2 = voted1\<lparr>room := (room voted1)
      \<lparr>currentRound := (currentRound (room voted1))
         \<lparr>votes := [(UserId 1, UserId 2), (UserId 3, UserId 2)]\<rparr>\<rparr>\<rparr>"
  by (simp add: voted2_def voted1_eq voting3_eq skipped1_eq playing3_eq lobby3_eq created1_eq
        vote_p0_def addVote_p0_def carol_def Let_def applyEffects_def)

lemma voted2_srv_eq:
  "voted2_srv = voted1_srv\<lparr>room := (room voted1_srv)
      \<lparr>currentRound := (currentRound (room voted1_srv))
         \<lparr>votes := [(UserId 1, UserId 2), (UserId 3, UserId 2)]\<rparr>\<rparr>\<rparr>"
  by (simp add: voted2_srv_def voted1_srv_eq voting3_srv_eq skipped1_srv_eq playing3_srv_eq
        lobby3_eq created1_eq vote_srv_def addVote_srv_def carol_def Let_def applyEffects_def)

lemma ballots_eq:
  "ballots = (room voted2)
      \<lparr>currentRound := (currentRound (room voted2))
         \<lparr>votes := [(UserId 1, UserId 2), (UserId 3, UserId 2), (UserId 2, UserId 1)]\<rparr>\<rparr>"
  by (simp add: ballots_def voted2_eq voted1_eq voting3_eq skipped1_eq playing3_eq lobby3_eq
        created1_eq)

lemma ballots_srv_eq:
  "(room voted2_srv)\<lparr>currentRound := (currentRound (room voted2_srv))
      \<lparr>votes := Map_set (UserId 2) (UserId 1) (votes (currentRound (room voted2_srv)))\<rparr>\<rparr> =
   ballots\<lparr>currentRound := (currentRound ballots)\<lparr>startTime := None\<rparr>\<rparr>"
  by (simp add: ballots_eq voted2_eq voted1_eq voting3_eq skipped1_eq playing3_eq
        voted2_srv_eq voted1_srv_eq voting3_srv_eq skipped1_srv_eq playing3_srv_eq lobby3_eq
        created1_eq)

lemma countVotes_ballots:
  "countVotes (votes (currentRound ballots)) = [(UserId 2, 2), (UserId 1, 1)]"
  by (simp add: ballots_eq countVotes_def countVote_def)

lemma findMostVoted_ballots:
  "findMostVoted (players ballots) [(UserId 2, 2), (UserId 1, 1)] = (Some (newPlayer bob False), 2)"
  by (simp add: ballots_eq voted2_eq voted1_eq voting3_eq skipped1_eq playing3_eq lobby3_eq
        created1_eq findMostVoted_def newPlayer_def alice_def bob_def carol_def)

lemma skipperLeft_eq:
  "skipperLeft = skipped1\<lparr>room := (room skipped1)
      \<lparr>players := [newPlayer bob True, newPlayer carol False], adminId := UserId 2\<rparr>,
     intervals := [], roomTimer := None\<rparr>"
  by (simp add: skipperLeft_def skipped1_eq playing3_eq lobby3_eq created1_eq leaveRoom_p0_def
        removePlayer_def clearRoomTimer_def clearInterval_def newPlayer_def alice_def bob_def
        carol_def Let_def)

lemma joinedTwice_srv_eq:
  "joinedTwice_srv = lobby2\<lparr>room := (room lobby2)
      \<lparr>players := [newPlayer alice True, newPlayer bob False, newPlayer bob False]\<rparr>\<rparr>"
  by (simp add: joinedTwice_srv_def lobby2_eq created1_eq joinRoom_srv_def addPlayer_srv_def
        newPlayer_def alice_def bob_def)


lemma foodWhilePlaying_eq:
  "foodWhilePlaying =
     ([ToRoom RoomUpdate],
      playing3\<lparr>room := (room playing3)
        \<lparr>settings := \<lparr>maxPlayers = 10, roundTime = 300, theme = ''food'',
                       difficulty = ''medium''\<rparr>\<rparr>\<rparr>)"
  by (simp add: foodWhilePlaying_def playing3_eq lobby3_eq created1_eq updateSettings_def
        alice_def themePatch_def mergeSettings_def)

lemma foodByBob_eq:
  "foodByBob = ([ToSocket ''s2'' (ErrorMsg ''Keine Berechtigung'')], lobby3)"
  by (simp add: foodByBob_def lobby3_eq created1_eq updateSettings_def bob_def)

lemma lobby5_eq:
  "lobby5 = created1\<lparr>room := (room created1)
      \<lparr>players := [newPlayer alice True, newPlayer bob False, newPlayer carol False,
                    newPlayer dave False, newPlayer erin False]\<rparr>\<rparr>"
  by (simp add: lobby5_def lobby3_eq created1_eq joinRoom_p0_def addPlayer_p0_def newPlayer_def
        alice_def bob_def carol_def dave_def erin_def)

lemma lobby5_srv: "step_srv (JoinRoom erin) (step_srv (JoinRoom dave) lobby3) = lobby5"
  by (simp add: lobby5_eq lobby3_eq created1_eq joinRoom_srv_def addPlayer_srv_def newPlayer_def
        alice_def bob_def carol_def dave_def erin_def)

lemma index_example5:
  "index [newPlayer alice True, newPlayer bob False, newPlayer carol False,
          newPlayer dave False, newPlayer erin False] \<lfloor>(1/2) * real (5::nat)\<rfloor> =
     Some (newPlayer carol False)"
  by (simp add: index_def)

lemma playing5_eq:
  "playing5 = lobby5\<lparr>room := (room lobby5)
      \<lparr>gameState := Playing,
       currentRound := \<lparr>word = Some (''L'' @ [CHR 0xF6] @ ''we''),
         imposter = Some (newPlayer carol False), timeRemaining = 300, skipVotes = [], votes = [],
         startTime = Some 1000\<rparr>\<rparr>,
     intervals := [(0, UserId 1)], nextHandle := 1, roomTimer := Some 0\<rparr>"
  by (simp add: playing5_def lobby5_eq created1_eq startGameHandler_p0_def startGame_p0_def
        selectWord_example index_def emptyRound_def alice_def Let_def newPlayer_def)

lemma playing5_srv_eq:
  "playing5_srv = lobby5\<lparr>room := (room lobby5)
      \<lparr>gameState := Playing,
       currentRound := \<lparr>word = Some (''L'' @ [CHR 0xF6] @ ''we''),
         imposter = Some (newPlayer carol False), timeRemaining = 300, skipVotes = [], votes = [],
         startTime = None\<rparr>\<rparr>,
     intervals := [(0, UserId 1)], nextHandle := 1\<rparr>"
  by (simp add: playing5_srv_def lobby5_eq created1_eq startGameHandler_srv_def startGame_srv_def
        selectWord_example index_def emptyRound_def alice_def Let_def newPlayer_def)

lemma skipped5_2_eq:
  "skipped5_2 = playing5\<lparr>room := (room playing5)
      \<lparr>currentRound := (currentRound (room playing5))\<lparr>skipVotes := [UserId 1, UserId 2]\<rparr>\<rparr>\<rparr>"
  by (simp add: skipped5_2_def playing5_eq lobby5_eq created1_eq skipVote_p0_def
        addSkipVote_p0_def Set_add_def alice_def bob_def Let_def)

lemma skipped5_2_srv_eq:
  "skipped5_2_srv = playing5_srv\<lparr>room := (room playing5_srv)
      \<lparr>currentRound := (currentRound (room playing5_srv))\<lparr>skipVotes := [UserId 1, UserId 2]\<rparr>\<rparr>\<rparr>"
  by (simp add: skipped5_2_srv_def playing5_srv_eq lobby5_eq created1_eq skipVote_srv_def
        addSkipVote_srv_def Set_add_def alice_def bob_def Let_def)

lemma skipped5_3_eq:
  "skipped5_3 = skipped5_2\<lparr>room := (room skipped5_2)
      \<lparr>gameState := Voting,
       currentRound := (currentRound (room skipped5_2))
         \<lparr>skipVotes := [UserId 1, UserId 2, UserId 3], timeRemaining := 60\<rparr>\<rparr>,
     intervals := [], roomTimer := None\<rparr>"
  by (simp add: skipped5_3_def skipped5_2_eq playing5_eq lobby5_eq created1_eq skipVote_p0_def
        addSkipVote_p0_def Set_add_def carol_def Let_def endRound_def clearRoomTimer_def
        clearInterval_def)

lemma skipped5_3_srv_eq:
  "skipped5_3_srv = skipped5_2_srv\<lparr>room := (room skipped5_2_srv)
      \<lparr>gameState := Voting,
       currentRound := (currentRound (room skipped5_2_srv))
         \<lparr>skipVotes := [UserId 1, UserId 2, UserId 3], timeRemaining := 60\<rparr>\<rparr>\<rparr>"
  by (simp add: skipped5_3_srv_def skipped5_2_srv_eq playing5_srv_eq lobby5_eq created1_eq
        skipVote_srv_def addSkipVote_srv_def Set_add_def carol_def Let_def endRound_def)

lemma endGame_srv_ballots:
  "endGame_srv 2002 (ballots\<lparr>currentRound := (currentRound ballots)\<lparr>startTime := None\<rparr>\<rparr>) =
    (Normal \<lparr>o_word = Some (''L'' @ [CHR 0xF6] @ ''we''), o_imposter = Some (newPlayer bob False),
             o_votedOut = Some (newPlayer bob False), o_imposterWon = False\<rparr>,
     ballots\<lparr>currentRound := (currentRound ballots)\<lparr>startTime := None\<rparr>, gameState := Ended,
       gameHistory := gameHistory ballots @
         [\<lparr>h_word = Some (''L'' @ [CHR 0xF6] @ ''we''), h_imposter = Some (newPlayer bob False),
           h_votedOut = Some (newPlayer bob False), h_imposterWon = False,
           h_players = [newPlayer alice True, newPlayer bob False, newPlayer carol False],
           h_timestamp = 2002\<rparr>]\<rparr>,
     [StatsUpdate \<lparr>d_user = UserId 1, d_won = True, d_imposter = False, d_caught = False\<rparr>,
      StatsUpdate \<lparr>d_user = UserId 2, d_won = False, d_imposter = True, d_caught = True\<rparr>,
      StatsUpdate \<lparr>d_user = UserId 3, d_won = True, d_imposter = False, d_caught = False\<rparr>,
      ScheduleReset])"
  by (simp add: ballots_eq voted2_eq voted1_eq voting3_eq skipped1_eq playing3_eq lobby3_eq
        created1_eq endGame_srv_def countVotes_def countVote_def findMostVoted_def
        imposterWon_def updatePlayerStats_def statsOf_def newPlayer_def alice_def bob_def carol_def Let_def)

lemma voted2_srv_full:
  "voted2_srv = lobby3\<lparr>room := (room lobby3)
      \<lparr>gameState := Voting,
       currentRound := \<lparr>word = Some (''L'' @ [CHR 0xF6] @ ''we''),
         imposter = Some (newPlayer bob False), timeRemaining = 60,
         skipVotes = [UserId 1, UserId 2],
         votes = [(UserId 1, UserId 2), (UserId 3, UserId 2)], startTime = None\<rparr>\<rparr>,
     intervals := [(0, UserId 1)], nextHandle := 1\<rparr>"
  by (simp add: voted2_srv_eq voted1_srv_eq voting3_srv_eq skipped1_srv_eq playing3_srv_eq)

lemma bob_userId: "c_userId bob = UserId 2"
  by (simp add: bob_def)

lemma addVote_srv_last:
  "addVote_srv (UserId 2) (UserId 1) 2002 (room voted2_srv) =
     (Normal (),
      (room voted2_srv)\<lparr>gameState := Ended,
         currentRound := (currentRound (room voted2_srv))
           \<lparr>votes := [(UserId 1, UserId 2), (UserId 3, UserId 2), (UserId 2, UserId 1)]\<rparr>,
         gameHistory :=
           [\<lparr>h_word = Some (''L'' @ [CHR 0xF6] @ ''we''), h_imposter = Some (newPlayer bob False),
             h_votedOut = Some (newPlayer bob False), h_imposterWon = False,
             h_players = [newPlayer alice True, newPlayer bob False, newPlayer carol False],
             h_timestamp = 2002\<rparr>]\<rparr>,
      [StatsUpdate \<lparr>d_user = UserId 1, d_won = True, d_imposter = False, d_caught = False\<rparr>,
       StatsUpdate \<lparr>d_user = UserId 2, d_won = False, d_imposter = True, d_caught = True\<rparr>,
       StatsUpdate \<lparr>d_user = UserId 3, d_won = True, d_imposter = False, d_caught = False\<rparr>,
       ScheduleReset])"
  by (simp add: voted2_srv_full lobby3_eq created1_eq addVote_srv_def endGame_srv_def
        countVotes_def countVote_def findMostVoted_def imposterWon_def updatePlayerStats_def statsOf_def
        newPlayer_def alice_def bob_def carol_def Let_def)

lemma ended3_srv_eq:
  "ended3_srv = voted2_srv\<lparr>room := (room voted2_srv)\<lparr>gameState := Ended,
         currentRound := (currentRound (room voted2_srv))
           \<lparr>votes := [(UserId 1, UserId 2), (UserId 3, UserId 2), (UserId 2, UserId 1)]\<rparr>,
         gameHistory :=
           [\<lparr>h_word = Some (''L'' @ [CHR 0xF6] @ ''we''), h_imposter = Some (newPlayer bob False),
             h_votedOut = Some (newPlayer bob False), h_imposterWon = False,
             h_players = [newPlayer alice True, newPlayer bob False, newPlayer carol False],
             h_timestamp = 2002\<rparr>,
            \<lparr>h_word = Some (''L'' @ [CHR 0xF6] @ ''we''), h_imposter = Some (newPlayer bob False),
             h_votedOut = Some (newPlayer bob False), h_imposterWon = False,
             h_players = [newPlayer alice True, newPlayer bob False, newPlayer carol False],
             h_timestamp = 2002\<rparr>]\<rparr>,
      resets := 2,
      statsLog :=
      [\<lparr>d_user = UserId 1, d_won = True, d_imposter = False, d_caught = False\<rparr>,
       \<lparr>d_user = UserId 2, d_won = False, d_imposter = True, d_caught = True\<rparr>,
       \<lparr>d_user = UserId 3, d_won = True, d_imposter = False, d_caught = False\<rparr>,
       \<lparr>d_user = UserId 1, d_won = True, d_imposter = False, d_caught = False\<rparr>,
       \<lparr>d_user = UserId 2, d_won = False, d_imposter = True, d_caught = True\<rparr>,
       \<lparr>d_user = UserId 3, d_won = True, d_imposter = False, d_caught = False\<rparr>]\<rparr>"
  unfolding ended3_srv_def step_srv.simps vote_srv_def bob_userId addVote_srv_last
  by (simp add: voted2_srv_full lobby3_eq created1_eq endGame_srv_def
        countVotes_def countVote_def findMostVoted_def imposterWon_def updatePlayerStats_def statsOf_def
        newPlayer_def alice_def bob_def carol_def Let_def applyEffects_def)

lemma ended3_eq:
  "ended3 = voted2\<lparr>room := (room voted2)\<lparr>gameState := Ended,
         currentRound := (currentRound (room voted2))
           \<lparr>votes := [(UserId 1, UserId 2), (UserId 3, UserId 2), (UserId 2, UserId 1)]\<rparr>,
         gameHistory :=
           [\<lparr>h_word = Some (''L'' @ [CHR 0xF6] @ ''we''), h_imposter = Some (newPlayer bob False),
             h_votedOut = Some (newPlayer bob False), h_imposterWon = False,
             h_players = [newPlayer alice True, newPlayer bob False, newPlayer carol False],
             h_timestamp = 2002\<rparr>]\<rparr>,
      resets := 1,
      statsLog :=
      [\<lparr>d_user = UserId 1, d_won = True, d_imposter = False, d_caught = False\<rparr>,
       \<lparr>d_user = UserId 2, d_won = False, d_imposter = True, d_caught = True\<rparr>,
       \<lparr>d_user = UserId 3, d_won = True, d_imposter = False, d_caught = False\<rparr>]\<rparr>"
  by (simp add: ended3_def vote_p0_def addVote_p0_def endGame_p0_def
        voted2_eq voted1_eq voting3_eq skipped1_eq playing3_eq lobby3_eq created1_eq
        countVotes_def countVote_def findMostVoted_def imposterWon_def updatePlayerStats_def statsOf_def
        newPlayer_def alice_def bob_def carol_def Let_def applyEffects_def)

lemma imposterLeft_eq:
  "imposterLeft = lobby3\<lparr>room := (room lobby3)
      \<lparr>players := [newPlayer alice True, newPlayer carol False],
       gameState := Voting,
       currentRound := \<lparr>word = Some (''L'' @ [CHR 0xF6] @ ''we''),
         imposter = Some (newPlayer bob False), timeRemaining = 60,
         skipVotes = [UserId 1, UserId 2], votes = [(UserId 1, UserId 2)],
         startTime = Some 1000\<rparr>\<rparr>,
     nextHandle := 1\<rparr>"
  by (simp add: imposterLeft_def voted1_eq voting3_eq skipped1_eq playing3_eq lobby3_eq
        created1_eq leaveRoom_p0_def removePlayer_def clearRoomTimer_def newPlayer_def
        alice_def bob_def carol_def Let_def)

lemma imposterLeft_srv_eq:
  "imposterLeft_srv = lobby3\<lparr>room := (room lobby3)
      \<lparr>players := [newPlayer alice True, newPlayer carol False],
       gameState := Voting,
       currentRound := \<lparr>word = Some (''L'' @ [CHR 0xF6] @ ''we''),
         imposter = Some (newPlayer bob False), timeRemaining = 60,
         skipVotes = [UserId 1, UserId 2], votes = [(UserId 1, UserId 2)],
         startTime = None\<rparr>\<rparr>,
     intervals := [(0, UserId 1)], nextHandle := 1\<rparr>"
  by (simp add: imposterLeft_srv_def voted1_srv_eq voting3_srv_eq skipped1_srv_eq
        playing3_srv_eq lobby3_eq created1_eq leaveRoom_srv_def removePlayer_def newPlayer_def
        alice_def bob_def carol_def Let_def)

lemma carol_userId: "c_userId carol = UserId 3"
  by (simp add: carol_def)

lemma vote_p0_imposterLeft:
  "fst (vote_p0 carol (UserId 2) 2001 imposterLeft) =
     [ToRoom (GameEnded \<lparr>o_word = Some (''L'' @ [CHR 0xF6] @ ''we''),
        o_imposter = Some (newPlayer bob False), o_votedOut = None, o_imposterWon = True\<rparr>)]"
  by (simp add: vote_p0_def addVote_p0_def endGame_p0_def imposterLeft_eq lobby3_eq created1_eq
        countVotes_def countVote_def findMostVoted_def imposterWon_def updatePlayerStats_def
        statsOf_def newPlayer_def alice_def bob_def carol_def Let_def applyEffects_def)

lemma vote_srv_imposterLeft:
  "fst (vote_srv carol (UserId 2) 2001 imposterLeft_srv) =
     [ToRoom (GameEnded \<lparr>o_word = Some (''L'' @ [CHR 0xF6] @ ''we''),
        o_imposter = Some (newPlayer bob False), o_votedOut = None, o_imposterWon = True\<rparr>)]"
  by (simp add: vote_srv_def addVote_srv_def endGame_srv_def imposterLeft_srv_eq lobby3_eq
        created1_eq countVotes_def countVote_def findMostVoted_def imposterWon_def
        updatePlayerStats_def statsOf_def newPlayer_def alice_def bob_def carol_def Let_def
        applyEffects_def)

lemma countVotes_imposterLeft:
  "countVotes (Map_set (UserId 3) (UserId 2) (votes (currentRound (room imposterLeft)))) =
     [(UserId 2, 2)]"
  by (simp add: imposterLeft_eq countVotes_def countVote_def)



subsection \<open>The example rooms are reachable\<close>

lemma reachable_p0_created1: "reachable_p0 created1"
  by (rule created_p0[OF createRoom_p0_alice])

lemma reachable_p0_lobby2: "reachable_p0 lobby2"
  unfolding lobby2_def by (rule stepped_p0[OF reachable_p0_created1]) simp

lemma reachable_p0_lobby3: "reachable_p0 lobby3"
  unfolding lobby3_def by (rule stepped_p0[OF reachable_p0_lobby2]) simp

lemma reachable_p0_playing3: "reachable_p0 playing3"
  unfolding playing3_def by (rule stepped_p0[OF reachable_p0_lobby3]) simp

lemma reachable_p0_skipped1: "reachable_p0 skipped1"
  unfolding skipped1_def by (rule stepped_p0[OF reachable_p0_playing3]) simp

lemma reachable_p0_voting3: "reachable_p0 voting3"
  unfolding voting3_def by (rule stepped_p0[OF reachable_p0_skipped1]) simp

lemma reachable_p0_voted1: "reachable_p0 voted1"
  unfolding voted1_def by (rule stepped_p0[OF reachable_p0_voting3]) simp

lemma reachable_p0_voted2: "reachable_p0 voted2"
  unfolding voted2_def by (rule stepped_p0[OF reachable_p0_voted1]) simp

lemma reachable_p0_skipperLeft: "reachable_p0 skipperLeft"
  unfolding skipperLeft_def by (rule stepped_p0[OF reachable_p0_skipped1]) simp

lemma reachable_srv_created1: "reachable_srv created1"
  by (rule created_srv[OF createRoom_srv_alice])

lemma reachable_srv_lobby2: "reachable_srv lobby2"
  unfolding lobby2_srv[symmetric] by (rule stepped_srv[OF reachable_srv_created1]) simp

lemma reachable_srv_lobby3: "reachable_srv lobby3"
  unfolding lobby3_srv[symmetric] by (rule stepped_srv[OF reachable_srv_lobby2]) simp

lemma reachable_srv_joinedTwice: "reachable_srv joinedTwice_srv"
  unfolding joinedTwice_srv_def by (rule stepped_srv[OF reachable_srv_lobby2]) simp

lemma reachable_srv_playing3: "reachable_srv playing3_srv"
  unfolding playing3_srv_def by (rule stepped_srv[OF reachable_srv_lobby3]) simp

lemma reachable_srv_skipped1: "reachable_srv skipped1_srv"
  unfolding skipped1_srv_def by (rule stepped_srv[OF reachable_srv_playing3]) simp

lemma reachable_srv_voting3: "reachable_srv voting3_srv"
  unfolding voting3_srv_def by (rule stepped_srv[OF reachable_srv_skipped1]) simp

lemma reachable_srv_voted1: "reachable_srv voted1_srv"
  unfolding voted1_srv_def by (rule stepped_srv[OF reachable_srv_voting3]) simp

lemma reachable_srv_voted2: "reachable_srv voted2_srv"
  unfolding voted2_srv_def by (rule stepped_srv[OF reachable_srv_voted1]) simp


lemma reachable_p0_imposterLeft: "reachable_p0 imposterLeft"
  unfolding imposterLeft_def by (rule stepped_p0[OF reachable_p0_voted1]) simp

lemma reachable_srv_imposterLeft: "reachable_srv imposterLeft_srv"
  unfolding imposterLeft_srv_def by (rule stepped_srv[OF reachable_srv_voted1]) simp



section \<open>Invariants of the reachable rooms\<close>

lemma adminInv_roster: "roster rm' = roster rm \<Longrightarrow> adminInv rm' = adminInv rm"
  by (simp add: adminInv_def roster_def)

subsection \<open>What the methods leave alone\<close>

lemma roster_startGame_p0: "roster (snd (startGame_p0 r1 r2 now rm)) = roster rm"
  by (simp add: startGame_p0_def roster_def Let_def split: completion.splits)

lemma roster_startGame_srv: "roster (snd (startGame_srv r1 r2 rm)) = roster rm"
  by (simp add: startGame_srv_def roster_def Let_def split: completion.splits)

lemma roster_endRound: "roster (endRound rm) = roster rm"
  by (simp add: endRound_def roster_def)

lemma roster_resetGame: "roster (resetGame rm) = roster rm"
  by (simp add: resetGame_def roster_def)

lemma roster_addSkipVote_p0: "roster (snd (addSkipVote_p0 i rm)) = roster rm"
  by (simp add: addSkipVote_p0_def roster_def Let_def endRound_def)

lemma roster_addSkipVote_srv: "roster (addSkipVote_srv i rm) = roster rm"
  by (simp add: addSkipVote_srv_def roster_def Let_def endRound_def)

lemma roster_endGame_p0: "roster (fst (snd (endGame_p0 now rm))) = roster rm"
  by (simp add: endGame_p0_def roster_def Let_def split: completion.splits)

lemma roster_endGame_srv: "roster (fst (snd (endGame_srv now rm))) = roster rm"
  by (simp add: endGame_srv_def roster_def Let_def split: completion.splits)

lemma roster_addVote_p0: "roster (fst (snd (addVote_p0 v t now rm))) = roster rm"
proof -
  let ?rm1 = "rm\<lparr>currentRound := (currentRound rm)\<lparr>votes := Map_set v t (votes (currentRound rm))\<rparr>\<rparr>"
  have "roster ?rm1 = roster rm" by (simp add: roster_def)
  moreover have "roster (fst (snd (endGame_p0 now ?rm1))) = roster ?rm1" by (rule roster_endGame_p0)
  ultimately show ?thesis
    by (auto simp: addVote_p0_def Let_def split: prod.splits completion.splits)
qed

lemma roster_addVote_srv: "roster (fst (snd (addVote_srv v t now rm))) = roster rm"
proof -
  let ?rm1 = "rm\<lparr>currentRound := (currentRound rm)\<lparr>votes := Map_set v t (votes (currentRound rm))\<rparr>\<rparr>"
  have "roster ?rm1 = roster rm" by (simp add: roster_def)
  moreover have "roster (fst (snd (endGame_srv now ?rm1))) = roster ?rm1" by (rule roster_endGame_srv)
  ultimately show ?thesis
    by (auto simp: addVote_srv_def Let_def split: prod.splits completion.splits)
qed

lemma applyEffect_frame [simp]:
  "room (applyEffect s e) = room s" "registered (applyEffect s e) = registered s"
  "intervals (applyEffect s e) = intervals s" "roomTimer (applyEffect s e) = roomTimer s"
  "nextHandle (applyEffect s e) = nextHandle s"
  by (cases e; simp)+

lemma applyEffects_frame [simp]:
  "room (applyEffects es s) = room s" "registered (applyEffects es s) = registered s"
  "intervals (applyEffects es s) = intervals s" "roomTimer (applyEffects es s) = roomTimer s"
  "nextHandle (applyEffects es s) = nextHandle s"
  unfolding applyEffects_def by (induction es arbitrary: s; simp)+

lemma room_clearRoomTimer [simp]: "room (clearRoomTimer s) = room s"
  by (simp add: clearRoomTimer_def clearInterval_def split: option.splits)

lemma registered_clearRoomTimer [simp]: "registered (clearRoomTimer s) = registered s"
  by (simp add: clearRoomTimer_def clearInterval_def split: option.splits)

subsection \<open>What the handlers leave alone\<close>

lemma sameRoster_updateSettings: "sameRoster s (snd (updateSettings c p s))"
  by (simp add: updateSettings_def sameRoster_def roster_def)

lemma sameRoster_startGameHandler_p0: "sameRoster s (snd (startGameHandler_p0 c r1 r2 now s))"
  using roster_startGame_p0[of r1 r2 now "room s"]
  by (auto simp: startGameHandler_p0_def sameRoster_def split: prod.splits completion.splits
        bool.splits option.splits)

lemma sameRoster_startGameHandler_srv: "sameRoster s (snd (startGameHandler_srv c r1 r2 s))"
  using roster_startGame_srv[of r1 r2 "room s"]
  by (auto simp: startGameHandler_srv_def sameRoster_def split: prod.splits completion.splits
        bool.splits option.splits)

lemma sameRoster_tick_p0: "sameRoster s (snd (tick_p0 h s))"
  by (simp add: tick_p0_def sameRoster_def roster_def Let_def endRound_def clearInterval_def
        split: option.splits)

lemma sameRoster_tick_srv: "sameRoster s (snd (tick_srv h s))"
  by (simp add: tick_srv_def sameRoster_def roster_def Let_def endRound_def clearInterval_def
        split: option.splits)

lemma sameRoster_skipVote_p0: "sameRoster s (snd (skipVote_p0 c s))"
  using roster_addSkipVote_p0[of "c_userId c" "room s"]
  by (auto simp: skipVote_p0_def sameRoster_def split: prod.splits bool.splits)

lemma sameRoster_skipVote_srv: "sameRoster s (snd (skipVote_srv c s))"
  using roster_addSkipVote_srv[of "c_userId c" "room s"]
  by (auto simp: skipVote_srv_def sameRoster_def Let_def)

lemma sameRoster_vote_p0: "sameRoster s (snd (vote_p0 c t now s))"
  using roster_addVote_p0[of "c_userId c" t now "room s"]
  by (auto simp: vote_p0_def sameRoster_def Let_def
        split: prod.splits completion.splits option.splits)

lemma sameRoster_vote_srv: "sameRoster s (snd (vote_srv c t now s))"
proof -
  obtain r rm1 es where a: "addVote_srv (c_userId c) t now (room s) = (r, rm1, es)"
    by (cases "addVote_srv (c_userId c) t now (room s)") auto
  obtain r2 rm2 es2 where e: "endGame_srv now rm1 = (r2, rm2, es2)"
    by (cases "endGame_srv now rm1") auto
  have 1: "roster rm1 = roster (room s)"
    using roster_addVote_srv[of "c_userId c" t now "room s"] a by simp
  have 2: "roster rm2 = roster rm1" using roster_endGame_srv[of now rm1] e by simp
  show ?thesis using 1 2
    by (auto simp: vote_srv_def sameRoster_def a e Let_def split: completion.splits)
qed

lemma sameRoster_resetTimeout: "sameRoster s (resetTimeout s)"
  by (simp add: resetTimeout_def sameRoster_def roster_resetGame)

subsection \<open>One admin\<close>

lemma rosterInv_sameRoster: "sameRoster s s' \<Longrightarrow> rosterInv s \<Longrightarrow> rosterInv s'"
  by (auto simp: sameRoster_def rosterInv_def roster_def adminInv_def)

lemma removePlayer_players:
  "players (snd (removePlayer i rm)) =
     (case filter (\<lambda>p. player_id p \<noteq> i) (players rm) of
        [] \<Rightarrow> []
      | q # rest \<Rightarrow> if adminId rm = i then q\<lparr>isAdmin := True\<rparr> # rest else q # rest)"
  by (simp add: removePlayer_def Let_def split: list.splits)

lemma removePlayer_adminId:
  "adminId (snd (removePlayer i rm)) =
     (case filter (\<lambda>p. player_id p \<noteq> i) (players rm) of
        [] \<Rightarrow> adminId rm
      | q # rest \<Rightarrow> if adminId rm = i then player_id q else adminId rm)"
  by (simp add: removePlayer_def Let_def split: list.splits)

lemma removePlayer_empty:
  "fst (removePlayer i rm) = (players (snd (removePlayer i rm)) = [])"
  by (simp add: removePlayer_def Let_def)

lemma removePlayer_ids:
  "map player_id (players (snd (removePlayer i rm))) =
     filter (\<lambda>j. j \<noteq> i) (map player_id (players rm))"
  by (simp add: removePlayer_players filter_map comp_def split: list.splits)

lemma removePlayer_round: "currentRound (snd (removePlayer i rm)) = currentRound rm"
  by (simp add: removePlayer_def Let_def)

lemma removePlayer_adminInv:
  assumes "adminInv rm"
  shows "adminInv (snd (removePlayer i rm))"
proof -
  let ?ps = "filter (\<lambda>p. player_id p \<noteq> i) (players rm)"
  have own: "\<forall>p \<in> set (players rm). isAdmin p \<longrightarrow> player_id p = adminId rm"
    and cnt: "length (filter isAdmin (players rm)) = min 1 (length (players rm))"
    using assms by (simp_all add: adminInv_def)
  show ?thesis
  proof (cases "adminId rm = i")
    case True
    have none: "filter isAdmin ?ps = []" using own True by (auto simp: filter_empty_conv)
    show ?thesis
    proof (cases ?ps)
      case Nil
      then show ?thesis by (simp add: adminInv_def removePlayer_players)
    next
      case (Cons q rest)
      have "filter isAdmin rest = []" using none Cons by (simp split: if_splits)
      then show ?thesis using Cons True
        by (auto simp: adminInv_def removePlayer_players removePlayer_adminId filter_empty_conv)
    qed
  next
    case False
    have keep: "filter isAdmin ?ps = filter isAdmin (players rm)"
      using own False by (auto intro!: filter_cong)
    have pl: "players (snd (removePlayer i rm)) = ?ps"
      using False by (simp add: removePlayer_players split: list.splits)
    have ad: "adminId (snd (removePlayer i rm)) = adminId rm"
      using False by (simp add: removePlayer_adminId split: list.splits)
    have "length (filter isAdmin ?ps) = min 1 (length ?ps)"
    proof (cases "players rm = []")
      case True
      then show ?thesis by simp
    next
      case ne: False
      then have one: "length (filter isAdmin (players rm)) = 1" using cnt by (cases "players rm") auto
      then have f: "filter isAdmin ?ps \<noteq> []" unfolding keep by auto
      have "?ps \<noteq> []"
      proof
        assume e: "?ps = []"
        have "filter isAdmin ?ps = []" unfolding e by simp
        with f show False by contradiction
      qed
      then show ?thesis using one keep by (cases ?ps) auto
    qed
    then show ?thesis using own unfolding adminInv_def pl ad by auto
  qed
qed

lemma addPlayer_p0_adminInv:
  assumes "adminInv rm" "players rm \<noteq> []" "\<not> isAdmin p"
  shows "adminInv (snd (addPlayer_p0 p rm))"
  using assms by (cases "players rm") (auto simp: adminInv_def addPlayer_p0_def)

lemma addPlayer_srv_adminInv:
  assumes "adminInv rm" "players rm \<noteq> []" "\<not> isAdmin p"
  shows "adminInv (snd (addPlayer_srv p rm))"
  using assms by (cases "players rm") (auto simp: adminInv_def addPlayer_srv_def)

lemma addPlayer_p0_nonempty: "players rm \<noteq> [] \<Longrightarrow> players (snd (addPlayer_p0 p rm)) \<noteq> []"
  by (auto simp: addPlayer_p0_def)

lemma addPlayer_srv_nonempty: "players rm \<noteq> [] \<Longrightarrow> players (snd (addPlayer_srv p rm)) \<noteq> []"
  by (auto simp: addPlayer_srv_def)

lemma rosterInv_joinRoom_p0: "rosterInv s \<Longrightarrow> rosterInv (snd (joinRoom_p0 c s))"
proof -
  assume a: "rosterInv s"
  have n: "\<not> isAdmin (newPlayer c False)" by (simp add: newPlayer_def)
  show ?thesis
  proof (cases "truthy (c_userId c) \<and> registered s \<and> gameState (room s) = Waiting")
    case True
    then have ne: "players (room s) \<noteq> []" using a by (simp add: rosterInv_def)
    have inv: "adminInv (room s)" using a by (simp add: rosterInv_def)
    have "snd (joinRoom_p0 c s) = s\<lparr>room := snd (addPlayer_p0 (newPlayer c False) (room s))\<rparr>"
      using True by (simp add: joinRoom_p0_def split: prod.splits bool.splits)
    then show ?thesis
      using addPlayer_p0_adminInv[OF inv ne n] addPlayer_p0_nonempty[OF ne]
      by (simp add: rosterInv_def)
  next
    case False
    then have "snd (joinRoom_p0 c s) = s" by (auto simp: joinRoom_p0_def)
    then show ?thesis using a by simp
  qed
qed

lemma rosterInv_joinRoom_srv: "rosterInv s \<Longrightarrow> rosterInv (snd (joinRoom_srv c s))"
proof -
  assume a: "rosterInv s"
  have n: "\<not> isAdmin (newPlayer c False)" by (simp add: newPlayer_def)
  show ?thesis
  proof (cases "truthy (c_userId c) \<and> registered s \<and> gameState (room s) = Waiting")
    case True
    then have ne: "players (room s) \<noteq> []" using a by (simp add: rosterInv_def)
    have inv: "adminInv (room s)" using a by (simp add: rosterInv_def)
    have "snd (joinRoom_srv c s) = s\<lparr>room := snd (addPlayer_srv (newPlayer c False) (room s))\<rparr>"
      using True by (simp add: joinRoom_srv_def split: prod.splits bool.splits)
    then show ?thesis
      using addPlayer_srv_adminInv[OF inv ne n] addPlayer_srv_nonempty[OF ne]
      by (simp add: rosterInv_def)
  next
    case False
    then have "snd (joinRoom_srv c s) = s" by (auto simp: joinRoom_srv_def)
    then show ?thesis using a by simp
  qed
qed

lemma leaveRoom_srv_room:
  "snd (leaveRoom_srv c s) =
     (if \<not> registered s then s
      else s\<lparr>room := snd (removePlayer (c_userId c) (room s)),
             registered := players (snd (removePlayer (c_userId c) (room s))) \<noteq> []\<rparr>)"
  using removePlayer_empty[of "c_userId c" "room s"]
  by (auto simp: leaveRoom_srv_def split: prod.splits bool.splits)

lemma leaveRoom_p0_room:
  "snd (leaveRoom_p0 c s) =
     (if \<not> registered s then s
      else (clearRoomTimer s)\<lparr>room := snd (removePlayer (c_userId c) (room s)),
             registered := players (snd (removePlayer (c_userId c) (room s))) \<noteq> []\<rparr>)"
  using removePlayer_empty[of "c_userId c" "room s"]
  by (auto simp: leaveRoom_p0_def Let_def split: prod.splits bool.splits)

lemma disconnect_srv_leaveRoom: "snd (disconnect_srv c s) = snd (leaveRoom_srv c s)"
  by (simp add: disconnect_srv_def leaveRoom_srv_def split: prod.splits bool.splits)

lemma disconnect_p0_leaveRoom: "snd (disconnect_p0 c s) = snd (leaveRoom_p0 c s)"
  by (simp add: disconnect_p0_def leaveRoom_p0_def Let_def split: prod.splits bool.splits)

lemma rosterInv_leaveRoom_srv: "rosterInv s \<Longrightarrow> rosterInv (snd (leaveRoom_srv c s))"
  using removePlayer_adminInv[of "room s" "c_userId c"]
  by (simp add: leaveRoom_srv_room rosterInv_def)

lemma rosterInv_leaveRoom_p0: "rosterInv s \<Longrightarrow> rosterInv (snd (leaveRoom_p0 c s))"
  using removePlayer_adminInv[of "room s" "c_userId c"]
  by (simp add: leaveRoom_p0_room rosterInv_def)

lemma rosterInv_step_p0: "rosterInv s \<Longrightarrow> rosterInv (step_p0 cmd s)"
proof (cases cmd)
  case (JoinRoom c) then show "rosterInv s \<Longrightarrow> ?thesis" by (simp add: rosterInv_joinRoom_p0)
next
  case (LeaveRoom c) then show "rosterInv s \<Longrightarrow> ?thesis" by (simp add: rosterInv_leaveRoom_p0)
next
  case (Disconnect c) then show "rosterInv s \<Longrightarrow> ?thesis"
    by (simp add: disconnect_p0_leaveRoom rosterInv_leaveRoom_p0)
next
  case (UpdateSettings c p) then show "rosterInv s \<Longrightarrow> ?thesis"
    using rosterInv_sameRoster[OF sameRoster_updateSettings] by simp
next
  case (StartGame c r1 r2 now) then show "rosterInv s \<Longrightarrow> ?thesis"
    using rosterInv_sameRoster[OF sameRoster_startGameHandler_p0] by simp
next
  case (SkipVote c) then show "rosterInv s \<Longrightarrow> ?thesis"
    using rosterInv_sameRoster[OF sameRoster_skipVote_p0] by simp
next
  case (Vote c t now) then show "rosterInv s \<Longrightarrow> ?thesis"
    using rosterInv_sameRoster[OF sameRoster_vote_p0] by simp
next
  case (Tick h) then show "rosterInv s \<Longrightarrow> ?thesis"
    using rosterInv_sameRoster[OF sameRoster_tick_p0] by simp
next
  case ResetTimeout then show "rosterInv s \<Longrightarrow> ?thesis"
    using rosterInv_sameRoster[OF sameRoster_resetTimeout] by simp
qed

lemma rosterInv_step_srv: "rosterInv s \<Longrightarrow> rosterInv (step_srv cmd s)"
proof (cases cmd)
  case (JoinRoom c) then show "rosterInv s \<Longrightarrow> ?thesis" by (simp add: rosterInv_joinRoom_srv)
next
  case (LeaveRoom c) then show "rosterInv s \<Longrightarrow> ?thesis" by (simp add: rosterInv_leaveRoom_srv)
next
  case (Disconnect c) then show "rosterInv s \<Longrightarrow> ?thesis"
    by (simp add: disconnect_srv_leaveRoom rosterInv_leaveRoom_srv)
next
  case (UpdateSettings c p) then show "rosterInv s \<Longrightarrow> ?thesis"
    using rosterInv_sameRoster[OF sameRoster_updateSettings] by simp
next
  case (StartGame c r1 r2 now) then show "rosterInv s \<Longrightarrow> ?thesis"
    using rosterInv_sameRoster[OF sameRoster_startGameHandler_srv] by simp
next
  case (SkipVote c) then show "rosterInv s \<Longrightarrow> ?thesis"
    using rosterInv_sameRoster[OF sameRoster_skipVote_srv] by simp
next
  case (Vote c t now) then show "rosterInv s \<Longrightarrow> ?thesis"
    using rosterInv_sameRoster[OF sameRoster_vote_srv] by simp
next
  case (Tick h) then show "rosterInv s \<Longrightarrow> ?thesis"
    using rosterInv_sameRoster[OF sameRoster_tick_srv] by simp
next
  case ResetTimeout then show "rosterInv s \<Longrightarrow> ?thesis"
    using rosterInv_sameRoster[OF sameRoster_resetTimeout] by simp
qed

lemma rosterInv_created_p0: "createRoom_p0 c rid nm = (es, Some s) \<Longrightarrow> rosterInv s"
  by (auto simp: createRoom_p0_def Let_def newSys_def addPlayer_p0_def GameRoom_def newPlayer_def
        rosterInv_def adminInv_def split: if_splits)

lemma rosterInv_created_srv: "createRoom_srv c rid nm = (es, Some s) \<Longrightarrow> rosterInv s"
  by (auto simp: createRoom_srv_def Let_def newSys_def addPlayer_srv_def GameRoom_def newPlayer_def
        rosterInv_def adminInv_def split: if_splits)

lemma reachable_p0_rosterInv: "reachable_p0 s \<Longrightarrow> rosterInv s"
  by (induction rule: reachable_p0.induct) (auto intro: rosterInv_created_p0 rosterInv_step_p0)

lemma reachable_srv_rosterInv: "reachable_srv s \<Longrightarrow> rosterInv s"
  by (induction rule: reachable_srv.induct) (auto intro: rosterInv_created_srv rosterInv_step_srv)

subsection \<open>Timers and the imposter, in part_000: the methods\<close>

lemma addPlayer_p0_round:
  "gameState (snd (addPlayer_p0 p rm)) = gameState rm"
  "currentRound (snd (addPlayer_p0 p rm)) = currentRound rm"
  by (simp_all add: addPlayer_p0_def)

lemma removePlayer_gameState: "gameState (snd (removePlayer i rm)) = gameState rm"
  by (simp add: removePlayer_def Let_def)

lemma startGame_p0_rejected:
  "length (players rm) < 3 \<or> gameState rm \<noteq> Waiting \<Longrightarrow>
     startGame_p0 r1 r2 now rm = (Normal False, rm)"
  by (auto simp: startGame_p0_def)

lemma startGame_p0_entered:
  assumes "\<not> (length (players rm) < 3 \<or> gameState rm \<noteq> Waiting)"
  shows "fst (startGame_p0 r1 r2 now rm) \<noteq> Normal False"
    "gameState (snd (startGame_p0 r1 r2 now rm)) = Playing"
    "imposter (currentRound (snd (startGame_p0 r1 r2 now rm))) =
       index (players rm) \<lfloor>r1 * real (length (players rm))\<rfloor>"
  using assms by (simp_all add: startGame_p0_def Let_def split: completion.splits)

lemma addSkipVote_p0_round:
  "gameState (snd (addSkipVote_p0 i rm)) = (if fst (addSkipVote_p0 i rm) then Voting else gameState rm)"
  "imposter (currentRound (snd (addSkipVote_p0 i rm))) = imposter (currentRound rm)"
  by (simp_all add: addSkipVote_p0_def Let_def endRound_def)

lemma endGame_p0_round:
  "gameState (fst (snd (endGame_p0 now rm))) = Ended"
  "imposter (currentRound (fst (snd (endGame_p0 now rm)))) = imposter (currentRound rm)"
  "ScheduleReset \<notin> set (snd (snd (endGame_p0 now rm)))"
  by (auto simp: endGame_p0_def Let_def split: completion.splits)

lemma addVote_p0_round:
  "gameState (fst (snd (addVote_p0 v t now rm))) =
     (if fst (addVote_p0 v t now rm) = Normal None then gameState rm else Ended)"
  "imposter (currentRound (fst (snd (addVote_p0 v t now rm)))) = imposter (currentRound rm)"
  "ScheduleReset \<notin> set (snd (snd (addVote_p0 v t now rm)))"
proof -
  let ?rm1 = "rm\<lparr>currentRound := (currentRound rm)\<lparr>votes := Map_set v t (votes (currentRound rm))\<rparr>\<rparr>"
  obtain r rm2 es where e: "endGame_p0 now ?rm1 = (r, rm2, es)"
    by (cases "endGame_p0 now ?rm1") auto
  have g: "gameState rm2 = Ended" "imposter (currentRound rm2) = imposter (currentRound rm)"
    "ScheduleReset \<notin> set es"
    using endGame_p0_round[of now ?rm1] e by simp_all
  show "gameState (fst (snd (addVote_p0 v t now rm))) =
     (if fst (addVote_p0 v t now rm) = Normal None then gameState rm else Ended)"
    using g by (cases r) (simp_all add: addVote_p0_def Let_def e)
  show "imposter (currentRound (fst (snd (addVote_p0 v t now rm)))) = imposter (currentRound rm)"
    using g by (cases r) (simp_all add: addVote_p0_def Let_def e)
  show "ScheduleReset \<notin> set (snd (snd (addVote_p0 v t now rm)))"
    using g by (cases r) (simp_all add: addVote_p0_def Let_def e)
qed

lemma resets_applyEffects:
  "ScheduleReset \<notin> set es \<Longrightarrow> resets (applyEffects es s) = resets s"
  unfolding applyEffects_def
proof (induction es arbitrary: s)
  case Nil
  then show ?case by simp
next
  case (Cons e es)
  then show ?case by (cases e) simp_all
qed

subsection \<open>Timers and the imposter, in part_000: the handlers\<close>

lemma roundInv_frame:
  assumes "roundInv s"
    "gameState (room s') = gameState (room s)"
    "imposter (currentRound (room s')) = imposter (currentRound (room s))"
    "intervals s' = intervals s" "roomTimer s' = roomTimer s" "resets s' = resets s"
  shows "roundInv s'"
  using assms by (simp add: roundInv_def)

lemma roundInv_joinRoom_p0: "roundInv s \<Longrightarrow> roundInv (snd (joinRoom_p0 c s))"
  by (erule roundInv_frame)
     (auto simp: joinRoom_p0_def addPlayer_p0_def split: prod.splits bool.splits)

lemma clearRoomTimer_fields:
  "roomTimer (clearRoomTimer s) = None"
  "resets (clearRoomTimer s) = resets s"
  "map fst (intervals s) = (case roomTimer s of None \<Rightarrow> [] | Some h \<Rightarrow> [h]) \<Longrightarrow>
     intervals (clearRoomTimer s) = []"
  by (auto simp: clearRoomTimer_def clearInterval_def filter_empty_conv split: option.splits)

lemma roundInv_leaveRoom_p0: "roundInv s \<Longrightarrow> roundInv (snd (leaveRoom_p0 c s))"
  by (simp add: leaveRoom_p0_room roundInv_def removePlayer_gameState removePlayer_round
        clearRoomTimer_fields)

lemma roundInv_updateSettings: "roundInv s \<Longrightarrow> roundInv (snd (updateSettings c p s))"
  by (erule roundInv_frame) (simp_all add: updateSettings_def)

lemma roundInv_startGameHandler_p0:
  assumes inv: "roundInv s" and r: "0 \<le> r1" "r1 < 1"
  shows "roundInv (snd (startGameHandler_p0 c r1 r2 now s))"
proof (cases "length (players (room s)) < 3 \<or> gameState (room s) \<noteq> Waiting")
  case True
  have "snd (startGameHandler_p0 c r1 r2 now s) = s"
    by (auto simp: startGameHandler_p0_def startGame_p0_rejected[OF True])
  then show ?thesis using inv by simp
next
  case False
  then have ne: "players (room s) \<noteq> []" by auto
  obtain res rm1 where sg: "startGame_p0 r1 r2 now (room s) = (res, rm1)"
    by (cases "startGame_p0 r1 r2 now (room s)") auto
  obtain imp where imp: "index (players (room s)) \<lfloor>r1 * real (length (players (room s)))\<rfloor> = Some imp"
    using index_in[OF r ne] by blast
  have f: "res \<noteq> Normal False" "gameState rm1 = Playing" "imposter (currentRound rm1) = Some imp"
    using startGame_p0_entered[OF False, of r1 r2 now] sg imp by simp_all
  have w: "gameState (room s) = Waiting" using False by simp
  then have t: "roomTimer s = None" "intervals s = []" "resets s = 0"
    using inv by (auto simp: roundInv_def)
  show ?thesis
  proof (cases "adminId (room s) = c_userId c \<and> registered s")
    case adm: True
    show ?thesis
    proof (cases res)
      case (Thrown e)
      then show ?thesis using adm f t
        by (simp add: startGameHandler_p0_def sg roundInv_def)
    next
      case (Normal b)
      then have "b" using f(1) by simp
      then show ?thesis using adm f t Normal
        by (simp add: startGameHandler_p0_def sg roundInv_def)
    qed
  next
    case False
    then have "snd (startGameHandler_p0 c r1 r2 now s) = s"
      by (auto simp: startGameHandler_p0_def)
    then show ?thesis using inv by simp
  qed
qed

lemma roundInv_skipVote_p0: "roundInv s \<Longrightarrow> roundInv (snd (skipVote_p0 c s))"
proof -
  assume inv: "roundInv s"
  show ?thesis
  proof (cases "registered s \<and> gameState (room s) = Playing")
    case False
    then have "snd (skipVote_p0 c s) = s" by (auto simp: skipVote_p0_def)
    then show ?thesis using inv by simp
  next
    case True
    obtain b rm1 where a: "addSkipVote_p0 (c_userId c) (room s) = (b, rm1)"
      by (cases "addSkipVote_p0 (c_userId c) (room s)") auto
    have g: "gameState rm1 = (if b then Voting else Playing)"
      "imposter (currentRound rm1) = imposter (currentRound (room s))"
      using addSkipVote_p0_round[of "c_userId c" "room s"] a True by simp_all
    have r0: "resets s = 0" using inv True by (auto simp: roundInv_def)
    have iv: "map fst (intervals s) = (case roomTimer s of None \<Rightarrow> [] | Some h \<Rightarrow> [h])"
      using inv by (simp add: roundInv_def)
    have iv': "map fst (intervals (s\<lparr>room := rm1\<rparr>)) =
        (case roomTimer (s\<lparr>room := rm1\<rparr>) of None \<Rightarrow> [] | Some h \<Rightarrow> [h])"
      using iv by simp
    show ?thesis
    proof (cases b)
      case True
      then show ?thesis using \<open>registered s \<and> gameState (room s) = Playing\<close> g r0 inv
          clearRoomTimer_fields(3)[OF iv']
        by (simp add: skipVote_p0_def a roundInv_def clearRoomTimer_fields(1,2))
    next
      case False
      then show ?thesis using \<open>registered s \<and> gameState (room s) = Playing\<close> g inv
        by (simp add: skipVote_p0_def a roundInv_def)
    qed
  qed
qed

lemma roundInv_vote_p0: "roundInv s \<Longrightarrow> roundInv (snd (vote_p0 c t now s))"
proof -
  assume inv: "roundInv s"
  show ?thesis
  proof (cases "registered s \<and> gameState (room s) = Voting")
    case False
    then have "snd (vote_p0 c t now s) = s" by (auto simp: vote_p0_def)
    then show ?thesis using inv by simp
  next
    case True
    obtain r rm1 es where a: "addVote_p0 (c_userId c) t now (room s) = (r, rm1, es)"
      by (cases "addVote_p0 (c_userId c) t now (room s)") auto
    have g: "gameState rm1 = (if r = Normal None then Voting else Ended)"
      "imposter (currentRound rm1) = imposter (currentRound (room s))"
      "ScheduleReset \<notin> set es"
      using addVote_p0_round[of "c_userId c" t now "room s"] a True by simp_all
    have t0: "roomTimer s = None" "intervals s = []" "resets s = 0"
      "imposter (currentRound (room s)) \<noteq> None"
      using inv True by (auto simp: roundInv_def)
    have rs: "resets (applyEffects es (s\<lparr>room := rm1\<rparr>)) = 0"
      using resets_applyEffects[OF g(3)] t0 by simp
    show ?thesis
    proof (cases r)
      case (Thrown e)
      then show ?thesis using True g t0 rs
        by (simp add: vote_p0_def a roundInv_def)
    next
      case (Normal o1)
      then show ?thesis using True g t0 rs
        by (cases o1) (simp_all add: vote_p0_def a roundInv_def Let_def)
    qed
  qed
qed

lemma Map_get_in_keys: "Map_get m k = Some v \<Longrightarrow> k \<in> set (map fst m)"
  by (induction m) (auto split: if_splits)

lemma roundInv_tick_p0: "roundInv s \<Longrightarrow> roundInv (snd (tick_p0 h s))"
proof -
  assume inv: "roundInv s"
  show ?thesis
  proof (cases "Map_get (intervals s) h")
    case None
    then have "snd (tick_p0 h s) = s" by (simp add: tick_p0_def)
    then show ?thesis using inv by simp
  next
    case (Some starter)
    then have "h \<in> set (map fst (intervals s))" by (rule Map_get_in_keys)
    then have rt: "roomTimer s = Some h" "map fst (intervals s) = [h]"
      using inv by (auto simp: roundInv_def split: option.splits)
    then have pl: "gameState (room s) = Playing" "resets s = 0"
      "imposter (currentRound (room s)) \<noteq> None"
      using inv by (auto simp: roundInv_def)
    have cl: "intervals (clearInterval h s) = []"
      using rt(2) by (auto simp: clearInterval_def filter_empty_conv)
    show ?thesis using rt pl cl inv
      by (simp add: tick_p0_def Some Let_def roundInv_def endRound_def clearInterval_def)
  qed
qed

lemma roundInv_resetTimeout: "roundInv s \<Longrightarrow> roundInv (resetTimeout s)"
  by (auto simp: roundInv_def resetTimeout_def resetGame_def emptyRound_def)

lemma roundInv_step_p0:
  assumes "roundInv s" "admissible cmd"
  shows "roundInv (step_p0 cmd s)"
proof (cases cmd)
  case (JoinRoom c) then show ?thesis using assms by (simp add: roundInv_joinRoom_p0)
next
  case (LeaveRoom c) then show ?thesis using assms by (simp add: roundInv_leaveRoom_p0)
next
  case (Disconnect c) then show ?thesis using assms
    by (simp add: disconnect_p0_leaveRoom roundInv_leaveRoom_p0)
next
  case (UpdateSettings c p) then show ?thesis using assms by (simp add: roundInv_updateSettings)
next
  case (StartGame c r1 r2 now) then show ?thesis using assms
    by (simp add: roundInv_startGameHandler_p0)
next
  case (SkipVote c) then show ?thesis using assms by (simp add: roundInv_skipVote_p0)
next
  case (Vote c t now) then show ?thesis using assms by (simp add: roundInv_vote_p0)
next
  case (Tick h) then show ?thesis using assms by (simp add: roundInv_tick_p0)
next
  case ResetTimeout then show ?thesis using assms by (simp add: roundInv_resetTimeout)
qed

lemma roundInv_created_p0: "createRoom_p0 c rid nm = (es, Some s) \<Longrightarrow> roundInv s"
  by (auto simp: createRoom_p0_def Let_def newSys_def addPlayer_p0_def GameRoom_def
        roundInv_def split: if_splits)

lemma reachable_p0_roundInv: "reachable_p0 s \<Longrightarrow> roundInv s"
  by (induction rule: reachable_p0.induct) (auto intro: roundInv_created_p0 roundInv_step_p0)

subsection \<open>skipVotes under the methods\<close>

lemma addSkipVote_p0_twice: "addSkipVote_p0 i (snd (addSkipVote_p0 i rm)) = addSkipVote_p0 i rm"
  by (simp add: addSkipVote_p0_def Let_def endRound_def Set_add_twice)

lemma addSkipVote_srv_twice: "addSkipVote_srv i (addSkipVote_srv i rm) = addSkipVote_srv i rm"
  by (simp add: addSkipVote_srv_def Let_def endRound_def Set_add_twice)

lemma addSkipVote_p0_skipVotes:
  "skipVotes (currentRound (snd (addSkipVote_p0 i rm))) = Set_add i (skipVotes (currentRound rm))"
  by (simp add: addSkipVote_p0_def Let_def endRound_def)

lemma addSkipVote_srv_skipVotes:
  "skipVotes (currentRound (addSkipVote_srv i rm)) = Set_add i (skipVotes (currentRound rm))"
  by (simp add: addSkipVote_srv_def Let_def endRound_def)

lemma addSkipVote_p0_returns:
  "fst (addSkipVote_p0 i rm) \<longleftrightarrow>
     (length (players rm) + 1) div 2 \<le> length (skipVotes (currentRound (snd (addSkipVote_p0 i rm))))"
  by (simp add: addSkipVote_p0_def Let_def endRound_def ceiling_half)

lemma skipVotes_endGame_p0:
  "skipVotes (currentRound (fst (snd (endGame_p0 now rm)))) = skipVotes (currentRound rm)"
  by (simp add: endGame_p0_def Let_def split: completion.splits)


subsection \<open>What endGame returns\<close>

lemma endGame_p0_result:
  assumes "imposter (currentRound rm) = Some imp"
  shows "fst (endGame_p0 now rm) =
     Normal \<lparr>o_word = word (currentRound rm), o_imposter = Some imp,
             o_votedOut = fst (findMostVoted (players rm) (countVotes (votes (currentRound rm)))),
             o_imposterWon =
               (case fst (findMostVoted (players rm) (countVotes (votes (currentRound rm)))) of
                  None \<Rightarrow> True | Some v \<Rightarrow> player_id v \<noteq> player_id imp)\<rparr>"
  using assms
  by (simp add: endGame_p0_def imposterWon_def updatePlayerStats_def Let_def
        split: option.splits list.splits)

lemma endGame_srv_result:
  assumes "imposter (currentRound rm) = Some imp"
  shows "fst (endGame_srv now rm) =
     Normal \<lparr>o_word = word (currentRound rm), o_imposter = Some imp,
             o_votedOut = fst (findMostVoted (players rm) (countVotes (votes (currentRound rm)))),
             o_imposterWon =
               (case fst (findMostVoted (players rm) (countVotes (votes (currentRound rm)))) of
                  None \<Rightarrow> True | Some v \<Rightarrow> player_id v \<noteq> player_id imp)\<rparr>"
  using assms
  by (simp add: endGame_srv_def imposterWon_def updatePlayerStats_def Let_def
        split: option.splits list.splits)

subsection \<open>Votes in part_000\<close>

lemma length_Map_set:
  "length (Map_set k v m) = (if k \<in> set (map fst m) then length m else length m + 1)"
  by (induction m) (force split: if_splits)+

lemma distinct_Map_set: "distinct (map fst m) \<Longrightarrow> distinct (map fst (Map_set k v m))"
  by (simp add: keys_Map_set)

lemma votes_endGame_p0:
  "votes (currentRound (fst (snd (endGame_p0 now rm)))) = votes (currentRound rm)"
  by (simp add: endGame_p0_def Let_def split: completion.splits)

lemma endGame_p0_total:
  assumes "imposter (currentRound rm) = Some imp"
  shows "\<exists>oc. fst (endGame_p0 now rm) = Normal oc"
  using endGame_p0_result[OF assms] by blast

lemma reachable_p0_voting_imposter:
  assumes "reachable_p0 s" "gameState (room s) = Voting"
  shows "\<exists>imp. imposter (currentRound (room s)) = Some imp"
  using reachable_p0_roundInv[OF assms(1)] assms(2) by (auto simp: roundInv_def)

subsection \<open>Each voter once, in part_000\<close>

lemma votersDistinct_frame:
  assumes "votersDistinct s" "votes (currentRound (room s')) = votes (currentRound (room s))"
    "skipVotes (currentRound (room s')) = skipVotes (currentRound (room s))"
  shows "votersDistinct s'"
  using assms by (simp add: votersDistinct_def)

lemma votersDistinct_joinRoom_p0: "votersDistinct s \<Longrightarrow> votersDistinct (snd (joinRoom_p0 c s))"
  by (erule votersDistinct_frame)
     (auto simp: joinRoom_p0_def addPlayer_p0_def split: prod.splits bool.splits)

lemma votersDistinct_leaveRoom_p0: "votersDistinct s \<Longrightarrow> votersDistinct (snd (leaveRoom_p0 c s))"
  by (erule votersDistinct_frame) (simp_all add: leaveRoom_p0_room removePlayer_round)

lemma votersDistinct_updateSettings: "votersDistinct s \<Longrightarrow> votersDistinct (snd (updateSettings c p s))"
  by (erule votersDistinct_frame) (simp_all add: updateSettings_def)

lemma startGame_p0_votes:
  "votes (currentRound (snd (startGame_p0 r1 r2 now rm))) = votes (currentRound rm) \<or>
   votes (currentRound (snd (startGame_p0 r1 r2 now rm))) = []"
  "skipVotes (currentRound (snd (startGame_p0 r1 r2 now rm))) = skipVotes (currentRound rm) \<or>
   skipVotes (currentRound (snd (startGame_p0 r1 r2 now rm))) = []"
  by (simp_all add: startGame_p0_def Let_def split: completion.splits)

lemma votersDistinct_startGameHandler_p0:
  "votersDistinct s \<Longrightarrow> votersDistinct (snd (startGameHandler_p0 c r1 r2 now s))"
  using startGame_p0_votes[of r1 r2 now "room s"]
  by (auto simp: startGameHandler_p0_def votersDistinct_def
        split: prod.splits completion.splits bool.splits option.splits)

lemma votes_addSkipVote_p0:
  "votes (currentRound (snd (addSkipVote_p0 i rm))) = votes (currentRound rm)"
  by (simp add: addSkipVote_p0_def Let_def endRound_def)

lemma votersDistinct_skipVote_p0: "votersDistinct s \<Longrightarrow> votersDistinct (snd (skipVote_p0 c s))"
  using votes_addSkipVote_p0[of "c_userId c" "room s"]
    addSkipVote_p0_skipVotes[of "c_userId c" "room s"]
  by (auto simp: skipVote_p0_def votersDistinct_def Set_add_distinct split: prod.splits bool.splits)

lemma addVote_p0_votes:
  "votes (currentRound (fst (snd (addVote_p0 v t now rm)))) = Map_set v t (votes (currentRound rm))"
  "skipVotes (currentRound (fst (snd (addVote_p0 v t now rm)))) = skipVotes (currentRound rm)"
proof -
  let ?rm1 = "rm\<lparr>currentRound := (currentRound rm)\<lparr>votes := Map_set v t (votes (currentRound rm))\<rparr>\<rparr>"
  obtain r rm2 es where e: "endGame_p0 now ?rm1 = (r, rm2, es)"
    by (cases "endGame_p0 now ?rm1") auto
  have g: "votes (currentRound rm2) = Map_set v t (votes (currentRound rm))"
    "skipVotes (currentRound rm2) = skipVotes (currentRound rm)"
    using votes_endGame_p0[of now ?rm1] skipVotes_endGame_p0[of now ?rm1] e by simp_all
  show "votes (currentRound (fst (snd (addVote_p0 v t now rm)))) =
      Map_set v t (votes (currentRound rm))"
    using g by (cases r) (simp_all add: addVote_p0_def Let_def e)
  show "skipVotes (currentRound (fst (snd (addVote_p0 v t now rm)))) = skipVotes (currentRound rm)"
    using g by (cases r) (simp_all add: addVote_p0_def Let_def e)
qed

lemma votersDistinct_vote_p0: "votersDistinct s \<Longrightarrow> votersDistinct (snd (vote_p0 c t now s))"
  using addVote_p0_votes[of "c_userId c" t now "room s"]
  by (auto simp: vote_p0_def votersDistinct_def distinct_Map_set Let_def
        split: prod.splits completion.splits option.splits)

lemma votersDistinct_tick_p0: "votersDistinct s \<Longrightarrow> votersDistinct (snd (tick_p0 h s))"
  by (erule votersDistinct_frame)
     (simp_all add: tick_p0_def Let_def endRound_def clearInterval_def split: option.splits)

lemma votersDistinct_resetTimeout: "votersDistinct s \<Longrightarrow> votersDistinct (resetTimeout s)"
  by (simp add: votersDistinct_def resetTimeout_def resetGame_def emptyRound_def)

lemma votersDistinct_step_p0: "votersDistinct s \<Longrightarrow> votersDistinct (step_p0 cmd s)"
proof (cases cmd)
  case (JoinRoom c) then show "votersDistinct s \<Longrightarrow> ?thesis" by (simp add: votersDistinct_joinRoom_p0)
next
  case (LeaveRoom c) then show "votersDistinct s \<Longrightarrow> ?thesis" by (simp add: votersDistinct_leaveRoom_p0)
next
  case (Disconnect c) then show "votersDistinct s \<Longrightarrow> ?thesis"
    by (simp add: disconnect_p0_leaveRoom votersDistinct_leaveRoom_p0)
next
  case (UpdateSettings c p) then show "votersDistinct s \<Longrightarrow> ?thesis"
    by (simp add: votersDistinct_updateSettings)
next
  case (StartGame c r1 r2 now) then show "votersDistinct s \<Longrightarrow> ?thesis"
    by (simp add: votersDistinct_startGameHandler_p0)
next
  case (SkipVote c) then show "votersDistinct s \<Longrightarrow> ?thesis" by (simp add: votersDistinct_skipVote_p0)
next
  case (Vote c t now) then show "votersDistinct s \<Longrightarrow> ?thesis" by (simp add: votersDistinct_vote_p0)
next
  case (Tick h) then show "votersDistinct s \<Longrightarrow> ?thesis" by (simp add: votersDistinct_tick_p0)
next
  case ResetTimeout then show "votersDistinct s \<Longrightarrow> ?thesis" by (simp add: votersDistinct_resetTimeout)
qed

lemma votersDistinct_created_p0: "createRoom_p0 c rid nm = (es, Some s) \<Longrightarrow> votersDistinct s"
  by (auto simp: createRoom_p0_def Let_def newSys_def addPlayer_p0_def GameRoom_def
        emptyRound_def votersDistinct_def split: if_splits)

lemma reachable_p0_votersDistinct: "reachable_p0 s \<Longrightarrow> votersDistinct s"
  by (induction rule: reachable_p0.induct)
     (auto intro: votersDistinct_created_p0 votersDistinct_step_p0)

subsection \<open>endGame in part_000, with an imposter\<close>

lemma updatePlayerStats_imposter:
  "imposter (currentRound rm) = Some imp \<Longrightarrow>
     updatePlayerStats iw mv rm = Normal (map (statsOf imp iw mv) (players rm))"
  by (simp add: updatePlayerStats_def split: list.splits)

lemma endGame_p0_eq:
  assumes "imposter (currentRound rm) = Some imp"
  shows "endGame_p0 now rm =
    (let mv = fst (findMostVoted (players rm) (countVotes (votes (currentRound rm))));
         iw = (case mv of None \<Rightarrow> True | Some v \<Rightarrow> player_id v \<noteq> player_id imp)
     in (Normal \<lparr>o_word = word (currentRound rm), o_imposter = Some imp, o_votedOut = mv,
                 o_imposterWon = iw\<rparr>,
         rm\<lparr>gameState := Ended,
            gameHistory := gameHistory rm @
              [\<lparr>h_word = word (currentRound rm), h_imposter = Some imp, h_votedOut = mv,
                h_imposterWon = iw, h_players = players rm, h_timestamp = now\<rparr>]\<rparr>,
         map StatsUpdate (map (statsOf imp iw mv) (players rm))))"
  using assms
  by (simp add: endGame_p0_def imposterWon_def updatePlayerStats_imposter Let_def
        split: option.splits)

lemma applyEffects_stats:
  "applyEffects (map StatsUpdate ds) s = s\<lparr>statsLog := statsLog s @ ds\<rparr>"
  unfolding applyEffects_def
  by (induction ds arbitrary: s) simp_all

lemma applyEffects_stats_comp:
  "applyEffects (map (StatsUpdate \<circ> f) xs) s = s\<lparr>statsLog := statsLog s @ map f xs\<rparr>"
  using applyEffects_stats[of "map f xs" s] by simp

subsection \<open>Distinct identities, in part_000\<close>

lemma find_player_iff:
  "find (\<lambda>q. player_id q = i) ps \<noteq> None \<longleftrightarrow> i \<in> player_id ` set ps"
  by (auto simp: find_None_iff)

lemma addPlayer_p0_duplicate:
  "player_id p \<in> player_id ` set (players rm) \<Longrightarrow> addPlayer_p0 p rm = (False, rm)"
  using find_player_iff[of "player_id p" "players rm"] by (auto simp: addPlayer_p0_def)

lemma addPlayer_p0_full:
  "maxPlayers (settings rm) \<le> int (length (players rm)) \<Longrightarrow> addPlayer_p0 p rm = (False, rm)"
  by (simp add: addPlayer_p0_def)

lemma addPlayer_srv_full:
  "maxPlayers (settings rm) \<le> int (length (players rm)) \<Longrightarrow> addPlayer_srv p rm = (False, rm)"
  by (simp add: addPlayer_srv_def)

lemma addPlayer_p0_distinct:
  assumes "distinct (map player_id (players rm))"
  shows "distinct (map player_id (players (snd (addPlayer_p0 p rm))))"
  using assms find_player_iff[of "player_id p" "players rm"]
  by (auto simp: addPlayer_p0_def)

lemma removePlayer_distinct:
  assumes "distinct (map player_id (players rm))"
  shows "distinct (map player_id (players (snd (removePlayer i rm))))"
  using assms by (simp add: removePlayer_ids)

lemma idsDistinct_sameRoster: "sameRoster s s' \<Longrightarrow> idsDistinct s \<Longrightarrow> idsDistinct s'"
  by (simp add: sameRoster_def roster_def idsDistinct_def)

lemma idsDistinct_joinRoom_p0: "idsDistinct s \<Longrightarrow> idsDistinct (snd (joinRoom_p0 c s))"
  using addPlayer_p0_distinct[of "room s" "newPlayer c False"]
  by (auto simp: joinRoom_p0_def idsDistinct_def split: prod.splits bool.splits)

lemma idsDistinct_leaveRoom_p0: "idsDistinct s \<Longrightarrow> idsDistinct (snd (leaveRoom_p0 c s))"
  using removePlayer_distinct[of "room s" "c_userId c"]
  by (simp add: leaveRoom_p0_room idsDistinct_def)

lemma idsDistinct_step_p0: "idsDistinct s \<Longrightarrow> idsDistinct (step_p0 cmd s)"
proof (cases cmd)
  case (JoinRoom c) then show "idsDistinct s \<Longrightarrow> ?thesis" by (simp add: idsDistinct_joinRoom_p0)
next
  case (LeaveRoom c) then show "idsDistinct s \<Longrightarrow> ?thesis" by (simp add: idsDistinct_leaveRoom_p0)
next
  case (Disconnect c) then show "idsDistinct s \<Longrightarrow> ?thesis"
    by (simp add: disconnect_p0_leaveRoom idsDistinct_leaveRoom_p0)
next
  case (UpdateSettings c p) then show "idsDistinct s \<Longrightarrow> ?thesis"
    using idsDistinct_sameRoster[OF sameRoster_updateSettings] by simp
next
  case (StartGame c r1 r2 now) then show "idsDistinct s \<Longrightarrow> ?thesis"
    using idsDistinct_sameRoster[OF sameRoster_startGameHandler_p0] by simp
next
  case (SkipVote c) then show "idsDistinct s \<Longrightarrow> ?thesis"
    using idsDistinct_sameRoster[OF sameRoster_skipVote_p0] by simp
next
  case (Vote c t now) then show "idsDistinct s \<Longrightarrow> ?thesis"
    using idsDistinct_sameRoster[OF sameRoster_vote_p0] by simp
next
  case (Tick h) then show "idsDistinct s \<Longrightarrow> ?thesis"
    using idsDistinct_sameRoster[OF sameRoster_tick_p0] by simp
next
  case ResetTimeout then show "idsDistinct s \<Longrightarrow> ?thesis"
    using idsDistinct_sameRoster[OF sameRoster_resetTimeout] by simp
qed

lemma idsDistinct_created_p0: "createRoom_p0 c rid nm = (es, Some s) \<Longrightarrow> idsDistinct s"
  by (auto simp: createRoom_p0_def Let_def newSys_def addPlayer_p0_def GameRoom_def
        idsDistinct_def split: if_splits)

lemma reachable_p0_idsDistinct: "reachable_p0 s \<Longrightarrow> idsDistinct s"
  by (induction rule: reachable_p0.induct) (auto intro: idsDistinct_created_p0 idsDistinct_step_p0)

section \<open>startGame\<close>

lemma startGame_p0_rejects:
  "length (players rm) < 3 \<or> gameState rm \<noteq> Waiting \<Longrightarrow>
   startGame_p0 r1 r2 now rm = (Normal False, rm)"
  by (auto simp: startGame_p0_def)

lemma startGame_srv_rejects:
  "length (players rm) < 3 \<or> gameState rm \<noteq> Waiting \<Longrightarrow>
   startGame_srv r1 r2 rm = (Normal False, rm)"
  by (auto simp: startGame_srv_def)

lemma startGame_p0_starts:
  assumes r: "0 \<le> r1" "r1 < 1" "0 \<le> r2" "r2 < 1"
    and pre: "3 \<le> length (players rm)" "gameState rm = Waiting"
    and cat: "Map_get wordLibraries (theme (settings rm)) = Some lib"
             "Map_get (lib_words lib) (difficulty (settings rm)) = Some ws"
  shows "fst (startGame_p0 r1 r2 now rm) = Normal True \<and>
         started rm ws (snd (startGame_p0 r1 r2 now rm))"
proof -
  have ne: "players rm \<noteq> []" using pre(1) by auto
  obtain imp where imp: "imp \<in> set (players rm)"
      "index (players rm) \<lfloor>r1 * real (length (players rm))\<rfloor> = Some imp"
    using index_in[OF r(1,2) ne] by blast
  obtain w where w: "w \<in> set ws"
      "selectWord r2 (theme (settings rm)) (difficulty (settings rm)) = Normal (Some w)"
    using selectWord_in[OF r(3,4) cat] by blast
  show ?thesis using pre imp w
    by (simp add: startGame_p0_def started_def Let_def)
qed

lemma startGame_srv_starts:
  assumes r: "0 \<le> r1" "r1 < 1" "0 \<le> r2" "r2 < 1"
    and pre: "3 \<le> length (players rm)" "gameState rm = Waiting"
    and cat: "Map_get wordLibraries (theme (settings rm)) = Some lib"
             "Map_get (lib_words lib) (difficulty (settings rm)) = Some ws"
  shows "fst (startGame_srv r1 r2 rm) = Normal True \<and>
         started rm ws (snd (startGame_srv r1 r2 rm))"
proof -
  have ne: "players rm \<noteq> []" using pre(1) by auto
  obtain imp where imp: "imp \<in> set (players rm)"
      "index (players rm) \<lfloor>r1 * real (length (players rm))\<rfloor> = Some imp"
    using index_in[OF r(1,2) ne] by blast
  obtain w where w: "w \<in> set ws"
      "selectWord r2 (theme (settings rm)) (difficulty (settings rm)) = Normal (Some w)"
    using selectWord_in[OF r(3,4) cat] by blast
  show ?thesis using pre imp w
    by (simp add: startGame_srv_def started_def Let_def)
qed

text \<open>
  Claim C1, as amended. Let \<open>r1\<close> and \<open>r2\<close> be the two values of \<open>Math.random()\<close>, both in
  \<open>[0, 1)\<close>. In both revisions:
  \<^item> with fewer than three players, or with \<open>gameState\<close> other than \<open>waiting\<close>, \<open>startGame\<close>
    returns \<open>false\<close> and the room is unchanged;
  \<^item> otherwise, provided \<open>settings.theme\<close> is a key of the word catalogue and
    \<open>settings.difficulty\<close> a key of that theme's lists, \<open>startGame\<close> returns \<open>true\<close>,
    \<open>gameState\<close> is \<open>playing\<close>, the imposter is one of the current players, the word is a
    member of the configured list, \<open>timeRemaining\<close> is \<open>settings.roundTime\<close>, \<open>skipVotes\<close> and
    \<open>votes\<close> are empty, and players, settings, admin and history are unchanged.
\<close>

theorem startGame_contract:
  assumes "0 \<le> r1" "r1 < 1" "0 \<le> r2" "r2 < 1"
  shows "(length (players rm) < 3 \<or> gameState rm \<noteq> Waiting \<longrightarrow>
            startGame_srv r1 r2 rm = (Normal False, rm) \<and>
            startGame_p0 r1 r2 now rm = (Normal False, rm)) \<and>
         (3 \<le> length (players rm) \<and> gameState rm = Waiting \<and>
          Map_get wordLibraries (theme (settings rm)) = Some lib \<and>
          Map_get (lib_words lib) (difficulty (settings rm)) = Some ws \<longrightarrow>
            fst (startGame_srv r1 r2 rm) = Normal True \<and>
            started rm ws (snd (startGame_srv r1 r2 rm)) \<and>
            fst (startGame_p0 r1 r2 now rm) = Normal True \<and>
            started rm ws (snd (startGame_p0 r1 r2 now rm)))"
  using startGame_p0_rejects[of rm r1 r2 now] startGame_srv_rejects[of rm r1 r2]
    startGame_p0_starts[OF assms, of rm lib ws now] startGame_srv_starts[OF assms, of rm lib ws]
  by blast

text \<open>
  The claim as written does not hold for every room: with three players, \<open>gameState\<close>
  \<open>waiting\<close> and the theme \<open>space\<close>, which \<open>updateSettings\<close> accepts, \<open>startGame\<close> throws a
  \<open>TypeError\<close> after it has set \<open>gameState\<close> to \<open>playing\<close>.
\<close>

theorem startGame_counterexample:
  "3 \<le> length (players (room spaceLobby)) \<and> gameState (room spaceLobby) = Waiting \<and>
   fst (startGame_srv 0 0 (room spaceLobby)) = Thrown TypeError \<and>
   fst (startGame_p0 0 0 0 (room spaceLobby)) = Thrown TypeError \<and>
   gameState (snd (startGame_p0 0 0 0 (room spaceLobby))) = Playing"
  by (simp add: spaceLobby_eq lobby3_eq created1_eq startGame_srv_def startGame_p0_def selectWord_def
        wordLibraries_def Let_def)

theorem startGame_contract_witness:
  "startGame_p0 (1/2) (1/3) 1000 (room lobby2) = (Normal False, room lobby2) \<and>
   fst (startGame_p0 (1/2) (1/3) 1000 (room lobby3)) = Normal True \<and>
   started (room lobby3)
     [''Elefant'', ''Giraffe'', ''Zebra'', ''L'' @ [CHR 0xF6] @ ''we'', ''Tiger'',
      ''Panda'', ''Koala'', ''Pinguin'', ''Delfin'', ''Wal'']
     (snd (startGame_p0 (1/2) (1/3) 1000 (room lobby3)))"
proof -
  have r: "(0::real) \<le> 1/2" "(1/2::real) < 1" "(0::real) \<le> 1/3" "(1/3::real) < 1" by simp_all
  have a: "length (players (room lobby2)) < 3" by (simp add: lobby2_eq created1_eq)
  have b: "3 \<le> length (players (room lobby3))" "gameState (room lobby3) = Waiting"
    by (simp_all add: lobby3_eq created1_eq)
  have c: "Map_get wordLibraries (theme (settings (room lobby3))) = Some (snd (wordLibraries ! 0))"
    by (simp add: lobby3_eq created1_eq wordLibraries_def)
  have d: "Map_get (lib_words (snd (wordLibraries ! 0))) (difficulty (settings (room lobby3))) =
     Some [''Elefant'', ''Giraffe'', ''Zebra'', ''L'' @ [CHR 0xF6] @ ''we'', ''Tiger'',
      ''Panda'', ''Koala'', ''Pinguin'', ''Delfin'', ''Wal'']"
    by (simp add: lobby3_eq created1_eq wordLibraries_def)
  show ?thesis
    using startGame_contract[OF r, where rm = "room lobby2" and now = 1000]
      startGame_contract[OF r, where rm = "room lobby3" and now = 1000
        and lib = "snd (wordLibraries ! 0)"] a b c d
    by blast
qed

section \<open>addVote\<close>

text \<open>
  In \<^verbatim>\<open>src/unnamed/part_000\<close>, for a round with an imposter, \<open>addVote\<close> stores the vote under
  the voter (replacing the voter's earlier vote and no other); when the number of voters
  then equals the number of players it returns the outcome of \<open>endGame\<close> and the room is
  \<open>ended\<close>, and otherwise it returns \<open>null\<close> and leaves \<open>gameState\<close> as it was. Every reachable
  room in state \<open>voting\<close> has an imposter (\<open>reachable_p0_voting_imposter\<close>) and holds each voter
  once (\<open>reachable_p0_votersDistinct\<close>).
\<close>

lemma addVote_p0_contract:
  assumes "imposter (currentRound rm) = Some imp"
  shows
   "votes (currentRound (fst (snd (addVote_p0 v t now rm)))) =
      Map_set v t (votes (currentRound rm)) \<and>
    Map_get (Map_set v t (votes (currentRound rm))) v = Some t \<and>
    (\<forall>u. u \<noteq> v \<longrightarrow>
       Map_get (Map_set v t (votes (currentRound rm))) u = Map_get (votes (currentRound rm)) u) \<and>
    (length (Map_set v t (votes (currentRound rm))) = length (players rm) \<longrightarrow>
       (\<exists>oc. fst (addVote_p0 v t now rm) = Normal (Some oc)) \<and>
       gameState (fst (snd (addVote_p0 v t now rm))) = Ended) \<and>
    (length (Map_set v t (votes (currentRound rm))) \<noteq> length (players rm) \<longrightarrow>
       fst (addVote_p0 v t now rm) = Normal None \<and>
       gameState (fst (snd (addVote_p0 v t now rm))) = gameState rm)"
proof -
  let ?rm1 = "rm\<lparr>currentRound := (currentRound rm)\<lparr>votes := Map_set v t (votes (currentRound rm))\<rparr>\<rparr>"
  have i1: "imposter (currentRound ?rm1) = Some imp" using assms by simp
  obtain oc where oc: "fst (endGame_p0 now ?rm1) = Normal oc"
    using endGame_p0_total[OF i1] by blast
  obtain r rm2 es where e: "endGame_p0 now ?rm1 = (r, rm2, es)"
    by (cases "endGame_p0 now ?rm1") auto
  have r: "r = Normal oc" using oc e by simp
  have g: "gameState rm2 = Ended" "votes (currentRound rm2) = Map_set v t (votes (currentRound rm))"
    using endGame_p0_round(1)[of now ?rm1] votes_endGame_p0[of now ?rm1] e by simp_all
  show ?thesis
  proof (cases "length (Map_set v t (votes (currentRound rm))) = length (players rm)")
    case True
    then show ?thesis using g r
      by (simp add: addVote_p0_def Let_def e Map_get_Map_set)
  next
    case False
    then show ?thesis
      by (simp add: addVote_p0_def Let_def Map_get_Map_set)
  qed
qed

text \<open>
  Claim C2: \<open>addVote\<close> returns the end-of-game outcome when the last player has voted and
  \<open>null\<close> before. In \<^verbatim>\<open>src/server.js\<close> the method has no \<open>return\<close> statement: in the room of
  three players with two votes cast, the third vote makes \<open>addVote\<close> call \<open>endGame\<close> (the room
  is \<open>ended\<close>, one history entry is written) and the outcome is dropped; the call yields
  nothing.
\<close>

theorem addVote_srv_no_result:
  "gameState (room voted2_srv) = Voting \<and>
   length (players (room voted2_srv)) = 3 \<and>
   votes (currentRound (room voted2_srv)) = [(UserId 1, UserId 2), (UserId 3, UserId 2)] \<and>
   fst (addVote_srv (UserId 2) (UserId 1) 2002 (room voted2_srv)) = Normal () \<and>
   gameState (fst (snd (addVote_srv (UserId 2) (UserId 1) 2002 (room voted2_srv)))) = Ended \<and>
   length (gameHistory (fst (snd (addVote_srv (UserId 2) (UserId 1) 2002 (room voted2_srv))))) = 1"
  unfolding addVote_srv_last by (simp add: voted2_srv_full lobby3_eq created1_eq)

section \<open>endGame\<close>

text \<open>
  Claim C3, as amended. For a round with an imposter, in both revisions:
  \<^item> the tally built by \<open>endGame\<close> holds each vote target once, with the number of voters
    who voted for it;
  \<^item> the voted-out player is the current player whose identity is the target of the tally
    entry with the greatest count, the first such entry in the iteration order of the tally
    when counts tie; nobody is voted out when no vote was cast, and nobody is voted out when
    that target is not the identity of a current player (\<open>players.find\<close> gives \<open>undefined\<close>),
    whatever the other entries are;
  \<^item> \<open>imposterWon\<close> is true exactly when nobody was voted out or the voted-out player's
    identity differs from the imposter's;
  and these are the values that \<open>endGame\<close> returns.
\<close>

theorem endGame_tally:
  assumes "imposter (currentRound rm) = Some imp"
  shows "tallyOf (votes (currentRound rm)) (countVotes (votes (currentRound rm))) \<and>
    (\<exists>mv. votedOutBy (players rm) (countVotes (votes (currentRound rm))) mv \<and>
       fst (endGame_srv now rm) =
         Normal \<lparr>o_word = word (currentRound rm), o_imposter = Some imp, o_votedOut = mv,
                 o_imposterWon = (case mv of None \<Rightarrow> True
                                  | Some v \<Rightarrow> player_id v \<noteq> player_id imp)\<rparr> \<and>
       fst (endGame_p0 now rm) =
         Normal \<lparr>o_word = word (currentRound rm), o_imposter = Some imp, o_votedOut = mv,
                 o_imposterWon = (case mv of None \<Rightarrow> True
                                  | Some v \<Rightarrow> player_id v \<noteq> player_id imp)\<rparr>)"
proof -
  let ?tally = "countVotes (votes (currentRound rm))"
  have "\<forall>e \<in> set ?tally. 0 < snd e" using countVotes_positive by blast
  then have "votedOutBy (players rm) ?tally (fst (findMostVoted (players rm) ?tally))"
    by (rule findMostVoted_votedOutBy)
  then show ?thesis
    using countVotes_tallyOf endGame_p0_result[OF assms] endGame_srv_result[OF assms] by blast
qed

text \<open>
  The claim as written, that the voted-out player is the target with the greatest count,
  fails when that target is no longer a player. In the example round the first player votes
  for the imposter, the imposter leaves the room, and the third player votes for the
  imposter: both votes name the imposter, the tally is the single entry 2:2, and \<open>endGame\<close>
  reports nobody voted out and \<open>imposterWon = true\<close>, in both revisions.
\<close>

theorem endGame_tally_counterexample:
  "reachable_p0 imposterLeft \<and> gameState (room imposterLeft) = Voting \<and>
   map player_id (players (room imposterLeft)) = [UserId 1, UserId 3] \<and>
   imposter (currentRound (room imposterLeft)) = Some (newPlayer bob False) \<and>
   player_id (newPlayer bob False) = UserId 2 \<and>
   votes (currentRound (room imposterLeft)) = [(UserId 1, UserId 2)] \<and>
   countVotes (Map_set (UserId 3) (UserId 2) (votes (currentRound (room imposterLeft)))) =
     [(UserId 2, 2)] \<and>
   fst (vote_p0 carol (UserId 2) 2001 imposterLeft) =
     [ToRoom (GameEnded \<lparr>o_word = Some (''L'' @ [CHR 0xF6] @ ''we''),
        o_imposter = Some (newPlayer bob False), o_votedOut = None, o_imposterWon = True\<rparr>)] \<and>
   reachable_srv imposterLeft_srv \<and> gameState (room imposterLeft_srv) = Voting \<and>
   map player_id (players (room imposterLeft_srv)) = [UserId 1, UserId 3] \<and>
   imposter (currentRound (room imposterLeft_srv)) = Some (newPlayer bob False) \<and>
   votes (currentRound (room imposterLeft_srv)) = [(UserId 1, UserId 2)] \<and>
   fst (vote_srv carol (UserId 2) 2001 imposterLeft_srv) =
     [ToRoom (GameEnded \<lparr>o_word = Some (''L'' @ [CHR 0xF6] @ ''we''),
        o_imposter = Some (newPlayer bob False), o_votedOut = None, o_imposterWon = True\<rparr>)]"
proof -
  have a: "gameState (room imposterLeft) = Voting \<and>
      map player_id (players (room imposterLeft)) = [UserId 1, UserId 3] \<and>
      imposter (currentRound (room imposterLeft)) = Some (newPlayer bob False) \<and>
      player_id (newPlayer bob False) = UserId 2 \<and>
      votes (currentRound (room imposterLeft)) = [(UserId 1, UserId 2)]"
    by (simp add: imposterLeft_eq newPlayer_def alice_def bob_def carol_def)
  have b: "gameState (room imposterLeft_srv) = Voting \<and>
      map player_id (players (room imposterLeft_srv)) = [UserId 1, UserId 3] \<and>
      imposter (currentRound (room imposterLeft_srv)) = Some (newPlayer bob False) \<and>
      votes (currentRound (room imposterLeft_srv)) = [(UserId 1, UserId 2)]"
    by (simp add: imposterLeft_srv_eq newPlayer_def alice_def bob_def carol_def)
  show ?thesis
    using a b reachable_p0_imposterLeft reachable_srv_imposterLeft countVotes_imposterLeft
      vote_p0_imposterLeft vote_srv_imposterLeft
    by blast
qed

text \<open>
  The instance of the claim, where every target is a current player: players A, B, C,
  imposter B, votes A\<rightarrow>B, C\<rightarrow>B, B\<rightarrow>A. The tally is B:2, A:1, B is voted out and the
  imposter has not won.
\<close>

theorem endGame_tally_witness:
  "imposter (currentRound ballots) = Some (newPlayer bob False) \<and>
   map player_id (players ballots) = [UserId 1, UserId 2, UserId 3] \<and>
   votes (currentRound ballots) =
     [(UserId 1, UserId 2), (UserId 3, UserId 2), (UserId 2, UserId 1)] \<and>
   countVotes (votes (currentRound ballots)) = [(UserId 2, 2), (UserId 1, 1)] \<and>
   tallyOf (votes (currentRound ballots)) [(UserId 2, 2), (UserId 1, 1)] \<and>
   votedOutBy (players ballots) [(UserId 2, 2), (UserId 1, 1)] (Some (newPlayer bob False)) \<and>
   fst (endGame_p0 2002 ballots) =
     Normal \<lparr>o_word = Some (''L'' @ [CHR 0xF6] @ ''we''), o_imposter = Some (newPlayer bob False),
             o_votedOut = Some (newPlayer bob False), o_imposterWon = False\<rparr> \<and>
   fst (endGame_srv 2002 ballots) =
     Normal \<lparr>o_word = Some (''L'' @ [CHR 0xF6] @ ''we''), o_imposter = Some (newPlayer bob False),
             o_votedOut = Some (newPlayer bob False), o_imposterWon = False\<rparr>"
proof -
  have imp: "imposter (currentRound ballots) = Some (newPlayer bob False)"
    by (simp add: ballots_eq voted2_eq voted1_eq voting3_eq skipped1_eq playing3_eq)
  have ps: "map player_id (players ballots) = [UserId 1, UserId 2, UserId 3]"
    by (simp add: ballots_eq voted2_eq voted1_eq voting3_eq skipped1_eq playing3_eq lobby3_eq
          created1_eq newPlayer_def alice_def bob_def carol_def)
  have vs: "votes (currentRound ballots) =
     [(UserId 1, UserId 2), (UserId 3, UserId 2), (UserId 2, UserId 1)]"
    by (simp add: ballots_eq)
  have w: "word (currentRound ballots) = Some (''L'' @ [CHR 0xF6] @ ''we'')"
    by (simp add: ballots_eq voted2_eq voted1_eq voting3_eq skipped1_eq playing3_eq)
  have res: "fst (endGame_p0 2002 ballots) =
     Normal \<lparr>o_word = Some (''L'' @ [CHR 0xF6] @ ''we''), o_imposter = Some (newPlayer bob False),
             o_votedOut = Some (newPlayer bob False), o_imposterWon = False\<rparr>"
  proof -
    have fm: "fst (findMostVoted (players ballots) (countVotes (votes (currentRound ballots)))) =
        Some (newPlayer bob False)"
      unfolding countVotes_ballots findMostVoted_ballots by simp
    show ?thesis
      unfolding endGame_p0_result[OF imp] fm w by simp
  qed
  from endGame_tally[OF imp, of 2002]
  obtain mv where t: "tallyOf (votes (currentRound ballots)) (countVotes (votes (currentRound ballots)))"
    and v: "votedOutBy (players ballots) (countVotes (votes (currentRound ballots))) mv"
    and s: "fst (endGame_srv 2002 ballots) =
         Normal \<lparr>o_word = word (currentRound ballots), o_imposter = Some (newPlayer bob False),
                 o_votedOut = mv,
                 o_imposterWon = (case mv of None \<Rightarrow> True
                    | Some v \<Rightarrow> player_id v \<noteq> player_id (newPlayer bob False))\<rparr>"
    and p: "fst (endGame_p0 2002 ballots) =
         Normal \<lparr>o_word = word (currentRound ballots), o_imposter = Some (newPlayer bob False),
                 o_votedOut = mv,
                 o_imposterWon = (case mv of None \<Rightarrow> True
                    | Some v \<Rightarrow> player_id v \<noteq> player_id (newPlayer bob False))\<rparr>"
    by blast
  have mv: "mv = Some (newPlayer bob False)" using p res by simp
  show ?thesis
    using imp ps vs t v s res unfolding mv countVotes_ballots w by simp
qed

section \<open>The skip quorum\<close>

text \<open>
  In \<^verbatim>\<open>src/unnamed/part_000\<close>, for a reachable room in state \<open>playing\<close> with \<open>n\<close> players,
  the handler of \<open>skipVote\<close> adds the identity to \<open>skipVotes\<close>. When the size of the set is
  then at least \<open>ceil(n / 2) = (n + 1) div 2\<close>, the room is \<open>voting\<close>, \<open>timeRemaining\<close> is 60, and
  no interval timer is left; below the quorum the room stays \<open>playing\<close> and the timer runs on.
\<close>

lemma skipVote_p0_quorum:
  assumes "reachable_p0 s" "registered s" "gameState (room s) = Playing"
  shows
   "skipVotes (currentRound (room (snd (skipVote_p0 c s)))) =
      Set_add (c_userId c) (skipVotes (currentRound (room s))) \<and>
    ((length (players (room s)) + 1) div 2
        \<le> length (Set_add (c_userId c) (skipVotes (currentRound (room s)))) \<longrightarrow>
       gameState (room (snd (skipVote_p0 c s))) = Voting \<and>
       timeRemaining (currentRound (room (snd (skipVote_p0 c s)))) = 60 \<and>
       intervals (snd (skipVote_p0 c s)) = [] \<and> roomTimer (snd (skipVote_p0 c s)) = None) \<and>
    (length (Set_add (c_userId c) (skipVotes (currentRound (room s))))
        < (length (players (room s)) + 1) div 2 \<longrightarrow>
       gameState (room (snd (skipVote_p0 c s))) = Playing \<and>
       timeRemaining (currentRound (room (snd (skipVote_p0 c s)))) =
         timeRemaining (currentRound (room s)) \<and>
       intervals (snd (skipVote_p0 c s)) = intervals s \<and>
       roomTimer (snd (skipVote_p0 c s)) = roomTimer s)"
proof -
  let ?rm1 = "(room s)\<lparr>currentRound := (currentRound (room s))
      \<lparr>skipVotes := Set_add (c_userId c) (skipVotes (currentRound (room s)))\<rparr>\<rparr>"
  have iv: "map fst (intervals s) = (case roomTimer s of None \<Rightarrow> [] | Some h \<Rightarrow> [h])"
    using reachable_p0_roundInv[OF assms(1)] by (simp add: roundInv_def)
  have a: "addSkipVote_p0 (c_userId c) (room s) =
      (if (length (players (room s)) + 1) div 2
            \<le> length (Set_add (c_userId c) (skipVotes (currentRound (room s))))
       then (True, endRound ?rm1) else (False, ?rm1))"
    by (simp add: addSkipVote_p0_def Let_def ceiling_half)
  have iv': "map fst (intervals (s\<lparr>room := endRound ?rm1\<rparr>)) =
        (case roomTimer (s\<lparr>room := endRound ?rm1\<rparr>) of None \<Rightarrow> [] | Some h \<Rightarrow> [h])"
    using iv by simp
  show ?thesis
  proof (cases "(length (players (room s)) + 1) div 2
            \<le> length (Set_add (c_userId c) (skipVotes (currentRound (room s))))")
    case True
    then show ?thesis using assms(2,3) clearRoomTimer_fields(3)[OF iv']
      by (simp add: skipVote_p0_def a clearRoomTimer_fields(1) endRound_def)
  next
    case False
    then show ?thesis using assms(2,3)
      by (simp add: skipVote_p0_def a)
  qed
qed

text \<open>With five players: the second skip vote leaves the room playing, the third ends the round.\<close>

lemma skipVote_p0_five:
  "reachable_p0 skipped5_2 \<and> length (players (room skipped5_2)) = 5 \<and>
   skipVotes (currentRound (room skipped5_2)) = [UserId 1, UserId 2] \<and>
   gameState (room skipped5_2) = Playing \<and> intervals skipped5_2 = [(0, UserId 1)] \<and>
   skipVotes (currentRound (room skipped5_3)) = [UserId 1, UserId 2, UserId 3] \<and>
   gameState (room skipped5_3) = Voting \<and>
   timeRemaining (currentRound (room skipped5_3)) = 60 \<and>
   intervals skipped5_3 = [] \<and> roomTimer skipped5_3 = None"
proof -
  have "reachable_p0 lobby5"
    unfolding lobby5_def by (intro stepped_p0 reachable_p0_lobby3) simp_all
  then have "reachable_p0 playing5"
    unfolding playing5_def by (rule stepped_p0) simp
  then have "reachable_p0 skipped5_2"
    unfolding skipped5_2_def by (intro stepped_p0) simp_all
  then show ?thesis
    by (simp add: skipped5_3_eq skipped5_2_eq playing5_eq lobby5_eq created1_eq)
qed

text \<open>
  Claim C4: the skip vote that reaches the quorum \<open>ceil(n / 2)\<close> moves the room to \<open>voting\<close>
  with \<open>timeRemaining\<close> 60 and cancels the running round timer. In \<^verbatim>\<open>src/server.js\<close> the
  transition happens at the same vote (for five players the third, not the second), but the
  handler of \<open>skipVote\<close> never clears the interval: the timer created by \<open>startGame\<close> is still
  live after the transition, and its next firing counts the voting window down.
\<close>

theorem skipVote_srv_timer_runs:
  "length (players (room skipped5_2_srv)) = 5 \<and>
   skipVotes (currentRound (room skipped5_2_srv)) = [UserId 1, UserId 2] \<and>
   gameState (room skipped5_2_srv) = Playing \<and>
   intervals skipped5_2_srv = [(0, UserId 1)] \<and>
   skipVotes (currentRound (room skipped5_3_srv)) = [UserId 1, UserId 2, UserId 3] \<and>
   gameState (room skipped5_3_srv) = Voting \<and>
   timeRemaining (currentRound (room skipped5_3_srv)) = 60 \<and>
   intervals skipped5_3_srv = [(0, UserId 1)] \<and>
   timeRemaining (currentRound (room (step_srv (Tick 0) skipped5_3_srv))) = 59"
  by (simp add: skipped5_3_srv_eq skipped5_2_srv_eq playing5_srv_eq lobby5_eq created1_eq
        tick_srv_def Let_def)

section \<open>The admin\<close>

text \<open>
  Claim C5. In both revisions, in every reachable room the number of players with
  \<open>isAdmin = true\<close> is \<open>min(1, playerCount)\<close>. The property is kept by \<open>removePlayer\<close> and by
  \<open>addPlayer\<close> (the \<open>joinRoom\<close> handler passes a player with \<open>isAdmin: false\<close>; a player added
  to an empty room is made admin). When \<open>removePlayer\<close> removes the admin and players remain,
  the first remaining player of the insertion-ordered list becomes admin.
\<close>

theorem admin_unique:
  "(reachable_srv s \<longrightarrow>
      length (filter isAdmin (players (room s))) = min 1 (length (players (room s)))) \<and>
   (reachable_p0 s \<longrightarrow>
      length (filter isAdmin (players (room s))) = min 1 (length (players (room s)))) \<and>
   (adminInv rm \<longrightarrow> adminInv (snd (removePlayer i rm))) \<and>
   (adminInv rm \<and> players rm \<noteq> [] \<and> \<not> isAdmin p \<longrightarrow>
      adminInv (snd (addPlayer_srv p rm)) \<and> adminInv (snd (addPlayer_p0 p rm))) \<and>
   (players rm = [] \<longrightarrow>
      adminInv (snd (addPlayer_srv p rm)) \<and> adminInv (snd (addPlayer_p0 p rm))) \<and>
   (adminId rm = i \<and> filter (\<lambda>p. player_id p \<noteq> i) (players rm) = q # rest \<longrightarrow>
      players (snd (removePlayer i rm)) = q\<lparr>isAdmin := True\<rparr> # rest \<and>
      adminId (snd (removePlayer i rm)) = player_id q)"
proof -
  have 1: "reachable_srv s \<longrightarrow>
      length (filter isAdmin (players (room s))) = min 1 (length (players (room s)))"
    using reachable_srv_rosterInv[of s] by (simp add: rosterInv_def adminInv_def)
  have 2: "reachable_p0 s \<longrightarrow>
      length (filter isAdmin (players (room s))) = min 1 (length (players (room s)))"
    using reachable_p0_rosterInv[of s] by (simp add: rosterInv_def adminInv_def)
  have 3: "adminInv rm \<longrightarrow> adminInv (snd (removePlayer i rm))"
    using removePlayer_adminInv by blast
  have 4: "adminInv rm \<and> players rm \<noteq> [] \<and> \<not> isAdmin p \<longrightarrow>
      adminInv (snd (addPlayer_srv p rm)) \<and> adminInv (snd (addPlayer_p0 p rm))"
    using addPlayer_srv_adminInv addPlayer_p0_adminInv by blast
  have 5: "players rm = [] \<longrightarrow>
      adminInv (snd (addPlayer_srv p rm)) \<and> adminInv (snd (addPlayer_p0 p rm))"
    by (simp add: adminInv_def addPlayer_srv_def addPlayer_p0_def)
  have 6: "adminId rm = i \<and> filter (\<lambda>p. player_id p \<noteq> i) (players rm) = q # rest \<longrightarrow>
      players (snd (removePlayer i rm)) = q\<lparr>isAdmin := True\<rparr> # rest \<and>
      adminId (snd (removePlayer i rm)) = player_id q"
    by (simp add: removePlayer_players removePlayer_adminId)
  from 1 2 3 4 5 6 show ?thesis by blast
qed

text \<open>
  An instance: in the three-player room the admin (the first player) leaves during a
  round; the second player, the earliest-joined of the two that remain, is the admin.
\<close>

theorem admin_unique_witness:
  "reachable_p0 skipperLeft \<and>
   length (filter isAdmin (players (room skipperLeft))) = 1 \<and>
   players (room skipperLeft) = [newPlayer bob True, newPlayer carol False] \<and>
   reachable_srv joinedTwice_srv \<and>
   length (filter isAdmin (players (room joinedTwice_srv))) = 1 \<and>
   adminId (room lobby3) = UserId 1 \<and>
   map player_id (players (room lobby3)) = [UserId 1, UserId 2, UserId 3] \<and>
   players (snd (removePlayer (UserId 1) (room lobby3))) =
     [newPlayer bob True, newPlayer carol False] \<and>
   adminId (snd (removePlayer (UserId 1) (room lobby3))) = UserId 2"
proof -
  have a: "length (filter isAdmin (players (room skipperLeft))) = 1"
    using admin_unique[of skipperLeft] reachable_p0_skipperLeft
    by (simp add: skipperLeft_eq)
  have b: "length (filter isAdmin (players (room joinedTwice_srv))) = 1"
    using admin_unique[of joinedTwice_srv] reachable_srv_joinedTwice
    by (simp add: joinedTwice_srv_eq)
  have f: "filter (\<lambda>p. player_id p \<noteq> UserId 1) (players (room lobby3)) =
      newPlayer bob False # [newPlayer carol False]"
    by (simp add: lobby3_eq created1_eq newPlayer_def alice_def bob_def carol_def)
  have ad: "adminId (room lobby3) = UserId 1" by (simp add: lobby3_eq created1_eq)
  have c: "players (snd (removePlayer (UserId 1) (room lobby3))) =
      [newPlayer bob True, newPlayer carol False] \<and>
      adminId (snd (removePlayer (UserId 1) (room lobby3))) = UserId 2"
    using admin_unique[of _ "room lobby3" "UserId 1" _ "newPlayer bob False" "[newPlayer carol False]"]
      f ad
    by (simp add: newPlayer_def bob_def)
  have ids: "map player_id (players (room lobby3)) = [UserId 1, UserId 2, UserId 3]"
    by (simp add: lobby3_eq created1_eq newPlayer_def alice_def bob_def carol_def)
  show ?thesis
    using a b c ad ids reachable_p0_skipperLeft reachable_srv_joinedTwice
    by (simp add: skipperLeft_eq)
qed

section \<open>The vote command\<close>

text \<open>
  In \<^verbatim>\<open>src/unnamed/part_000\<close>, for a reachable room in state \<open>voting\<close>: the vote that brings
  the number of voters up to the number of players appends exactly one entry to the history
  (word, imposter, voted-out player, \<open>imposterWon\<close>, the players, the time), forwards one
  stats delta per player in the order of the players, whose identities are distinct, and
  schedules one reset; any other vote appends and forwards nothing.
\<close>

lemma vote_p0_records_once:
  assumes "reachable_p0 s" "registered s" "gameState (room s) = Voting"
  shows
   "\<exists>imp. imposter (currentRound (room s)) = Some imp \<and>
      distinct (map player_id (players (room s))) \<and>
      distinct (map fst (votes (currentRound (room s)))) \<and>
      votes (currentRound (room (snd (vote_p0 c t now s)))) =
        Map_set (c_userId c) t (votes (currentRound (room s))) \<and>
      (length (Map_set (c_userId c) t (votes (currentRound (room s))))
          = length (players (room s)) \<longrightarrow>
        (\<exists>mv iw. fst (vote_p0 c t now s) =
             [ToRoom (GameEnded \<lparr>o_word = word (currentRound (room s)), o_imposter = Some imp,
                                  o_votedOut = mv, o_imposterWon = iw\<rparr>)] \<and>
           gameState (room (snd (vote_p0 c t now s))) = Ended \<and>
           gameHistory (room (snd (vote_p0 c t now s))) = gameHistory (room s) @
             [\<lparr>h_word = word (currentRound (room s)), h_imposter = Some imp, h_votedOut = mv,
               h_imposterWon = iw, h_players = players (room s), h_timestamp = now\<rparr>] \<and>
           statsLog (snd (vote_p0 c t now s)) =
             statsLog s @ map (statsOf imp iw mv) (players (room s)) \<and>
           resets (snd (vote_p0 c t now s)) = 1)) \<and>
      (length (Map_set (c_userId c) t (votes (currentRound (room s))))
          \<noteq> length (players (room s)) \<longrightarrow>
        fst (vote_p0 c t now s) = [] \<and>
        gameState (room (snd (vote_p0 c t now s))) = Voting \<and>
        gameHistory (room (snd (vote_p0 c t now s))) = gameHistory (room s) \<and>
        statsLog (snd (vote_p0 c t now s)) = statsLog s \<and>
        resets (snd (vote_p0 c t now s)) = resets s)"
proof -
  obtain imp where imp: "imposter (currentRound (room s)) = Some imp"
    using reachable_p0_voting_imposter[OF assms(1,3)] by blast
  have d1: "distinct (map player_id (players (room s)))"
    using reachable_p0_idsDistinct[OF assms(1)] by (simp add: idsDistinct_def)
  have d2: "distinct (map fst (votes (currentRound (room s))))"
    using reachable_p0_votersDistinct[OF assms(1)] by (simp add: votersDistinct_def)
  have r0: "resets s = 0"
    using reachable_p0_roundInv[OF assms(1)] assms(3) by (auto simp: roundInv_def)
  let ?rm1 = "(room s)\<lparr>currentRound := (currentRound (room s))
      \<lparr>votes := Map_set (c_userId c) t (votes (currentRound (room s)))\<rparr>\<rparr>"
  have i1: "imposter (currentRound ?rm1) = Some imp" using imp by simp
  show ?thesis
  proof (cases "length (Map_set (c_userId c) t (votes (currentRound (room s))))
          = length (players (room s))")
    case True
    then have a: "addVote_p0 (c_userId c) t now (room s) =
        (case endGame_p0 now ?rm1 of
           (Normal oc, rm2, es) \<Rightarrow> (Normal (Some oc), rm2, es)
         | (Thrown e, rm2, es) \<Rightarrow> (Thrown e, rm2, es))"
      by (simp add: addVote_p0_def Let_def)
    show ?thesis
      using True imp d1 d2 r0 assms(2,3)
      by (simp add: vote_p0_def a endGame_p0_eq[OF i1] Let_def applyEffects_stats_comp)
  next
    case False
    then have a: "addVote_p0 (c_userId c) t now (room s) = (Normal None, ?rm1, [])"
      by (simp add: addVote_p0_def Let_def)
    show ?thesis
      using False imp d1 d2 assms(2,3)
      by (simp add: vote_p0_def a applyEffects_def)
  qed
qed

text \<open>
  The delta of a player: \<open>games_played\<close> is always increased; \<open>games_won\<close> for the imposter
  when the imposter won and for the others when not; \<open>times_imposter\<close> for the imposter;
  \<open>times_caught_imposter\<close> for the imposter when voted out.
\<close>

lemma statsOf_fields:
  "d_user (statsOf imp iw mv p) = player_id p \<and>
   d_imposter (statsOf imp iw mv p) = (player_id p = player_id imp) \<and>
   d_won (statsOf imp iw mv p) = (if player_id p = player_id imp then iw else \<not> iw) \<and>
   d_caught (statsOf imp iw mv p) =
     (player_id p = player_id imp \<and> (\<exists>v. mv = Some v \<and> player_id v = player_id p))"
  by (simp add: statsOf_def Let_def split: option.splits)

lemma vote_p0_once_example:
  "reachable_p0 voted2 \<and> gameState (room voted2) = Voting \<and>
   gameHistory (room voted2) = [] \<and> statsLog voted2 = [] \<and>
   gameState (room ended3) = Ended \<and>
   length (gameHistory (room ended3)) = 1 \<and>
   map d_user (statsLog ended3) = [UserId 1, UserId 2, UserId 3] \<and>
   resets ended3 = 1"
  using reachable_p0_voted2
  by (simp add: ended3_eq voted2_eq voted1_eq voting3_eq skipped1_eq playing3_eq lobby3_eq
        created1_eq)

text \<open>
  Claim C6: the vote that completes the round appends exactly one outcome entry to the
  history and forwards the stats deltas once per player. In \<^verbatim>\<open>src/server.js\<close>, \<open>addVote\<close>
  calls \<open>endGame\<close>, and the handler of \<open>vote\<close>, finding the room \<open>ended\<close>, calls
  \<open>room.endGame()\<close> a second time to obtain the results: the last vote of the example round
  appends two entries, forwards two deltas for each of the three players and schedules two
  resets.
\<close>

theorem vote_srv_twice:
  "reachable_srv voted2_srv \<and> gameState (room voted2_srv) = Voting \<and>
   length (players (room voted2_srv)) = 3 \<and>
   gameHistory (room voted2_srv) = [] \<and> statsLog voted2_srv = [] \<and>
   gameState (room ended3_srv) = Ended \<and>
   length (gameHistory (room ended3_srv)) = 2 \<and>
   map d_user (statsLog ended3_srv) =
     [UserId 1, UserId 2, UserId 3, UserId 1, UserId 2, UserId 3] \<and>
   resets ended3_srv = 2"
  using reachable_srv_voted2
  by (simp add: ended3_srv_eq voted2_srv_full lobby3_eq created1_eq)

section \<open>addPlayer\<close>

text \<open>
  In \<^verbatim>\<open>src/unnamed/part_000\<close>, \<open>addPlayer\<close> rejects a player whose identity is in the room
  and a player for a full room, and leaves the room unchanged; so the identities of the
  players of a reachable room are distinct.
\<close>

lemma addPlayer_p0_unique_identity:
  "(player_id p \<in> player_id ` set (players rm) \<longrightarrow> addPlayer_p0 p rm = (False, rm)) \<and>
   (maxPlayers (settings rm) \<le> int (length (players rm)) \<longrightarrow> addPlayer_p0 p rm = (False, rm)) \<and>
   (distinct (map player_id (players rm)) \<longrightarrow>
      distinct (map player_id (players (snd (addPlayer_p0 p rm))))) \<and>
   (reachable_p0 s \<longrightarrow> distinct (map player_id (players (room s))))"
  using addPlayer_p0_duplicate addPlayer_p0_full addPlayer_p0_distinct
    reachable_p0_idsDistinct[of s]
  by (auto simp: idsDistinct_def)

text \<open>
  Claim C7: \<open>addPlayer\<close> with an identity already present is rejected and leaves the player
  list unchanged. \<^verbatim>\<open>src/server.js\<close> has only the check against \<open>maxPlayers\<close>: in the room of
  two players, the second player joins again and is pushed a second time.
\<close>

theorem addPlayer_srv_duplicate:
  "reachable_srv lobby2 \<and>
   map player_id (players (room lobby2)) = [UserId 1, UserId 2] \<and>
   player_id (newPlayer bob False) = UserId 2 \<and>
   maxPlayers (settings (room lobby2)) = 10 \<and>
   addPlayer_srv (newPlayer bob False) (room lobby2) = (True, room joinedTwice_srv) \<and>
   map player_id (players (room joinedTwice_srv)) = [UserId 1, UserId 2, UserId 2] \<and>
   reachable_srv joinedTwice_srv"
  using reachable_srv_lobby2 reachable_srv_joinedTwice
  by (simp add: joinedTwice_srv_eq lobby2_eq created1_eq addPlayer_srv_def newPlayer_def
        alice_def bob_def)

section \<open>addSkipVote\<close>

text \<open>
  Calling \<open>addSkipVote\<close> a second time with the same identity changes nothing, in both
  revisions. In \<^verbatim>\<open>src/unnamed/part_000\<close> the call returns whether the number of skip votes
  has reached \<open>ceil(playerCount / 2)\<close>, which is when it has called \<open>endRound\<close>.
\<close>

lemma addSkipVote_p0_idempotent:
  "skipVotes (currentRound (snd (addSkipVote_p0 i (snd (addSkipVote_p0 i rm))))) =
     skipVotes (currentRound (snd (addSkipVote_p0 i rm))) \<and>
   set (skipVotes (currentRound (snd (addSkipVote_p0 i rm)))) =
     insert i (set (skipVotes (currentRound rm))) \<and>
   addSkipVote_p0 i (snd (addSkipVote_p0 i rm)) = addSkipVote_p0 i rm \<and>
   skipVotes (currentRound (addSkipVote_srv i (addSkipVote_srv i rm))) =
     skipVotes (currentRound (addSkipVote_srv i rm)) \<and>
   (fst (addSkipVote_p0 i rm) \<longleftrightarrow>
      (length (players rm) + 1) div 2
        \<le> length (skipVotes (currentRound (snd (addSkipVote_p0 i rm))))) \<and>
   snd (addSkipVote_p0 i rm) =
     (if fst (addSkipVote_p0 i rm)
      then endRound (rm\<lparr>currentRound := (currentRound rm)
                  \<lparr>skipVotes := Set_add i (skipVotes (currentRound rm))\<rparr>\<rparr>)
      else rm\<lparr>currentRound := (currentRound rm)
                  \<lparr>skipVotes := Set_add i (skipVotes (currentRound rm))\<rparr>\<rparr>)"
proof (intro conjI)
  show "skipVotes (currentRound (snd (addSkipVote_p0 i (snd (addSkipVote_p0 i rm))))) =
     skipVotes (currentRound (snd (addSkipVote_p0 i rm)))"
    by (simp add: addSkipVote_p0_twice)
  show "set (skipVotes (currentRound (snd (addSkipVote_p0 i rm)))) =
     insert i (set (skipVotes (currentRound rm)))"
    by (simp add: addSkipVote_p0_skipVotes Set_add_set)
  show "addSkipVote_p0 i (snd (addSkipVote_p0 i rm)) = addSkipVote_p0 i rm"
    by (rule addSkipVote_p0_twice)
  show "skipVotes (currentRound (addSkipVote_srv i (addSkipVote_srv i rm))) =
     skipVotes (currentRound (addSkipVote_srv i rm))"
    by (simp add: addSkipVote_srv_twice)
  show "fst (addSkipVote_p0 i rm) \<longleftrightarrow>
      (length (players rm) + 1) div 2
        \<le> length (skipVotes (currentRound (snd (addSkipVote_p0 i rm))))"
    by (rule addSkipVote_p0_returns)
  show "snd (addSkipVote_p0 i rm) =
     (if fst (addSkipVote_p0 i rm)
      then endRound (rm\<lparr>currentRound := (currentRound rm)
                  \<lparr>skipVotes := Set_add i (skipVotes (currentRound rm))\<rparr>\<rparr>)
      else rm\<lparr>currentRound := (currentRound rm)
                  \<lparr>skipVotes := Set_add i (skipVotes (currentRound rm))\<rparr>\<rparr>)"
    by (simp add: addSkipVote_p0_def Let_def)
qed

text \<open>
  Claim C8: \<open>addSkipVote\<close> is idempotent per identity and returns whether quorum was just
  reached. In \<^verbatim>\<open>src/server.js\<close> the method has no \<open>return\<close> statement: in the room of three
  players with one skip vote, the second skip vote reaches the quorum and ends the round,
  and the call yields nothing (the model returns the room alone); a repeated call changes
  nothing.
\<close>

theorem addSkipVote_srv_no_result:
  "gameState (room skipped1_srv) = Playing \<and>
   length (players (room skipped1_srv)) = 3 \<and>
   skipVotes (currentRound (room skipped1_srv)) = [UserId 1] \<and>
   addSkipVote_srv (UserId 2) (room skipped1_srv) = room voting3_srv \<and>
   skipVotes (currentRound (room voting3_srv)) = [UserId 1, UserId 2] \<and>
   gameState (room voting3_srv) = Voting \<and>
   addSkipVote_srv (UserId 2) (room voting3_srv) = room voting3_srv"
  by (simp add: voting3_srv_eq skipped1_srv_eq playing3_srv_eq lobby3_eq created1_eq
        addSkipVote_srv_def Set_add_def Let_def endRound_def)

section \<open>updateSettings\<close>

text \<open>
  Claim C9, as amended. The handler of \<open>updateSettings\<close> (the same text in both revisions)
  merges the payload into the settings of the room exactly when the room exists and the
  identity of the issuing connection is the room's admin, whatever the \<open>gameState\<close>; it then
  broadcasts the room. In every other case it emits the error event to the issuing
  connection only and changes nothing.
\<close>

theorem updateSettings_gate:
  "(registered s \<and> adminId (room s) = c_userId c \<longrightarrow>
      updateSettings c p s =
        ([ToRoom RoomUpdate],
         s\<lparr>room := (room s)\<lparr>settings := mergeSettings (settings (room s)) p\<rparr>\<rparr>)) \<and>
   (\<not> (registered s \<and> adminId (room s) = c_userId c) \<longrightarrow>
      updateSettings c p s = ([ToSocket (c_socketId c) (ErrorMsg ''Keine Berechtigung'')], s))"
  by (simp add: updateSettings_def)

text \<open>
  The claim as written fails while a game is running: in the example room, which is in
  state \<open>playing\<close>, the admin's command is accepted, changes the theme and emits no error.
\<close>

theorem updateSettings_counterexample:
  "reachable_p0 playing3 \<and> gameState (room playing3) = Playing \<and>
   adminId (room playing3) = c_userId alice \<and>
   fst foodWhilePlaying = [ToRoom RoomUpdate] \<and>
   theme (settings (room playing3)) = ''animals'' \<and>
   theme (settings (room (snd foodWhilePlaying))) = ''food''"
  using reachable_p0_playing3
  by (simp add: foodWhilePlaying_eq playing3_eq lobby3_eq created1_eq alice_def)

theorem updateSettings_gate_witness:
  "registered lobby3 \<and> adminId (room lobby3) = c_userId alice \<and>
   updateSettings alice (themePatch ''space'') lobby3 = ([ToRoom RoomUpdate], spaceLobby) \<and>
   adminId (room lobby3) \<noteq> c_userId bob \<and>
   updateSettings bob (themePatch ''food'') lobby3 =
     ([ToSocket ''s2'' (ErrorMsg ''Keine Berechtigung'')], lobby3)"
proof -
  have a: "registered lobby3 \<and> adminId (room lobby3) = c_userId alice"
    by (simp add: lobby3_eq created1_eq alice_def)
  have b: "\<not> (registered lobby3 \<and> adminId (room lobby3) = c_userId bob)"
    by (simp add: lobby3_eq created1_eq bob_def)
  have m: "lobby3\<lparr>room := (room lobby3)
      \<lparr>settings := mergeSettings (settings (room lobby3)) (themePatch ''space'')\<rparr>\<rparr> = spaceLobby"
    by (simp add: spaceLobby_eq lobby3_eq created1_eq mergeSettings_def themePatch_def)
  show ?thesis
    using updateSettings_gate[of lobby3 alice "themePatch ''space''"]
      updateSettings_gate[of lobby3 bob "themePatch ''food''"] a b m
    by (simp add: bob_def)
qed

section \<open>skipVotes and the players\<close>












end
